theory Spec2Isabelle
  imports Complex_Main
begin


section \<open>Python values\<close>

text \<open>
  The agents exchange plain nested mappings of primitives: the payload of a message, the
  body of a provider reply and the data of a response are all JSON-like values. A
  dictionary is an association list in insertion order with string keys. Strings are
  byte strings in UTF-8 (the source text's accented letters are written as their bytes).
  A Python float is modelled as the real number it stands for, and every operation that
  yields a float rounds its exact result to the nearest float (\<open>fl\<close> below), as Python
  does. Infinities and NaN are outside the model: a result too large for a float is kept
  as a number.
\<close>

datatype pyval =
    PNone
  | PBool bool
  | PInt int
  | PFloat real
  | PStr string
  | PList "pyval list"
  | PDict "(string \<times> pyval) list"

text \<open>The exceptions the modelled code can raise; a handler returns \<open>Inl\<close> of one of them
  where the source raises.\<close>

datatype py_error =
    ValueError string
  | NameError string
  | KeyError string
  | TypeError
  | AttributeError
  | IndexError
  | OverflowError
  | ClientError

type_synonym 'a result = "py_error + 'a"

definition bind :: "'a result \<Rightarrow> ('a \<Rightarrow> 'b result) \<Rightarrow> 'b result" where
  "bind m f = (case m of Inl e \<Rightarrow> Inl e | Inr x \<Rightarrow> f x)"

subsection \<open>Dictionaries\<close>

definition dict_get :: "(string \<times> pyval) list \<Rightarrow> string \<Rightarrow> pyval option" where
  "dict_get d k = map_of d k"

text \<open>\<open>d[k] = v\<close>: an existing key keeps its place, a new key goes last.\<close>

fun dict_set :: "(string \<times> pyval) list \<Rightarrow> string \<Rightarrow> pyval \<Rightarrow> (string \<times> pyval) list" where
  "dict_set [] k v = [(k, v)]"
| "dict_set ((k', v') # d) k v = (if k' = k then (k, v) # d else (k', v') # dict_set d k v)"

definition dict_keys :: "(string \<times> pyval) list \<Rightarrow> string list" where
  "dict_keys d = map fst d"

text \<open>\<open>x.get(k, default)\<close>: only a dictionary has the method.\<close>

definition py_get :: "pyval \<Rightarrow> string \<Rightarrow> pyval \<Rightarrow> pyval result" where
  "py_get x k dflt =
     (case x of
        PDict d \<Rightarrow> Inr (case dict_get d k of Some v \<Rightarrow> v | None \<Rightarrow> dflt)
      | _ \<Rightarrow> Inl AttributeError)"

text \<open>\<open>x[k]\<close> with a string key: a missing key of a dictionary raises KeyError, a list or
  a string cannot be indexed by a string, the other values cannot be indexed at all.\<close>

definition py_item :: "pyval \<Rightarrow> string \<Rightarrow> pyval result" where
  "py_item x k =
     (case x of
        PDict d \<Rightarrow> (case dict_get d k of Some v \<Rightarrow> Inr v | None \<Rightarrow> Inl (KeyError k))
      | _ \<Rightarrow> Inl TypeError)"

text \<open>\<open>x[0]\<close>.\<close>

definition py_first :: "pyval \<Rightarrow> pyval result" where
  "py_first x =
     (case x of
        PList [] \<Rightarrow> Inl IndexError
      | PList (v # _) \<Rightarrow> Inr v
      | PStr [] \<Rightarrow> Inl IndexError
      | PStr (c # _) \<Rightarrow> Inr (PStr [c])
      | PDict d \<Rightarrow> Inl (KeyError ''0'')
      | _ \<Rightarrow> Inl TypeError)"

subsection \<open>Floats\<close>

text \<open>The nearest integer, a tie going to the even one.\<close>

definition round_half_even :: "real \<Rightarrow> int" where
  "round_half_even x =
     (let f = \<lfloor>x\<rfloor>; d = x - of_int f
      in if d < 1 / 2 then f else if 1 / 2 < d then f + 1 else if even f then f else f + 1)"

text \<open>The number of binary digits of a positive integer, and the powers of two.\<close>

function bit_length :: "int \<Rightarrow> nat" where
  "bit_length n = (if n \<le> 0 then 0 else Suc (bit_length (n div 2)))"
  by pat_completeness auto
termination
  by (relation "measure nat") auto

declare bit_length.simps [simp del]

definition pow2 :: "int \<Rightarrow> real" where
  "pow2 e = (if 0 \<le> e then 2 ^ nat e else 1 / 2 ^ nat (- e))"

text \<open>The exponent \<open>e\<close> of a number other than zero: \<open>2^e \<le> |x| < 2^(e+1)\<close>.\<close>

definition binade :: "real \<Rightarrow> int" where
  "binade x =
     (let a = \<bar>x\<bar>
      in if 1 \<le> a then int (bit_length \<lfloor>a\<rfloor>) - 1
         else (let k = int (bit_length \<lfloor>1 / a\<rfloor>) - 1
               in if a * pow2 k = 1 then - k else - k - 1))"

text \<open>Rounding to a float (IEEE 754 binary64, round to nearest, ties to even): 53
  significant binary digits, and below \<open>2^-1022\<close> the multiples of \<open>2^-1074\<close>.\<close>

definition fl :: "real \<Rightarrow> real" where
  "fl x =
     (if x = 0 then 0
      else (let q = pow2 (max (binade x) (- 1022) - 52)
            in of_int (round_half_even (x / q)) * q))"

subsection \<open>Truth value, numbers, comparison\<close>

fun truthy :: "pyval \<Rightarrow> bool" where
  "truthy PNone = False"
| "truthy (PBool b) = b"
| "truthy (PInt i) = (i \<noteq> 0)"
| "truthy (PFloat r) = (r \<noteq> 0)"
| "truthy (PStr s) = (s \<noteq> [])"
| "truthy (PList xs) = (xs \<noteq> [])"
| "truthy (PDict d) = (d \<noteq> [])"

text \<open>The number a numeric value stands for; \<open>bool\<close> is a subtype of \<open>int\<close> in Python.\<close>

fun num_of :: "pyval \<Rightarrow> real option" where
  "num_of (PBool b) = Some (if b then 1 else 0)"
| "num_of (PInt i) = Some (of_int i)"
| "num_of (PFloat r) = Some r"
| "num_of _ = None"

fun int_of :: "pyval \<Rightarrow> int option" where
  "int_of (PBool b) = Some (if b then 1 else 0)"
| "int_of (PInt i) = Some i"
| "int_of _ = None"

fun str_lt :: "string \<Rightarrow> string \<Rightarrow> bool" where
  "str_lt [] [] = False"
| "str_lt [] (d # t) = True"
| "str_lt (c # s) [] = False"
| "str_lt (c # s) (d # t) =
     ((of_char c :: nat) < of_char d \<or> (c = d \<and> str_lt s t))"

text \<open>\<open>==\<close> on values: numbers compare by value across \<open>bool\<close>, \<open>int\<close> and \<open>float\<close>,
  lists element by element, dictionaries key by key whatever the order.\<close>

fun py_eq :: "pyval \<Rightarrow> pyval \<Rightarrow> bool" where
  "py_eq (PList xs) y =
     (case y of
        PList ys \<Rightarrow>
          (case (xs, ys) of
             ([], []) \<Rightarrow> True
           | (a # as, b # bs) \<Rightarrow> py_eq a b \<and> py_eq (PList as) (PList bs)
           | _ \<Rightarrow> False)
      | _ \<Rightarrow> False)"
| "py_eq (PDict d) y =
     (case y of
        PDict d' \<Rightarrow> length d = length d' \<and>
           list_all (\<lambda>(k, v). case dict_get d' k of None \<Rightarrow> False | Some v' \<Rightarrow> py_eq v v') d
      | _ \<Rightarrow> False)"
| "py_eq (PStr s) y = (y = PStr s)"
| "py_eq PNone y = (y = PNone)"
| "py_eq x y = (case (num_of x, num_of y) of (Some a, Some b) \<Rightarrow> a = b | _ \<Rightarrow> False)"

text \<open>\<open>x < y\<close>: defined between two numbers, two strings and two lists; every other
  pair raises TypeError. Two lists are ordered by their first differing elements, and by
  length when one is a prefix of the other.\<close>

fun py_lt :: "pyval \<Rightarrow> pyval \<Rightarrow> bool result" where
  "py_lt (PList xs) y =
     (case y of
        PList ys \<Rightarrow>
          (case (xs, ys) of
             ([], []) \<Rightarrow> Inr False
           | ([], _ # _) \<Rightarrow> Inr True
           | (_ # _, []) \<Rightarrow> Inr False
           | (a # as, b # bs) \<Rightarrow> if py_eq a b then py_lt (PList as) (PList bs) else py_lt a b)
      | _ \<Rightarrow> Inl TypeError)"
| "py_lt (PStr s) y = (case y of PStr t \<Rightarrow> Inr (str_lt s t) | _ \<Rightarrow> Inl TypeError)"
| "py_lt x y = (case (num_of x, num_of y) of (Some a, Some b) \<Rightarrow> Inr (a < b) | _ \<Rightarrow> Inl TypeError)"

definition py_gt :: "pyval \<Rightarrow> pyval \<Rightarrow> bool result" where
  "py_gt x y = py_lt y x"

text \<open>\<open>float(i)\<close> of an integer rounds, and raises OverflowError when the rounded value
  is beyond the floats, which end below \<open>2^1024\<close>; an operand of float arithmetic is
  converted so.\<close>

definition float_limit :: real where
  "float_limit = 2 ^ 1024"

definition float_of_int :: "int \<Rightarrow> real result" where
  "float_of_int i =
     (let r = fl (of_int i) in if \<bar>r\<bar> < float_limit then Inr r else Inl OverflowError)"

definition float_of :: "pyval \<Rightarrow> real result" where
  "float_of v =
     (case v of
        PFloat r \<Rightarrow> Inr r
      | PInt i \<Rightarrow> float_of_int i
      | PBool b \<Rightarrow> Inr (if b then 1 else 0)
      | _ \<Rightarrow> Inl TypeError)"

text \<open>\<open>x + y\<close>: two integers add exactly to an integer; two numbers one of which is a
  float add as floats, the sum rounded; strings and lists concatenate; every other pair
  raises TypeError.\<close>

definition py_add :: "pyval \<Rightarrow> pyval \<Rightarrow> pyval result" where
  "py_add x y =
     (case (x, y) of
        (PStr s, PStr t) \<Rightarrow> Inr (PStr (s @ t))
      | (PList xs, PList ys) \<Rightarrow> Inr (PList (xs @ ys))
      | _ \<Rightarrow>
          (case (int_of x, int_of y) of
             (Some a, Some b) \<Rightarrow> Inr (PInt (a + b))
           | _ \<Rightarrow>
               if num_of x = None \<or> num_of y = None then Inl TypeError
               else bind (float_of x) (\<lambda>a.
                    bind (float_of y) (\<lambda>b. Inr (PFloat (fl (a + b)))))))"

text \<open>The characters of a string: each lead byte with the continuation bytes
  (\<open>0x80\<close> to \<open>0xBF\<close>) after it.\<close>

definition is_continuation :: "char \<Rightarrow> bool" where
  "is_continuation c = (128 \<le> (of_char c :: nat) \<and> (of_char c :: nat) < 192)"

function code_points :: "string \<Rightarrow> string list" where
  "code_points [] = []"
| "code_points (c # cs) =
     (c # takeWhile is_continuation cs) # code_points (dropWhile is_continuation cs)"
  by pat_completeness auto
termination
  by (relation "measure length") (auto simp: length_dropWhile_le less_Suc_eq_le)

text \<open>What a \<open>for\<close> loop or \<open>zip\<close> iterates over: the elements of a list, the characters
  of a string, the keys of a dictionary; nothing else is iterable.\<close>

definition py_iter :: "pyval \<Rightarrow> pyval list result" where
  "py_iter x =
     (case x of
        PList xs \<Rightarrow> Inr xs
      | PStr s \<Rightarrow> Inr (map PStr (code_points s))
      | PDict d \<Rightarrow> Inr (map (\<lambda>kv. PStr (fst kv)) d)
      | _ \<Rightarrow> Inl TypeError)"


section \<open>Strings and numbers of the Python runtime\<close>

text \<open>\<open>str.lower\<close> and \<open>str.upper\<close>, on the ASCII letters; the other bytes stay as they
  are (every message type, currency code and keyword the agents test is ASCII).\<close>

definition lower_char :: "char \<Rightarrow> char" where
  "lower_char c =
     (case map_of (zip ''ABCDEFGHIJKLMNOPQRSTUVWXYZ'' ''abcdefghijklmnopqrstuvwxyz'') c of
        Some l \<Rightarrow> l
      | None \<Rightarrow> c)"

definition upper_char :: "char \<Rightarrow> char" where
  "upper_char c =
     (case map_of (zip ''abcdefghijklmnopqrstuvwxyz'' ''ABCDEFGHIJKLMNOPQRSTUVWXYZ'') c of
        Some u \<Rightarrow> u
      | None \<Rightarrow> c)"

definition lower :: "string \<Rightarrow> string" where
  "lower s = map lower_char s"

definition upper :: "string \<Rightarrow> string" where
  "upper s = map upper_char s"

fun starts_with :: "string \<Rightarrow> string \<Rightarrow> bool" where
  "starts_with s [] = True"
| "starts_with [] (p # ps) = False"
| "starts_with (c # cs) (p # ps) = (c = p \<and> starts_with cs ps)"

text \<open>\<open>sub in s\<close> for two strings.\<close>

fun contains :: "string \<Rightarrow> string \<Rightarrow> bool" where
  "contains [] sub = (sub = [])"
| "contains (c # cs) sub = (starts_with (c # cs) sub \<or> contains cs sub)"

text \<open>\<open>s in x\<close> for a string \<open>s\<close>: a key of a dictionary, an element of a list, a substring
  of a string.\<close>

definition py_contains :: "pyval \<Rightarrow> string \<Rightarrow> bool result" where
  "py_contains x s =
     (case x of
        PDict d \<Rightarrow> Inr (dict_get d s \<noteq> None)
      | PList xs \<Rightarrow> Inr (PStr s \<in> set xs)
      | PStr t \<Rightarrow> Inr (contains t s)
      | _ \<Rightarrow> Inl TypeError)"

text \<open>\<open>x.lower()\<close> and \<open>x.upper()\<close>: only a string has the methods.\<close>

definition py_lower :: "pyval \<Rightarrow> string result" where
  "py_lower x = (case x of PStr s \<Rightarrow> Inr (lower s) | _ \<Rightarrow> Inl AttributeError)"

definition py_upper :: "pyval \<Rightarrow> string result" where
  "py_upper x = (case x of PStr s \<Rightarrow> Inr (upper s) | _ \<Rightarrow> Inl AttributeError)"

text \<open>The decimal text of an integer, as an f-string prints it.\<close>

definition digit_char :: "nat \<Rightarrow> char" where
  "digit_char d = ''0123456789'' ! d"

function digits :: "nat \<Rightarrow> string" where
  "digits n = (if n < 10 then [digit_char n] else digits (n div 10) @ [digit_char (n mod 10)])"
  by pat_completeness auto
termination
  by (relation "measure id") auto

declare digits.simps [simp del]

definition str_of_int :: "int \<Rightarrow> string" where
  "str_of_int i = (if i < 0 then CHR ''-'' # digits (nat (- i)) else digits (nat i))"

text \<open>\<open>round(x, n)\<close> of a float: the float nearest to the multiple of \<open>10^-n\<close> that is
  nearest to \<open>x\<close>, a tie going to the even multiple.\<close>

definition py_round :: "real \<Rightarrow> nat \<Rightarrow> real" where
  "py_round x n = fl (of_int (round_half_even (x * 10 ^ n)) / 10 ^ n)"

text \<open>\<open>round(v, n)\<close> on a value: an integer stays an integer.\<close>

definition py_round_val :: "pyval \<Rightarrow> nat \<Rightarrow> pyval result" where
  "py_round_val v n =
     (case v of
        PFloat r \<Rightarrow> Inr (PFloat (py_round r n))
      | PInt i \<Rightarrow> Inr (PInt i)
      | PBool b \<Rightarrow> Inr (PInt (if b then 1 else 0))
      | _ \<Rightarrow> Inl TypeError)"

text \<open>\<open>int(x)\<close> of a float truncates towards zero.\<close>

definition py_int :: "real \<Rightarrow> int" where
  "py_int x = (if 0 \<le> x then \<lfloor>x\<rfloor> else \<lceil>x\<rceil>)"

text \<open>\<open>v / 1000\<close> and \<open>v * 100\<close>: true division is for numbers only and always gives a
  float, the quotient of an integer being rounded once; multiplication by an integer
  also repeats a string or a list.\<close>

definition py_div_1000 :: "pyval \<Rightarrow> pyval result" where
  "py_div_1000 v =
     (case v of
        PFloat r \<Rightarrow> Inr (PFloat (fl (r / 1000)))
      | _ \<Rightarrow>
          (case int_of v of
             Some i \<Rightarrow>
               (let r = fl (of_int i / 1000)
                in if \<bar>r\<bar> < float_limit then Inr (PFloat r) else Inl OverflowError)
           | None \<Rightarrow> Inl TypeError))"

definition py_mul_100 :: "pyval \<Rightarrow> pyval result" where
  "py_mul_100 v =
     (case v of
        PStr s \<Rightarrow> Inr (PStr (concat (replicate 100 s)))
      | PList xs \<Rightarrow> Inr (PList (concat (replicate 100 xs)))
      | PFloat r \<Rightarrow> Inr (PFloat (fl (r * 100)))
      | _ \<Rightarrow> (case int_of v of Some i \<Rightarrow> Inr (PInt (i * 100)) | None \<Rightarrow> Inl TypeError))"

text \<open>\<open>x - y\<close> and \<open>abs(x)\<close> are for numbers only.\<close>

definition py_sub :: "pyval \<Rightarrow> pyval \<Rightarrow> pyval result" where
  "py_sub x y =
     (case (int_of x, int_of y) of
        (Some a, Some b) \<Rightarrow> Inr (PInt (a - b))
      | _ \<Rightarrow>
          if num_of x = None \<or> num_of y = None then Inl TypeError
          else bind (float_of x) (\<lambda>a.
               bind (float_of y) (\<lambda>b. Inr (PFloat (fl (a - b))))))"

definition py_abs :: "pyval \<Rightarrow> pyval result" where
  "py_abs x =
     (case int_of x of
        Some a \<Rightarrow> Inr (PInt \<bar>a\<bar>)
      | None \<Rightarrow> (case num_of x of Some a \<Rightarrow> Inr (PFloat \<bar>a\<bar>) | None \<Rightarrow> Inl TypeError))"

text \<open>\<open>xs[:n]\<close> on a list of known length: a negative \<open>n\<close> counts from the end.\<close>

definition slice_to :: "'a list \<Rightarrow> int \<Rightarrow> 'a list" where
  "slice_to xs n = (if 0 \<le> n then take (nat n) xs else take (length xs - nat (- n)) xs)"

text \<open>Every eighth element, the first one included: \<open>xs[::8]\<close>.\<close>

fun every_8th :: "'a list \<Rightarrow> 'a list" where
  "every_8th [] = []"
| "every_8th (x # xs) = x # every_8th (drop 7 xs)"

section \<open>The world outside the agents\<close>

text \<open>
  What an agent reads from outside is given by the world: the wall clock, the remote
  provider and the random generator, each as the sequence of its successive answers with
  a counter of the answers taken so far. The provider is the abstraction
  \<open>get(url, params) -> (status_code, body)\<close>: a call either raises (\<open>Refused\<close>) or
  replies with a status and a body, \<open>None\<close> standing for a body that is not JSON. The
  calls made so far are kept in \<open>calls\<close>. The text Python prints for a float, a
  date or a container is not modelled: the world carries the printing functions.
\<close>

record request =
  url :: string
  params :: "(string \<times> pyval) list"

datatype reply = Refused | Reply int "pyval option"

record world =
  clock :: "nat \<Rightarrow> real"
  ticks :: nat
  provider :: "nat \<Rightarrow> request \<Rightarrow> reply"
  calls :: "request list"
  unit_random :: "nat \<Rightarrow> real"
  rand_below :: "nat \<Rightarrow> nat \<Rightarrow> nat"
  draws :: nat
  str_of :: "pyval \<Rightarrow> string"
  format_float :: "string \<Rightarrow> real \<Rightarrow> string"
  isoformat :: "real \<Rightarrow> string"
  strftime :: "string \<Rightarrow> real \<Rightarrow> string"
  title_case :: "string \<Rightarrow> string"

text \<open>\<open>datetime.now()\<close>, as seconds since the epoch.\<close>

definition now :: "world \<Rightarrow> real \<times> world" where
  "now w = (clock w (ticks w), w\<lparr>ticks := Suc (ticks w)\<rparr>)"

definition http_get :: "request \<Rightarrow> world \<Rightarrow> reply \<times> world" where
  "http_get rq w = (provider w (length (calls w)) rq, w\<lparr>calls := calls w @ [rq]\<rparr>)"

text \<open>\<open>random.uniform(a, b)\<close> is \<open>a + (b - a) * random()\<close>, in float arithmetic.\<close>

definition uniform :: "real \<Rightarrow> real \<Rightarrow> world \<Rightarrow> real \<times> world" where
  "uniform a b w =
     (fl (a + fl (fl (b - a) * unit_random w (draws w))), w\<lparr>draws := Suc (draws w)\<rparr>)"

text \<open>\<open>random.randint(a, b)\<close> and \<open>random.choice(xs)\<close> draw an index below the size of
  the range.\<close>

definition randint :: "int \<Rightarrow> int \<Rightarrow> world \<Rightarrow> int \<times> world" where
  "randint a b w =
     (let n = nat (b - a + 1)
      in (a + int (rand_below w (draws w) n mod n), w\<lparr>draws := Suc (draws w)\<rparr>))"

definition choice :: "'a list \<Rightarrow> world \<Rightarrow> 'a \<times> world" where
  "choice xs w =
     (xs ! (rand_below w (draws w) (length xs) mod length xs), w\<lparr>draws := Suc (draws w)\<rparr>)"

text \<open>A value inside an f-string: a string stands for itself, an integer is printed in
  decimal, \<open>None\<close> as \<open>None\<close>, anything else by the world's printing function.\<close>

definition fmt :: "world \<Rightarrow> pyval \<Rightarrow> string" where
  "fmt w v =
     (case v of
        PStr s \<Rightarrow> s
      | PInt i \<Rightarrow> str_of_int i
      | PNone \<Rightarrow> ''None''
      | _ \<Rightarrow> str_of w v)"

section \<open>The agent contract\<close>

text \<open>
  Modelled from the spec: the base class \<open>BaseMCPAgent\<close> with \<open>MCPMessage\<close>, the response
  envelope, \<open>create_message\<close> and \<open>process_message\<close> is not among the sources. A message is
  its type and payload (the creation time is left out: no modelled code reads it). A
  response is \<open>{success, data, error}\<close> with exactly one of \<open>data\<close> and \<open>error\<close> populated.
  \<open>process_message\<close>, for an agent that is Ready, runs the agent's handler and converts
  every exception of the handler into a failed response carrying its description; a
  handler that returns yields a successful response carrying what it returned.
\<close>

record mcp_message =
  message_type :: string
  payload :: "(string \<times> pyval) list"

record mcp_response =
  success :: bool
  data :: pyval
  error :: "string option"

definition create_message :: "string \<Rightarrow> (string \<times> pyval) list \<Rightarrow> mcp_message" where
  "create_message t p = \<lparr>message_type = t, payload = p\<rparr>"

text \<open>Modelled from the spec: the description an exception is reported with. It is
  \<open>str(e)\<close> for the exceptions whose text the sources fix; for the others the class name
  stands for the text.\<close>

definition describe :: "py_error \<Rightarrow> string" where
  "describe e =
     (case e of
        ValueError s \<Rightarrow> s
      | NameError n \<Rightarrow> ''name '' @ [CHR 0x27] @ n @ [CHR 0x27] @ '' is not defined''
      | KeyError k \<Rightarrow> [CHR 0x27] @ k @ [CHR 0x27]
      | TypeError \<Rightarrow> ''TypeError''
      | AttributeError \<Rightarrow> ''AttributeError''
      | IndexError \<Rightarrow> ''IndexError''
      | OverflowError \<Rightarrow> ''OverflowError''
      | ClientError \<Rightarrow> ''ClientError'')"

text \<open>Modelled from the spec: \<open>process(message) -> Response\<close> of section 4.1.\<close>

definition process_message ::
  "(mcp_message \<Rightarrow> 's \<Rightarrow> pyval result \<times> 's) \<Rightarrow> mcp_message \<Rightarrow> 's \<Rightarrow> mcp_response \<times> 's" where
  "process_message handler m s =
     (case handler m s of
        (Inr v, s') \<Rightarrow> (\<lparr>success = True, data = v, error = None\<rparr>, s')
      | (Inl e, s') \<Rightarrow> (\<lparr>success = False, data = PNone, error = Some (describe e)\<rparr>, s'))"

text \<open>A field of the payload that a handler takes as \<open>str\<close>, \<open>int\<close> or \<open>List[str]\<close>, with
  the default of \<open>payload.get\<close>. The handlers are modelled at their annotated types: a
  field of another type is outside the model and is answered with TypeError.\<close>

definition payload_str :: "(string \<times> pyval) list \<Rightarrow> string \<Rightarrow> string \<Rightarrow> string result" where
  "payload_str p k dflt =
     (case dict_get p k of None \<Rightarrow> Inr dflt | Some (PStr s) \<Rightarrow> Inr s | Some _ \<Rightarrow> Inl TypeError)"

definition payload_int :: "(string \<times> pyval) list \<Rightarrow> string \<Rightarrow> int \<Rightarrow> int result" where
  "payload_int p k dflt =
     (case dict_get p k of None \<Rightarrow> Inr dflt | Some (PInt i) \<Rightarrow> Inr i | Some _ \<Rightarrow> Inl TypeError)"

fun strings_of :: "pyval list \<Rightarrow> string list result" where
  "strings_of [] = Inr []"
| "strings_of (PStr s # vs) = bind (strings_of vs) (\<lambda>ss. Inr (s # ss))"
| "strings_of (_ # vs) = Inl TypeError"

definition payload_strs ::
  "(string \<times> pyval) list \<Rightarrow> string \<Rightarrow> string list \<Rightarrow> string list result" where
  "payload_strs p k dflt =
     (case dict_get p k of
        None \<Rightarrow> Inr dflt
      | Some (PList vs) \<Rightarrow> strings_of vs
      | Some _ \<Rightarrow> Inl TypeError)"

definition msg_unsupported :: string where
  "msg_unsupported = ''Tipo de mensagem n'' @ [CHR 0xC3, CHR 0xA3] @ ''o suportado: ''"

definition sao_paulo :: string where
  "sao_paulo = ''S'' @ [CHR 0xC3, CHR 0xA3] @ ''o Paulo''"

definition simulated_source :: string where
  "simulated_source = ''Dados Simulados''"


section \<open>Finance agent\<close>

text \<open>
  The agent after \<open>_custom_initialize\<close>: the provider session and the cache, a mapping
  from the cache key to the cached data and the time it was stored. The handlers are
  \<open>async\<close> in the source and run one after the other; each is a function from the agent
  and the world to the result, the agent and the world afterwards.
\<close>

record finance_agent =
  f_session :: bool
  cache :: "string \<Rightarrow> (pyval \<times> real) option"

definition exchange_rate_api :: string where
  "exchange_rate_api = ''https://api.exchangerate-api.com/v4/latest''"

definition crypto_api :: string where
  "crypto_api = ''https://api.coingecko.com/api/v3''"

definition cache_timeout :: real where
  "cache_timeout = 300"

subsection \<open>\<open>_cache_data\<close> and \<open>_is_cache_valid\<close>\<close>

text \<open>An entry is stored with the reading of the clock at that moment; it is valid while
  the difference of the clock and that reading, a float subtraction, is below the
  timeout.\<close>

definition cache_data ::
  "string \<Rightarrow> pyval \<Rightarrow> finance_agent \<Rightarrow> world \<Rightarrow> finance_agent \<times> world" where
  "cache_data key d a w =
     (let (t, w') = now w in (a\<lparr>cache := (cache a)(key \<mapsto> (d, t))\<rparr>, w'))"

definition is_cache_valid :: "string \<Rightarrow> finance_agent \<Rightarrow> world \<Rightarrow> bool \<times> world" where
  "is_cache_valid key a w =
     (case cache a key of
        None \<Rightarrow> (False, w)
      | Some entry \<Rightarrow> (let (t, w') = now w in (fl (t - snd entry) < cache_timeout, w')))"

text \<open>\<open>self.cache[cache_key]["data"]\<close>.\<close>

definition cached :: "string \<Rightarrow> finance_agent \<Rightarrow> pyval result" where
  "cached key a = (case cache a key of Some entry \<Rightarrow> Inr (fst entry) | None \<Rightarrow> Inl (KeyError key))"

subsection \<open>Simulated values\<close>

text \<open>A decimal literal of the source that is no binary fraction stands for the float
  nearest to it.\<close>

definition simulated_rates :: "(string \<times> real) list" where
  "simulated_rates =
     [(''USD_BRL'', fl 5.20), (''EUR_BRL'', fl 5.80), (''GBP_BRL'', 6.50), (''USD_EUR'', fl 0.90),
      (''USD_GBP'', fl 0.80)]"

definition get_simulated_exchange_rate :: "string \<Rightarrow> string \<Rightarrow> world \<Rightarrow> pyval \<times> world" where
  "get_simulated_exchange_rate base target w =
     (let key = base @ ''_'' @ target;
          reverse_key = target @ ''_'' @ base;
          (base_rate, w1) =
            (case map_of simulated_rates key of
               Some r \<Rightarrow> (r, w)
             | None \<Rightarrow>
                 (case map_of simulated_rates reverse_key of
                    Some r \<Rightarrow> (fl (1 / r), w)
                  | None \<Rightarrow> uniform 0.5 10.0 w));
          (variation, w2) = uniform (- fl 0.05) (fl 0.05) w1;
          final_rate = fl (base_rate * fl (1 + variation));
          (t, w3) = now w2
      in (PDict [(''par'', PStr (base @ ''/'' @ target)),
                 (''taxa'', PFloat (py_round final_rate 4)),
                 (''base'', PStr (upper base)),
                 (''target'', PStr (upper target)),
                 (''timestamp'', PInt (py_int t)),
                 (''fonte'', PStr simulated_source)], w3))"

definition base_prices :: "(string \<times> real) list" where
  "base_prices =
     [(''bitcoin'', 200000), (''ethereum'', 12000), (''cardano'', 2.5), (''solana'', 150),
      (''dogecoin'', fl 0.40)]"

text \<open>The default of \<open>base_prices.get\<close> is an argument: the random price is drawn whether
  the crypto is in the table or not.\<close>

definition get_simulated_crypto_price :: "string \<Rightarrow> string \<Rightarrow> world \<Rightarrow> pyval \<times> world" where
  "get_simulated_crypto_price crypto currency w =
     (let (dflt, w1) = uniform 1 1000 w;
          base_price = (case map_of base_prices (lower crypto) of Some p \<Rightarrow> p | None \<Rightarrow> dflt);
          (variation, w2) = uniform (- 10) 10 w1;
          (volume, w3) = randint 1000000 50000000 w2;
          (t, w4) = now w3
      in (PDict [(''crypto'', PStr (upper crypto)),
                 (''moeda'', PStr (upper currency)),
                 (''preco'', PFloat (py_round (fl (base_price * fl (1 + fl (variation / 100)))) 2)),
                 (''variacao_24h'', PFloat (py_round variation 2)),
                 (''volume_24h'', PInt volume),
                 (''timestamp'', PInt (py_int t)),
                 (''fonte'', PStr simulated_source)], w4))"

definition cryptos_populares :: "string list" where
  "cryptos_populares =
     [''Bitcoin'', ''Ethereum'', ''Cardano'', ''Solana'', ''Dogecoin'', ''Polkadot'',
      ''Chainlink'', ''Litecoin'', ''XRP'', ''Polygon'']"

text \<open>The loop over \<open>enumerate(cryptos_populares[:limit])\<close>, from index \<open>i\<close>.\<close>

fun simulated_cryptos :: "string list \<Rightarrow> nat \<Rightarrow> world \<Rightarrow> pyval list \<times> world" where
  "simulated_cryptos [] i w = ([], w)"
| "simulated_cryptos (crypto # rest) i w =
     (let (price, w1) = uniform (fl 0.1) 300000 w;
          (market_cap, w2) = randint 1000000000 1000000000000 w1;
          (variation, w3) = uniform (- 15) 15 w2;
          (volume, w4) = randint 100000000 10000000000 w3;
          entry = PDict [(''rank'', PInt (int i + 1)),
                         (''nome'', PStr crypto),
                         (''simbolo'', PStr (upper (take 3 crypto))),
                         (''preco'', PFloat (py_round price 2)),
                         (''market_cap'', PInt market_cap),
                         (''variacao_24h'', PFloat (py_round variation 2)),
                         (''volume_24h'', PInt volume)];
          (entries, w5) = simulated_cryptos rest (Suc i) w4
      in (entry # entries, w5))"

definition get_simulated_top_cryptos :: "int \<Rightarrow> string \<Rightarrow> world \<Rightarrow> pyval \<times> world" where
  "get_simulated_top_cryptos limit currency w =
     (let (cryptos, w1) = simulated_cryptos (slice_to cryptos_populares limit) 0 w;
          (t, w2) = now w1
      in (PDict [(''top_cryptos'', PList cryptos),
                 (''moeda'', PStr (upper currency)),
                 (''limite'', PInt limit),
                 (''timestamp'', PInt (py_int t)),
                 (''fonte'', PStr simulated_source)], w2))"

definition get_simulated_market_summary :: "world \<Rightarrow> pyval \<times> world" where
  "get_simulated_market_summary w =
     (let (usd, w1) = uniform 5.0 5.5 w;
          (eur, w2) = uniform 5.5 6.0 w1;
          (btc, w3) = uniform 180000 220000 w2;
          (btc_var, w4) = uniform (- 5) 5 w3;
          (eth, w5) = uniform 10000 14000 w4;
          (eth_var, w6) = uniform (- 8) 8 w5;
          (t, w7) = now w6;
          (t', w8) = now w7
      in (PDict [(''moedas'', PDict [(''USD/BRL'', PFloat (py_round usd 4)),
                                      (''EUR/BRL'', PFloat (py_round eur 4))]),
                 (''cryptos'', PDict
                    [(''Bitcoin'', PDict [(''preco'', PFloat (py_round btc 2)),
                                           (''variacao_24h'', PFloat (py_round btc_var 2))]),
                     (''Ethereum'', PDict [(''preco'', PFloat (py_round eth 2)),
                                            (''variacao_24h'', PFloat (py_round eth_var 2))])]),
                 (''timestamp'', PInt (py_int t)),
                 (''resumo_gerado_em'', PStr (isoformat w8 t')),
                 (''fonte'', PStr simulated_source)], w8))"

subsection \<open>\<open>_get_exchange_rate\<close>\<close>

text \<open>The body of the \<open>try\<close> once the reply's JSON is at hand: the result to cache and
  return, \<open>None\<close> when the target is not among the rates, or the exception raised on the
  way.\<close>

definition exchange_result :: "string \<Rightarrow> string \<Rightarrow> pyval \<Rightarrow> pyval option result" where
  "exchange_result base target body =
     bind (py_item body ''rates'') (\<lambda>rates.
     bind (py_contains rates (upper target)) (\<lambda>found.
       if found then
         bind (py_item rates (upper target)) (\<lambda>taxa.
         bind (py_item body ''time_last_updated'') (\<lambda>stamp.
           Inr (Some (PDict [(''par'', PStr (base @ ''/'' @ target)),
                             (''taxa'', taxa),
                             (''base'', PStr (upper base)),
                             (''target'', PStr (upper target)),
                             (''timestamp'', stamp),
                             (''fonte'', PStr ''ExchangeRate-API'')]))))
       else Inr None))"

definition get_exchange_rate ::
  "string \<Rightarrow> string \<Rightarrow> finance_agent \<Rightarrow> world \<Rightarrow> pyval result \<times> finance_agent \<times> world" where
  "get_exchange_rate base target a w =
     (let cache_key = ''exchange_'' @ base @ ''_'' @ target;
          (valid, w1) = is_cache_valid cache_key a w
      in if valid then (cached cache_key a, a, w1)
         else if \<not> f_session a then (Inr PNone, a, w1)
         else
           (let (rep, w2) = http_get \<lparr>url = exchange_rate_api @ ''/'' @ base, params = []\<rparr> w1;
                simulated = (let (r, w3) = get_simulated_exchange_rate base target w2
                             in (Inr r, a, w3))
            in case rep of
                 Refused \<Rightarrow> simulated
               | Reply status body \<Rightarrow>
                   if status = 200 then
                     (case body of
                        None \<Rightarrow> simulated
                      | Some json \<Rightarrow>
                          (case exchange_result base target json of
                             Inl e \<Rightarrow> simulated
                           | Inr None \<Rightarrow> simulated
                           | Inr (Some result) \<Rightarrow>
                               (let (a', w3) = cache_data cache_key result a w2
                                in (Inr result, a', w3))))
                   else simulated))"

subsection \<open>\<open>_get_crypto_price\<close>\<close>

text \<open>The body of the \<open>try\<close> once the JSON is at hand; the timestamp of the result is read
  from the clock.\<close>

definition crypto_result :: "string \<Rightarrow> string \<Rightarrow> pyval \<Rightarrow> world \<Rightarrow> pyval option result \<times> world" where
  "crypto_result crypto currency body w =
     (case py_contains body (lower crypto) of
        Inl e \<Rightarrow> (Inl e, w)
      | Inr False \<Rightarrow> (Inr None, w)
      | Inr True \<Rightarrow>
          (case bind (py_item body (lower crypto)) (\<lambda>crypto_data.
                bind (py_item crypto_data (lower currency)) (\<lambda>preco.
                bind (py_get crypto_data (lower currency @ ''_24h_change'') (PInt 0)) (\<lambda>change.
                bind (py_get crypto_data (lower currency @ ''_24h_vol'') (PInt 0)) (\<lambda>vol.
                  Inr (preco, change, vol))))) of
             Inl e \<Rightarrow> (Inl e, w)
           | Inr (preco, change, vol) \<Rightarrow>
               (let (t, w1) = now w
                in (Inr (Some (PDict [(''crypto'', PStr (upper crypto)),
                                      (''moeda'', PStr (upper currency)),
                                      (''preco'', preco),
                                      (''variacao_24h'', change),
                                      (''volume_24h'', vol),
                                      (''timestamp'', PInt (py_int t)),
                                      (''fonte'', PStr ''CoinGecko'')])), w1))))"

definition get_crypto_price ::
  "string \<Rightarrow> string \<Rightarrow> finance_agent \<Rightarrow> world \<Rightarrow> pyval result \<times> finance_agent \<times> world" where
  "get_crypto_price crypto currency a w =
     (let cache_key = ''crypto_'' @ crypto @ ''_'' @ currency;
          (valid, w1) = is_cache_valid cache_key a w
      in if valid then (cached cache_key a, a, w1)
         else if \<not> f_session a then (Inr PNone, a, w1)
         else
           (let (rep, w2) = http_get
                  \<lparr>url = crypto_api @ ''/simple/price'',
                   params = [(''ids'', PStr (lower crypto)),
                             (''vs_currencies'', PStr (lower currency)),
                             (''include_24hr_change'', PStr ''true''),
                             (''include_24hr_vol'', PStr ''true'')]\<rparr> w1;
                simulated = (\<lambda>w'. let (r, w3) = get_simulated_crypto_price crypto currency w'
                                   in (Inr r, a, w3))
            in case rep of
                 Refused \<Rightarrow> simulated w2
               | Reply status body \<Rightarrow>
                   if status = 200 then
                     (case body of
                        None \<Rightarrow> simulated w2
                      | Some json \<Rightarrow>
                          (case crypto_result crypto currency json w2 of
                             (Inl e, w3) \<Rightarrow> simulated w3
                           | (Inr None, w3) \<Rightarrow> simulated w3
                           | (Inr (Some result), w3) \<Rightarrow>
                               (let (a', w4) = cache_data cache_key result a w3
                                in (Inr result, a', w4))))
                   else simulated w2))"

subsection \<open>\<open>_get_multiple_exchange_rates\<close>\<close>

text \<open>The loop over the targets, with the \<open>resultados\<close> built so far.\<close>

fun exchange_rates_loop ::
  "string \<Rightarrow> string list \<Rightarrow> (string \<times> pyval) list \<Rightarrow> finance_agent \<Rightarrow> world \<Rightarrow>
     (string \<times> pyval) list \<times> finance_agent \<times> world" where
  "exchange_rates_loop base [] resultados a w = (resultados, a, w)"
| "exchange_rates_loop base (target # rest) resultados a w =
     (case get_exchange_rate base target a w of
        (Inr cotacao, a1, w1) \<Rightarrow>
          exchange_rates_loop base rest (dict_set resultados target cotacao) a1 w1
      | (Inl e, a1, w1) \<Rightarrow>
          exchange_rates_loop base rest
            (dict_set resultados target (PDict [(''erro'', PStr (describe e))])) a1 w1)"

definition get_multiple_exchange_rates ::
  "string \<Rightarrow> string list \<Rightarrow> finance_agent \<Rightarrow> world \<Rightarrow> pyval result \<times> finance_agent \<times> world" where
  "get_multiple_exchange_rates base targets a w =
     (let (resultados, a1, w1) = exchange_rates_loop base targets [] a w;
          (t, w2) = now w1
      in (Inr (PDict [(''base'', PStr (upper base)),
                      (''cotacoes'', PDict resultados),
                      (''total_consultadas'', PInt (int (length targets))),
                      (''timestamp'', PInt (py_int t))]), a1, w2))"

subsection \<open>\<open>_get_top_cryptos\<close>\<close>

text \<open>The loop over the entries of the reply.\<close>

fun top_crypto_entries :: "pyval list \<Rightarrow> pyval list result" where
  "top_crypto_entries [] = Inr []"
| "top_crypto_entries (crypto # rest) =
     bind (py_item crypto ''market_cap_rank'') (\<lambda>rank.
     bind (py_item crypto ''name'') (\<lambda>nome.
     bind (py_item crypto ''symbol'') (\<lambda>symbol.
     bind (py_upper symbol) (\<lambda>simbolo.
     bind (py_item crypto ''current_price'') (\<lambda>preco.
     bind (py_item crypto ''market_cap'') (\<lambda>market_cap.
     bind (py_item crypto ''price_change_percentage_24h'') (\<lambda>variacao.
     bind (py_item crypto ''total_volume'') (\<lambda>volume.
     bind (top_crypto_entries rest) (\<lambda>entries.
       Inr (PDict [(''rank'', rank), (''nome'', nome), (''simbolo'', PStr simbolo),
                   (''preco'', preco), (''market_cap'', market_cap),
                   (''variacao_24h'', variacao), (''volume_24h'', volume)] # entries))))))))))"

definition top_cryptos_result :: "int \<Rightarrow> string \<Rightarrow> pyval \<Rightarrow> world \<Rightarrow> pyval result \<times> world" where
  "top_cryptos_result limit currency body w =
     (case bind (py_iter body) top_crypto_entries of
        Inl e \<Rightarrow> (Inl e, w)
      | Inr cryptos \<Rightarrow>
          (let (t, w1) = now w
           in (Inr (PDict [(''top_cryptos'', PList cryptos),
                           (''moeda'', PStr (upper currency)),
                           (''limite'', PInt limit),
                           (''timestamp'', PInt (py_int t)),
                           (''fonte'', PStr ''CoinGecko'')]), w1)))"

definition get_top_cryptos ::
  "int \<Rightarrow> string \<Rightarrow> finance_agent \<Rightarrow> world \<Rightarrow> pyval result \<times> finance_agent \<times> world" where
  "get_top_cryptos limit currency a w =
     (let cache_key = ''top_cryptos_'' @ str_of_int limit @ ''_'' @ currency;
          (valid, w1) = is_cache_valid cache_key a w
      in if valid then (cached cache_key a, a, w1)
         else if \<not> f_session a then (Inr PNone, a, w1)
         else
           (let (rep, w2) = http_get
                  \<lparr>url = crypto_api @ ''/coins/markets'',
                   params = [(''vs_currency'', PStr (lower currency)),
                             (''order'', PStr ''market_cap_desc''),
                             (''per_page'', PInt limit),
                             (''page'', PInt 1),
                             (''sparkline'', PStr ''false'')]\<rparr> w1;
                simulated = (\<lambda>w'. let (r, w3) = get_simulated_top_cryptos limit currency w'
                                   in (Inr r, a, w3))
            in case rep of
                 Refused \<Rightarrow> simulated w2
               | Reply status body \<Rightarrow>
                   if status = 200 then
                     (case body of
                        None \<Rightarrow> simulated w2
                      | Some json \<Rightarrow>
                          (case top_cryptos_result limit currency json w2 of
                             (Inl e, w3) \<Rightarrow> simulated w3
                           | (Inr result, w3) \<Rightarrow>
                               (let (a', w4) = cache_data cache_key result a w3
                                in (Inr result, a', w4))))
                   else simulated w2))"

subsection \<open>\<open>_get_market_summary\<close>\<close>

text \<open>The sections of the summary read from the four quotes; a quote without the field,
  or one that is no mapping, raises.\<close>

definition market_sections :: "pyval \<Rightarrow> pyval \<Rightarrow> pyval \<Rightarrow> pyval \<Rightarrow> (string \<times> pyval) list result" where
  "market_sections usd_brl eur_brl btc_brl eth_brl =
     bind (py_item usd_brl ''taxa'') (\<lambda>usd.
     bind (py_item eur_brl ''taxa'') (\<lambda>eur.
     bind (py_item btc_brl ''preco'') (\<lambda>btc.
     bind (py_item btc_brl ''variacao_24h'') (\<lambda>btc_var.
     bind (py_item eth_brl ''preco'') (\<lambda>eth.
     bind (py_item eth_brl ''variacao_24h'') (\<lambda>eth_var.
       Inr [(''moedas'', PDict [(''USD/BRL'', usd), (''EUR/BRL'', eur)]),
            (''cryptos'', PDict
               [(''Bitcoin'', PDict [(''preco'', btc), (''variacao_24h'', btc_var)]),
                (''Ethereum'', PDict [(''preco'', eth), (''variacao_24h'', eth_var)])])]))))))"

text \<open>The \<open>except\<close> branch: the simulated summary, from the state the exception left.\<close>

definition summary_fallback ::
  "finance_agent \<Rightarrow> world \<Rightarrow> pyval result \<times> finance_agent \<times> world" where
  "summary_fallback a w = (let (r, w') = get_simulated_market_summary w in (Inr r, a, w'))"

definition get_market_summary ::
  "finance_agent \<Rightarrow> world \<Rightarrow> pyval result \<times> finance_agent \<times> world" where
  "get_market_summary a w =
     (case get_exchange_rate ''USD'' ''BRL'' a w of
        (Inl e, a1, w1) \<Rightarrow> summary_fallback a1 w1
      | (Inr usd_brl, a1, w1) \<Rightarrow>
     (case get_exchange_rate ''EUR'' ''BRL'' a1 w1 of
        (Inl e, a2, w2) \<Rightarrow> summary_fallback a2 w2
      | (Inr eur_brl, a2, w2) \<Rightarrow>
     (case get_crypto_price ''bitcoin'' ''brl'' a2 w2 of
        (Inl e, a3, w3) \<Rightarrow> summary_fallback a3 w3
      | (Inr btc_brl, a3, w3) \<Rightarrow>
     (case get_crypto_price ''ethereum'' ''brl'' a3 w3 of
        (Inl e, a4, w4) \<Rightarrow> summary_fallback a4 w4
      | (Inr eth_brl, a4, w4) \<Rightarrow>
     (case market_sections usd_brl eur_brl btc_brl eth_brl of
        Inl e \<Rightarrow> summary_fallback a4 w4
      | Inr sections \<Rightarrow>
          (let (t, w5) = now w4;
               (t', w6) = now w5
           in (Inr (PDict (sections @
                      [(''timestamp'', PInt (py_int t)),
                       (''resumo_gerado_em'', PStr (isoformat w6 t'))])), a4, w6)))))))"

subsection \<open>\<open>_process_custom_message\<close>\<close>

definition finance_process_custom_message ::
  "mcp_message \<Rightarrow> finance_agent \<times> world \<Rightarrow> pyval result \<times> finance_agent \<times> world" where
  "finance_process_custom_message message aw =
     (let a = fst aw; w = snd aw;
          mtype = lower (message_type message);
          p = payload message
      in if mtype = ''cotacao_moeda'' then
           (case (payload_str p ''base'' ''USD'', payload_str p ''target'' ''BRL'') of
              (Inr base, Inr target) \<Rightarrow> get_exchange_rate base target a w
            | _ \<Rightarrow> (Inl TypeError, a, w))
         else if mtype = ''cotacao_crypto'' then
           (case (payload_str p ''crypto'' ''bitcoin'', payload_str p ''currency'' ''brl'') of
              (Inr crypto, Inr currency) \<Rightarrow> get_crypto_price crypto currency a w
            | _ \<Rightarrow> (Inl TypeError, a, w))
         else if mtype = ''multiplas_moedas'' then
           (case (payload_str p ''base'' ''USD'',
                  payload_strs p ''targets'' [''BRL'', ''EUR'', ''GBP'']) of
              (Inr base, Inr targets) \<Rightarrow> get_multiple_exchange_rates base targets a w
            | _ \<Rightarrow> (Inl TypeError, a, w))
         else if mtype = ''top_cryptos'' then
           (case (payload_int p ''limit'' 10, payload_str p ''currency'' ''brl'') of
              (Inr limit, Inr currency) \<Rightarrow> get_top_cryptos limit currency a w
            | _ \<Rightarrow> (Inl TypeError, a, w))
         else if mtype = ''resumo_mercado'' then get_market_summary a w
         else if mtype = ''ping'' then
           (Inr (PDict [(''response'', PStr ''pong''), (''agent'', PStr ''finance''),
                        (''status'', PStr ''online'')]), a, w)
         else (Inl (ValueError (msg_unsupported @ mtype)), a, w))"


section \<open>Weather agent\<close>

text \<open>The agent after \<open>_custom_initialize\<close>: the API key it was built with, if any, and
  the provider session. It keeps no cache.\<close>

record weather_agent =
  api_key :: "string option"
  w_session :: bool

definition base_url :: string where
  "base_url = ''http://api.openweathermap.org/data/2.5''"

text \<open>\<open>self.api_key and self.session\<close>: an empty key counts as no key.\<close>

definition uses_provider :: "weather_agent \<Rightarrow> bool" where
  "uses_provider a = (case api_key a of None \<Rightarrow> False | Some k \<Rightarrow> k \<noteq> [] \<and> w_session a)"

definition the_key :: "weather_agent \<Rightarrow> string" where
  "the_key a = (case api_key a of None \<Rightarrow> [] | Some k \<Rightarrow> k)"

subsection \<open>\<open>_format_current_weather\<close> and \<open>_get_simulated_weather\<close>\<close>

definition format_current_weather :: "pyval \<Rightarrow> pyval result" where
  "format_current_weather body =
     bind (py_item body ''name'') (\<lambda>cidade.
     bind (py_item body ''sys'') (\<lambda>sys.
     bind (py_item sys ''country'') (\<lambda>pais.
     bind (py_item body ''main'') (\<lambda>main.
     bind (py_item main ''temp'') (\<lambda>temp.
     bind (py_round_val temp 1) (\<lambda>temperatura.
     bind (py_item main ''feels_like'') (\<lambda>feels.
     bind (py_round_val feels 1) (\<lambda>sensacao.
     bind (py_item main ''humidity'') (\<lambda>humidade.
     bind (py_item main ''pressure'') (\<lambda>pressao.
     bind (py_item body ''weather'') (\<lambda>weather.
     bind (py_first weather) (\<lambda>first.
     bind (py_item first ''description'') (\<lambda>descricao.
     bind (py_item body ''wind'') (\<lambda>wind.
     bind (py_item wind ''speed'') (\<lambda>speed.
     bind (py_get wind ''deg'' (PInt 0)) (\<lambda>deg.
     bind (py_get body ''visibility'' (PInt 0)) (\<lambda>vis.
     bind (py_div_1000 vis) (\<lambda>visibilidade.
     bind (py_item body ''dt'') (\<lambda>dt.
       Inr (PDict [(''cidade'', cidade),
                   (''pais'', pais),
                   (''temperatura'', temperatura),
                   (''sensacao_termica'', sensacao),
                   (''humidade'', humidade),
                   (''pressao'', pressao),
                   (''descricao'', descricao),
                   (''vento_velocidade'', speed),
                   (''vento_direcao'', deg),
                   (''visibilidade'', visibilidade),
                   (''fonte'', PStr ''OpenWeatherMap''),
                   (''timestamp'', dt)]))))))))))))))))))))"

definition condicoes :: "string list" where
  "condicoes = [''ensolarado'', ''parcialmente nublado'', ''nublado'', ''chuvoso'', ''tempestade'']"

definition get_simulated_weather :: "string \<Rightarrow> world \<Rightarrow> pyval \<times> world" where
  "get_simulated_weather cidade w =
     (let base_temp = (if contains cidade sao_paulo then 20 else 25 :: real);
          (temp_variation, w1) = uniform (- 5) 10 w;
          (condicao, w2) = choice condicoes w1;
          (feels, w3) = uniform (- 2) 3 w2;
          (humidade, w4) = randint 40 90 w3;
          (pressao, w5) = randint 1010 1025 w4;
          (vento, w6) = uniform 0 15 w5;
          (direcao, w7) = randint 0 360 w6;
          (vis, w8) = uniform 5 20 w7;
          (t, w9) = now w8
      in (PDict [(''cidade'', PStr cidade),
                 (''pais'', PStr ''BR''),
                 (''temperatura'', PFloat (py_round (fl (base_temp + temp_variation)) 1)),
                 (''sensacao_termica'',
                    PFloat (py_round (fl (fl (base_temp + temp_variation) + feels)) 1)),
                 (''humidade'', PInt humidade),
                 (''pressao'', PInt pressao),
                 (''descricao'', PStr condicao),
                 (''vento_velocidade'', PFloat (py_round vento 1)),
                 (''vento_direcao'', PInt direcao),
                 (''visibilidade'', PFloat (py_round vis 1)),
                 (''fonte'', PStr simulated_source),
                 (''timestamp'', PInt (py_int t))], w9))"

subsection \<open>\<open>_get_current_weather\<close>\<close>

definition get_current_weather ::
  "string \<Rightarrow> weather_agent \<Rightarrow> world \<Rightarrow> pyval result \<times> world" where
  "get_current_weather cidade a w =
     (if uses_provider a then
        (let (rep, w1) = http_get
               \<lparr>url = base_url @ ''/weather'',
                params = [(''q'', PStr cidade), (''appid'', PStr (the_key a)),
                          (''units'', PStr ''metric''), (''lang'', PStr ''pt_br'')]\<rparr> w;
             simulated = (let (r, w2) = get_simulated_weather cidade w1 in (Inr r, w2))
         in case rep of
              Refused \<Rightarrow> simulated
            | Reply status body \<Rightarrow>
                if status = 200 then
                  (case body of
                     None \<Rightarrow> simulated
                   | Some json \<Rightarrow>
                       (case format_current_weather json of
                          Inl e \<Rightarrow> simulated
                        | Inr result \<Rightarrow> (Inr result, w1)))
                else simulated)
      else (let (r, w1) = get_simulated_weather cidade w in (Inr r, w1)))"

subsection \<open>\<open>_format_forecast\<close> and \<open>_get_simulated_forecast\<close>\<close>

text \<open>\<open>x[:n:8]\<close>: a list or a string can be sliced, nothing else.\<close>

definition py_slice_8 :: "pyval \<Rightarrow> int \<Rightarrow> pyval list result" where
  "py_slice_8 x n =
     (case x of
        PList xs \<Rightarrow> Inr (every_8th (slice_to xs n))
      | PStr s \<Rightarrow> Inr (map PStr (every_8th (slice_to (code_points s) n)))
      | _ \<Rightarrow> Inl TypeError)"

fun forecast_entries :: "pyval list \<Rightarrow> pyval list result" where
  "forecast_entries [] = Inr []"
| "forecast_entries (item # rest) =
     bind (py_item item ''dt_txt'') (\<lambda>dt.
     bind (py_item item ''main'') (\<lambda>main.
     bind (py_item main ''temp_min'') (\<lambda>tmin.
     bind (py_round_val tmin 1) (\<lambda>temperatura_min.
     bind (py_item main ''temp_max'') (\<lambda>tmax.
     bind (py_round_val tmax 1) (\<lambda>temperatura_max.
     bind (py_item item ''weather'') (\<lambda>weather.
     bind (py_first weather) (\<lambda>first.
     bind (py_item first ''description'') (\<lambda>descricao.
     bind (py_item main ''humidity'') (\<lambda>humidade.
     bind (py_get item ''pop'' (PInt 0)) (\<lambda>pop.
     bind (py_mul_100 pop) (\<lambda>chuva.
     bind (forecast_entries rest) (\<lambda>entries.
       Inr (PDict [(''data'', dt),
                   (''temperatura_min'', temperatura_min),
                   (''temperatura_max'', temperatura_max),
                   (''descricao'', descricao),
                   (''humidade'', humidade),
                   (''probabilidade_chuva'', chuva)] # entries))))))))))))))"

definition format_forecast :: "pyval \<Rightarrow> int \<Rightarrow> pyval result" where
  "format_forecast body dias =
     bind (py_item body ''list'') (\<lambda>items.
     bind (py_slice_8 items (dias * 8)) (\<lambda>sampled.
     bind (forecast_entries sampled) (\<lambda>previsoes.
     bind (py_item body ''city'') (\<lambda>city.
     bind (py_item city ''name'') (\<lambda>cidade.
     bind (py_item city ''country'') (\<lambda>pais.
       Inr (PDict [(''cidade'', cidade),
                   (''pais'', pais),
                   (''previsoes'', PList previsoes),
                   (''fonte'', PStr ''OpenWeatherMap'')])))))))"

text \<open>The loop over \<open>range(dias)\<close>, from day \<open>i\<close> with \<open>n\<close> days to go.\<close>

fun simulated_days :: "real \<Rightarrow> nat \<Rightarrow> nat \<Rightarrow> world \<Rightarrow> pyval list \<times> world" where
  "simulated_days base_temp i 0 w = ([], w)"
| "simulated_days base_temp i (Suc n) w =
     (let (t, w1) = now w;
          (temp_var, w2) = uniform (- 3) 8 w1;
          (descricao, w3) = choice [''ensolarado'', ''nublado'', ''chuvoso''] w2;
          (humidade, w4) = randint 40 90 w3;
          (chuva, w5) = randint 0 80 w4;
          entry = PDict [(''data'', PStr (strftime w5 ''%Y-%m-%d'' (t + 86400 * real i))),
                         (''temperatura_min'', PFloat (py_round (fl (fl (base_temp + temp_var) - 3)) 1)),
                         (''temperatura_max'', PFloat (py_round (fl (fl (base_temp + temp_var) + 5)) 1)),
                         (''descricao'', PStr descricao),
                         (''humidade'', PInt humidade),
                         (''probabilidade_chuva'', PInt chuva)];
          (entries, w6) = simulated_days base_temp (Suc i) n w5
      in (entry # entries, w6))"

definition get_simulated_forecast :: "string \<Rightarrow> int \<Rightarrow> world \<Rightarrow> pyval \<times> world" where
  "get_simulated_forecast cidade dias w =
     (let base_temp = (if contains cidade sao_paulo then 20 else 25 :: real);
          (previsoes, w1) = simulated_days base_temp 0 (nat dias) w
      in (PDict [(''cidade'', PStr cidade),
                 (''pais'', PStr ''BR''),
                 (''previsoes'', PList previsoes),
                 (''fonte'', PStr simulated_source)], w1))"

subsection \<open>\<open>_get_forecast\<close>\<close>

definition get_forecast ::
  "string \<Rightarrow> int \<Rightarrow> weather_agent \<Rightarrow> world \<Rightarrow> pyval result \<times> world" where
  "get_forecast cidade dias a w =
     (if uses_provider a then
        (let (rep, w1) = http_get
               \<lparr>url = base_url @ ''/forecast'',
                params = [(''q'', PStr cidade), (''appid'', PStr (the_key a)),
                          (''units'', PStr ''metric''), (''lang'', PStr ''pt_br''),
                          (''cnt'', PInt (dias * 8))]\<rparr> w;
             simulated = (let (r, w2) = get_simulated_forecast cidade dias w1 in (Inr r, w2))
         in case rep of
              Refused \<Rightarrow> simulated
            | Reply status body \<Rightarrow>
                if status = 200 then
                  (case body of
                     None \<Rightarrow> simulated
                   | Some json \<Rightarrow>
                       (case format_forecast json dias of
                          Inl e \<Rightarrow> simulated
                        | Inr result \<Rightarrow> (Inr result, w1)))
                else simulated)
      else (let (r, w1) = get_simulated_forecast cidade dias w in (Inr r, w1)))"

subsection \<open>\<open>_get_multiple_cities_weather\<close>\<close>

text \<open>The loop over the cities, each in its own \<open>try\<close>.\<close>

fun cities_weather_loop ::
  "string list \<Rightarrow> (string \<times> pyval) list \<Rightarrow> weather_agent \<Rightarrow> world \<Rightarrow>
     (string \<times> pyval) list \<times> world" where
  "cities_weather_loop [] resultados a w = (resultados, w)"
| "cities_weather_loop (cidade # rest) resultados a w =
     (case get_current_weather cidade a w of
        (Inr clima, w1) \<Rightarrow> cities_weather_loop rest (dict_set resultados cidade clima) a w1
      | (Inl e, w1) \<Rightarrow>
          cities_weather_loop rest
            (dict_set resultados cidade (PDict [(''erro'', PStr (describe e))])) a w1)"

text \<open>The \<open>return\<close> builds its mapping from \<open>resultados\<close>, \<open>len(cidades)\<close> and
  \<open>message.timestamp\<close>, guarded by \<open>hasattr(message, 'timestamp')\<close>; no variable
  \<open>message\<close> exists in the function or the module, so evaluating the guard raises
  NameError.\<close>

definition get_multiple_cities_weather ::
  "string list \<Rightarrow> weather_agent \<Rightarrow> world \<Rightarrow> pyval result \<times> world" where
  "get_multiple_cities_weather cidades a w =
     (let (resultados, w1) = cities_weather_loop cidades [] a w
      in (Inl (NameError ''message''), w1))"

subsection \<open>\<open>_process_custom_message\<close>\<close>

definition weather_process_custom_message ::
  "mcp_message \<Rightarrow> weather_agent \<times> world \<Rightarrow> pyval result \<times> weather_agent \<times> world" where
  "weather_process_custom_message message aw =
     (let a = fst aw; w = snd aw;
          mtype = lower (message_type message);
          p = payload message
      in if mtype = ''clima_atual'' then
           (case payload_str p ''cidade'' sao_paulo of
              Inr cidade \<Rightarrow> (let (r, w1) = get_current_weather cidade a w in (r, a, w1))
            | Inl e \<Rightarrow> (Inl e, a, w))
         else if mtype = ''previsao'' then
           (case (payload_str p ''cidade'' sao_paulo, payload_int p ''dias'' 5) of
              (Inr cidade, Inr dias) \<Rightarrow>
                (let (r, w1) = get_forecast cidade dias a w in (r, a, w1))
            | _ \<Rightarrow> (Inl TypeError, a, w))
         else if mtype = ''clima_multiplas_cidades'' then
           (case payload_strs p ''cidades'' [sao_paulo, ''Rio de Janeiro''] of
              Inr cidades \<Rightarrow>
                (let (r, w1) = get_multiple_cities_weather cidades a w in (r, a, w1))
            | Inl e \<Rightarrow> (Inl e, a, w))
         else if mtype = ''ping'' then
           (Inr (PDict [(''response'', PStr ''pong''), (''agent'', PStr ''weather''),
                        (''status'', PStr ''online'')]), a, w)
         else (Inl (ValueError (msg_unsupported @ mtype)), a, w))"


section \<open>Orchestrator: derived analysis\<close>

subsection \<open>\<open>_compare_cities\<close>\<close>

definition msg_two_cities :: string where
  "msg_two_cities = ''Necess'' @ [CHR 0xC3, CHR 0xA1] @ ''rio pelo menos 2 cidades para compara''
     @ [CHR 0xC3, CHR 0xA7, CHR 0xC3, CHR 0xA3] @ ''o''"

definition msg_insufficient :: string where
  "msg_insufficient = ''Dados insuficientes para compara'' @ [CHR 0xC3, CHR 0xA7, CHR 0xC3, CHR 0xA3] @ ''o''"

text \<open>The loop filling \<open>temperaturas\<close>: a city enters only with a truthy temperature.\<close>

fun collect_temperaturas ::
  "(string \<times> pyval) list \<Rightarrow> (string \<times> pyval) list \<Rightarrow> (string \<times> pyval) list result" where
  "collect_temperaturas [] temperaturas = Inr temperaturas"
| "collect_temperaturas ((cidade, dados) # rest) temperaturas =
     bind (py_get dados ''clima'' (PDict [])) (\<lambda>clima.
     bind (py_get clima ''temperatura'' PNone) (\<lambda>temp.
       collect_temperaturas rest
         (if truthy temp then dict_set temperaturas cidade temp else temperaturas)))"

text \<open>\<open>max(d, key=d.get)\<close> and \<open>min(d, key=d.get)\<close> over the keys in order: the running
  best is replaced only by a strictly greater (smaller) value, so the first of several
  equal extremes wins.\<close>

fun max_by_value :: "(string \<times> pyval) list \<Rightarrow> string \<Rightarrow> pyval \<Rightarrow> string result" where
  "max_by_value [] best bv = Inr best"
| "max_by_value ((k, v) # rest) best bv =
     bind (py_gt v bv) (\<lambda>g. if g then max_by_value rest k v else max_by_value rest best bv)"

fun min_by_value :: "(string \<times> pyval) list \<Rightarrow> string \<Rightarrow> pyval \<Rightarrow> string result" where
  "min_by_value [] best bv = Inr best"
| "min_by_value ((k, v) # rest) best bv =
     bind (py_lt v bv) (\<lambda>l. if l then min_by_value rest k v else min_by_value rest best bv)"

definition compare_cities :: "(string \<times> pyval) list \<Rightarrow> pyval result" where
  "compare_cities resultados =
     (if length resultados < 2 then Inr (PDict [(''erro'', PStr msg_two_cities)])
      else
        bind (collect_temperaturas resultados []) (\<lambda>temperaturas.
          case temperaturas of
            [] \<Rightarrow> Inr (PDict [(''info'', PStr msg_insufficient)])
          | (k0, v0) # rest \<Rightarrow>
              bind (max_by_value rest k0 v0) (\<lambda>cidade_mais_quente.
              bind (min_by_value rest k0 v0) (\<lambda>cidade_mais_fria.
              bind (py_item (PDict temperaturas) cidade_mais_quente) (\<lambda>tq.
              bind (py_item (PDict temperaturas) cidade_mais_fria) (\<lambda>tf.
                Inr (PDict [(''temperatura'', PDict
                  [(''mais_quente'', PDict [(''cidade'', PStr cidade_mais_quente), (''temperatura'', tq)]),
                   (''mais_fria'', PDict [(''cidade'', PStr cidade_mais_fria), (''temperatura'', tf)])])])))))))"

subsection \<open>\<open>_suggest_best_travel_day\<close>\<close>

definition msg_no_forecast_data :: string where
  "msg_no_forecast_data = ''Dados de previs'' @ [CHR 0xC3, CHR 0xA3] @ ''o insuficientes''"

definition msg_no_forecasts :: string where
  "msg_no_forecasts = ''Previs'' @ [CHR 0xC3, CHR 0xB5] @ ''es n'' @ [CHR 0xC3, CHR 0xA3]
     @ ''o dispon'' @ [CHR 0xC3, CHR 0xAD] @ ''veis''"

definition msg_no_best_day :: string where
  "msg_no_best_day = ''N'' @ [CHR 0xC3, CHR 0xA3] @ ''o foi poss'' @ [CHR 0xC3, CHR 0xAD]
     @ ''vel determinar melhor dia''"

text \<open>The loop over \<open>enumerate(zip(previsoes_origem, previsoes_destino))\<close>, with the index
  \<open>i\<close>, the running \<open>menor_chuva\<close> and the running \<open>melhor_dia\<close>.\<close>

fun best_day_loop :: "(pyval \<times> pyval) list \<Rightarrow> nat \<Rightarrow> pyval \<Rightarrow> pyval \<Rightarrow> pyval result" where
  "best_day_loop [] i menor_chuva melhor_dia = Inr melhor_dia"
| "best_day_loop ((orig, dest) # rest) i menor_chuva melhor_dia =
     bind (py_get orig ''probabilidade_chuva'' (PInt 50)) (\<lambda>a.
     bind (py_get dest ''probabilidade_chuva'' (PInt 50)) (\<lambda>b.
     bind (py_add a b) (\<lambda>chuva_total.
     bind (py_lt chuva_total menor_chuva) (\<lambda>less.
       if less then
         bind (py_get orig ''data'' (PStr ''N/A'')) (\<lambda>d.
         bind (py_get orig ''probabilidade_chuva'' (PInt 0)) (\<lambda>po.
         bind (py_get dest ''probabilidade_chuva'' (PInt 0)) (\<lambda>pd.
           best_day_loop rest (Suc i) chuva_total
             (PDict [(''dia'', PInt (int i + 1)), (''data'', d),
                     (''probabilidade_chuva_origem'', po),
                     (''probabilidade_chuva_destino'', pd)]))))
       else best_day_loop rest (Suc i) menor_chuva melhor_dia))))"

definition suggest_best_travel_day :: "pyval \<Rightarrow> pyval \<Rightarrow> pyval result" where
  "suggest_best_travel_day prev_origem prev_destino =
     (if \<not> truthy prev_origem \<or> \<not> truthy prev_destino
      then Inr (PDict [(''erro'', PStr msg_no_forecast_data)])
      else
        bind (py_get prev_origem ''previsoes'' (PList [])) (\<lambda>previsoes_origem.
        bind (py_get prev_destino ''previsoes'' (PList [])) (\<lambda>previsoes_destino.
          if \<not> truthy previsoes_origem \<or> \<not> truthy previsoes_destino
          then Inr (PDict [(''info'', PStr msg_no_forecasts)])
          else
            bind (py_iter previsoes_origem) (\<lambda>os.
            bind (py_iter previsoes_destino) (\<lambda>ds.
            bind (best_day_loop (zip os ds) 0 (PInt 100) PNone) (\<lambda>melhor_dia.
              Inr (if truthy melhor_dia then melhor_dia
                   else PDict [(''info'', PStr msg_no_best_day)])))))))"

section \<open>Orchestrator agent\<close>

text \<open>
  The orchestrator owns the two sub-agents and reaches them only through
  \<open>create_message\<close> and \<open>process_message\<close>. Their behaviour is a parameter of the model, so
  that a property holds for the agents of this repository and for any stub put in their
  place: \<open>weather_process\<close> and \<open>finance_process\<close> take a message, the sub-agent's state and
  the world, and either raise or return a response. \<open>queries\<close> is the list of the calls
  the orchestrator has made to its sub-agents, kept to count them.
\<close>

record ('wa, 'fa) sub_agents =
  weather_process :: "mcp_message \<Rightarrow> 'wa \<times> world \<Rightarrow> mcp_response result \<times> 'wa \<times> world"
  finance_process :: "mcp_message \<Rightarrow> 'fa \<times> world \<Rightarrow> mcp_response result \<times> 'fa \<times> world"
  weather_status :: "'wa \<Rightarrow> string"
  finance_status :: "'fa \<Rightarrow> string"

record ('wa, 'fa) orchestrator =
  weather_sub :: 'wa
  finance_sub :: 'fa
  queries :: "(string \<times> mcp_message) list"

definition ask_weather ::
  "('wa, 'fa) sub_agents \<Rightarrow> mcp_message \<Rightarrow> ('wa, 'fa) orchestrator \<times> world \<Rightarrow>
     mcp_response result \<times> ('wa, 'fa) orchestrator \<times> world" where
  "ask_weather S m st =
     (let (r, wa, w) = weather_process S m (weather_sub (fst st), snd st)
      in (r, (fst st)\<lparr>weather_sub := wa, queries := queries (fst st) @ [(''weather'', m)]\<rparr>, w))"

definition ask_finance ::
  "('wa, 'fa) sub_agents \<Rightarrow> mcp_message \<Rightarrow> ('wa, 'fa) orchestrator \<times> world \<Rightarrow>
     mcp_response result \<times> ('wa, 'fa) orchestrator \<times> world" where
  "ask_finance S m st =
     (let (r, fa, w) = finance_process S m (finance_sub (fst st), snd st)
      in (r, (fst st)\<lparr>finance_sub := fa, queries := queries (fst st) @ [(''finance'', m)]\<rparr>, w))"

text \<open>The sub-agents of this repository: each answers through the agent contract.\<close>

definition repository_agents :: "(weather_agent, finance_agent) sub_agents" where
  "repository_agents =
     \<lparr>weather_process = (\<lambda>m aw. case process_message weather_process_custom_message m aw of
                                   (r, aw') \<Rightarrow> (Inr r, aw')),
      finance_process = (\<lambda>m aw. case process_message finance_process_custom_message m aw of
                                   (r, aw') \<Rightarrow> (Inr r, aw')),
      weather_status = (\<lambda>a. ''ready''),
      finance_status = (\<lambda>a. ''ready'')\<rparr>"

text \<open>\<open>response.error\<close> as a value, and inside an f-string.\<close>

definition error_value :: "mcp_response \<Rightarrow> pyval" where
  "error_value r = (case error r of None \<Rightarrow> PNone | Some s \<Rightarrow> PStr s)"

definition error_text :: "mcp_response \<Rightarrow> string" where
  "error_text r = (case error r of None \<Rightarrow> ''None'' | Some s \<Rightarrow> s)"

text \<open>\<open>response.data if response.success else {"erro": response.error}\<close>, and the
  \<open>except\<close> branch around the \<open>await\<close>.\<close>

definition slot_value :: "mcp_response result \<Rightarrow> pyval" where
  "slot_value r =
     (case r of
        Inr response \<Rightarrow>
          if success response then data response
          else PDict [(''erro'', error_value response)]
      | Inl e \<Rightarrow> PDict [(''erro'', PStr (describe e))])"

subsection \<open>Text helpers\<close>

definition degree_c :: string where
  "degree_c = [CHR 0xC2, CHR 0xB0] @ ''C''"

text \<open>\<open>sep.join(xs)\<close>.\<close>

fun join :: "string \<Rightarrow> string list \<Rightarrow> string" where
  "join sep [] = []"
| "join sep [x] = x"
| "join sep (x # y # ys) = x @ sep @ join sep (y # ys)"

text \<open>A number under a format specification such as \<open>.2f\<close>; the values that reach it have
  passed a comparison with a number.\<close>

definition format_num :: "world \<Rightarrow> string \<Rightarrow> pyval \<Rightarrow> string result" where
  "format_num w spec v =
     (case num_of v of Some r \<Rightarrow> Inr (format_float w spec r) | None \<Rightarrow> Inl TypeError)"

text \<open>\<open>s.replace(old, new)\<close> for a non-empty \<open>old\<close>.\<close>

function replace :: "string \<Rightarrow> string \<Rightarrow> string \<Rightarrow> string" where
  "replace s old new =
     (if s = [] \<or> old = [] then s
      else if starts_with s old then new @ replace (drop (length old) s) old new
      else hd s # replace (tl s) old new)"
  by pat_completeness auto
termination
  by (relation "measure (\<lambda>(s, old, new). length s)") auto

declare replace.simps [simp del]

subsection \<open>\<open>_generate_insights\<close> and \<open>_generate_executive_summary\<close>\<close>

definition insight_temperature :: "world \<Rightarrow> pyval \<Rightarrow> string list result" where
  "insight_temperature w weather_data =
     bind (py_get weather_data ''temperatura'' PNone) (\<lambda>present.
       if truthy present then
         bind (py_item weather_data ''temperatura'') (\<lambda>temp.
         bind (py_gt temp (PInt 30)) (\<lambda>hot.
           if hot then
             Inr [[CHR 0xF0, CHR 0x9F, CHR 0x8C, CHR 0xA1, CHR 0xEF, CHR 0xB8, CHR 0x8F]
                  @ '' Temperatura elevada ('' @ fmt w temp @ degree_c
                  @ '') - ideal para atividades aqu'' @ [CHR 0xC3, CHR 0xA1] @ ''ticas'']
           else
             bind (py_lt temp (PInt 15)) (\<lambda>cold.
               if cold then
                 Inr [[CHR 0xF0, CHR 0x9F, CHR 0xA7, CHR 0xA5] @ '' Temperatura baixa (''
                      @ fmt w temp @ degree_c @ '') - recomenda-se roupas quentes'']
               else Inr [])))
       else Inr [])"

definition insight_rain :: "pyval \<Rightarrow> string list result" where
  "insight_rain weather_data =
     bind (py_get weather_data ''descricao'' PNone) (\<lambda>present.
       if truthy present then
         bind (py_item weather_data ''descricao'') (\<lambda>descricao.
         bind (py_lower descricao) (\<lambda>low.
           if contains low ''chuv'' then
             Inr [[CHR 0xE2, CHR 0x98, CHR 0x94] @ '' Condi'' @ [CHR 0xC3, CHR 0xA7, CHR 0xC3, CHR 0xB5]
                  @ ''es chuvosas - leve guarda-chuva'']
           else Inr []))
       else Inr [])"

definition insight_dollar :: "world \<Rightarrow> pyval \<Rightarrow> string list result" where
  "insight_dollar w finance_data =
     bind (py_get finance_data ''moedas'' (PDict [])) (\<lambda>moedas.
     bind (py_get moedas ''USD/BRL'' PNone) (\<lambda>present.
       if truthy present then
         bind (py_item finance_data ''moedas'') (\<lambda>moedas'.
         bind (py_item moedas' ''USD/BRL'') (\<lambda>usd_rate.
         bind (py_gt usd_rate (PFloat 5.5)) (\<lambda>high.
           if high then
             bind (format_num w ''.2f'' usd_rate) (\<lambda>txt.
               Inr [[CHR 0xF0, CHR 0x9F, CHR 0x92, CHR 0xB0] @ '' D'' @ [CHR 0xC3, CHR 0xB3]
                    @ ''lar alto (R$ '' @ txt @ '') - momento desfavor'' @ [CHR 0xC3, CHR 0xA1]
                    @ ''vel para importa'' @ [CHR 0xC3, CHR 0xA7, CHR 0xC3, CHR 0xB5] @ ''es''])
           else
             bind (py_lt usd_rate (PFloat 5.0)) (\<lambda>low.
               if low then
                 bind (format_num w ''.2f'' usd_rate) (\<lambda>txt.
                   Inr [[CHR 0xF0, CHR 0x9F, CHR 0x92, CHR 0xB0] @ '' D'' @ [CHR 0xC3, CHR 0xB3]
                        @ ''lar baixo (R$ '' @ txt @ '') - bom momento para compras internacionais''])
               else Inr []))))
       else Inr []))"

text \<open>\<open>sum(1 for p in previsoes if p.get("probabilidade_chuva", 0) > 70)\<close>.\<close>

fun rainy_days :: "pyval list \<Rightarrow> nat result" where
  "rainy_days [] = Inr 0"
| "rainy_days (p # ps) =
     bind (py_get p ''probabilidade_chuva'' (PInt 0)) (\<lambda>chuva.
     bind (py_gt chuva (PInt 70)) (\<lambda>rainy.
     bind (rainy_days ps) (\<lambda>n. Inr (if rainy then Suc n else n))))"

definition insight_forecast :: "pyval \<Rightarrow> string list result" where
  "insight_forecast forecast_data =
     (if truthy forecast_data then
        bind (py_get forecast_data ''previsoes'' PNone) (\<lambda>present.
          if truthy present then
            bind (py_item forecast_data ''previsoes'') (\<lambda>previsoes.
            bind (py_iter previsoes) (\<lambda>ps.
            bind (rainy_days ps) (\<lambda>chuva_dias.
              if 2 \<le> chuva_dias then
                Inr [[CHR 0xF0, CHR 0x9F, CHR 0x8C, CHR 0xA7, CHR 0xEF, CHR 0xB8, CHR 0x8F] @ '' ''
                     @ str_of_int (int chuva_dias)
                     @ '' dias com alta probabilidade de chuva nos pr'' @ [CHR 0xC3, CHR 0xB3]
                     @ ''ximos dias'']
              else Inr [])))
          else Inr [])
      else Inr [])"

definition generate_insights :: "world \<Rightarrow> pyval \<Rightarrow> pyval \<Rightarrow> pyval \<Rightarrow> string list result" where
  "generate_insights w weather_data finance_data forecast_data =
     bind (insight_temperature w weather_data) (\<lambda>i1.
     bind (insight_rain weather_data) (\<lambda>i2.
     bind (insight_dollar w finance_data) (\<lambda>i3.
     bind (insight_forecast forecast_data) (\<lambda>i4.
       Inr (i1 @ i2 @ i3 @ i4)))))"

definition generate_executive_summary :: "world \<Rightarrow> pyval \<Rightarrow> pyval \<Rightarrow> string list \<Rightarrow> string result" where
  "generate_executive_summary w weather_data finance_data insights =
     bind (py_get weather_data ''cidade'' (PStr ''Cidade'')) (\<lambda>cidade.
     bind (py_get weather_data ''temperatura'' (PStr ''N/A'')) (\<lambda>temp.
     bind (py_get weather_data ''descricao'' (PStr ''N/A'')) (\<lambda>condicao.
     bind (py_get finance_data ''moedas'' (PDict [])) (\<lambda>moedas.
     bind (py_get moedas ''USD/BRL'' (PStr ''N/A'')) (\<lambda>usd_brl.
       Inr (''Relat'' @ [CHR 0xC3, CHR 0xB3] @ ''rio para '' @ fmt w cidade
            @ '': Temperatura atual de '' @ fmt w temp @ degree_c @ '' com '' @ fmt w condicao
            @ ''. '' @ ''Cota'' @ [CHR 0xC3, CHR 0xA7, CHR 0xC3, CHR 0xA3] @ ''o USD/BRL em ''
            @ fmt w usd_brl @ ''. ''
            @ (if insights \<noteq> [] then ''Principais insights: '' @ join '' | '' (take 2 insights)
               else [])))))))"

subsection \<open>\<open>_generate_complete_report\<close>\<close>

definition msg_weather_failed :: string where
  "msg_weather_failed = ''Falha ao obter dados clim'' @ [CHR 0xC3, CHR 0xA1] @ ''ticos: ''"

definition msg_finance_failed :: string where
  "msg_finance_failed = ''Falha ao obter dados financeiros: ''"

text \<open>Step 5 of the handler: the final mapping, from the three responses that arrived.\<close>

definition assemble_report ::
  "pyval \<Rightarrow> mcp_response \<Rightarrow> mcp_response \<Rightarrow> mcp_response \<Rightarrow> world \<Rightarrow> pyval result \<times> world" where
  "assemble_report cidade weather_response forecast_response finance_response w =
     (let weather_data = data weather_response;
          finance_data = data finance_response;
          forecast_data = (if success forecast_response then data forecast_response else PNone)
      in case generate_insights w weather_data finance_data forecast_data of
           Inl e \<Rightarrow> (Inl e, w)
         | Inr insights \<Rightarrow>
             (let (t, w1) = now w;
                  (t', w2) = now w1
              in (bind (if truthy forecast_data then py_get forecast_data ''previsoes'' (PList [])
                        else Inr (PList [])) (\<lambda>previsao.
                  bind (generate_executive_summary w2 weather_data finance_data insights) (\<lambda>resumo.
                    Inr (PDict [(''relatorio_id'', PStr (''REL_'' @ strftime w2 ''%Y%m%d_%H%M%S'' t)),
                                (''cidade'', cidade),
                                (''timestamp'', PStr (isoformat w2 t')),
                                (''clima'', PDict [(''atual'', weather_data), (''previsao'', previsao)]),
                                (''financeiro'', finance_data),
                                (''insights'', PList (map PStr insights)),
                                (''resumo_executivo'', PStr resumo),
                                (''agentes_consultados'', PList [PStr ''weather'', PStr ''finance'']),
                                (''tempo_processamento'', PStr ''processado_em_tempo_real'')]))), w2)))"

definition generate_complete_report ::
  "('wa, 'fa) sub_agents \<Rightarrow> pyval \<Rightarrow> ('wa, 'fa) orchestrator \<times> world \<Rightarrow>
     pyval result \<times> ('wa, 'fa) orchestrator \<times> world" where
  "generate_complete_report S cidade st =
     (case ask_weather S (create_message ''clima_atual'' [(''cidade'', cidade)]) st of
        (Inl e, st1) \<Rightarrow> (Inl e, st1)
      | (Inr weather_response, st1) \<Rightarrow>
          if \<not> success weather_response
          then (Inr (PDict [(''erro'', PStr (msg_weather_failed @ error_text weather_response))]), st1)
          else
            (case ask_weather S (create_message ''previsao'' [(''cidade'', cidade), (''dias'', PInt 3)]) st1 of
               (Inl e, st2) \<Rightarrow> (Inl e, st2)
             | (Inr forecast_response, st2) \<Rightarrow>
                 (case ask_finance S (create_message ''resumo_mercado'' []) st2 of
                    (Inl e, st3) \<Rightarrow> (Inl e, st3)
                  | (Inr finance_response, st3) \<Rightarrow>
                      if \<not> success finance_response
                      then (Inr (PDict [(''erro'', PStr (msg_finance_failed @ error_text finance_response))]), st3)
                      else
                        (let (r, w') = assemble_report cidade weather_response forecast_response
                                          finance_response (snd st3)
                         in (r, fst st3, w')))))"

subsection \<open>\<open>_get_weather_and_finance\<close>\<close>

definition analyze_weather_finance_correlation :: "pyval \<Rightarrow> pyval \<Rightarrow> pyval result" where
  "analyze_weather_finance_correlation weather_data all_data =
     bind (py_get weather_data ''temperatura'' PNone) (\<lambda>temp.
     bind (if truthy temp then py_gt temp (PInt 35) else Inr False) (\<lambda>hot.
     bind (py_get weather_data ''descricao'' (PStr [])) (\<lambda>descricao.
     bind (py_lower descricao) (\<lambda>low.
       Inr (PDict ([(''tipo'', PStr ''analise_basica'')]
              @ (if hot then [(''energia'', PStr (''Temperatura alta pode aumentar demanda por energia el''
                                 @ [CHR 0xC3, CHR 0xA9] @ ''trica''))] else [])
              @ (if contains low ''chuv''
                 then [(''agro'', PStr (''Chuva pode impactar positivamente commodities agr''
                                 @ [CHR 0xC3, CHR 0xAD] @ ''colas''))] else [])))))))"

definition get_weather_and_finance ::
  "('wa, 'fa) sub_agents \<Rightarrow> pyval \<Rightarrow> ('wa, 'fa) orchestrator \<times> world \<Rightarrow>
     pyval result \<times> ('wa, 'fa) orchestrator \<times> world" where
  "get_weather_and_finance S cidade st =
     (let (weather_r, st1) = ask_weather S (create_message ''clima_atual'' [(''cidade'', cidade)]) st;
          (usd_r, st2) = ask_finance S (create_message ''cotacao_moeda''
                            [(''base'', PStr ''USD''), (''target'', PStr ''BRL'')]) st1;
          (btc_r, st3) = ask_finance S (create_message ''cotacao_crypto''
                            [(''crypto'', PStr ''bitcoin''), (''currency'', PStr ''brl'')]) st2;
          results = [(''weather'', slot_value weather_r), (''usd_brl'', slot_value usd_r),
                     (''bitcoin'', slot_value btc_r)]
      in case analyze_weather_finance_correlation (slot_value weather_r) (PDict results) of
           Inl e \<Rightarrow> (Inl e, st3)
         | Inr correlacao \<Rightarrow>
             (let (t, w') = now (snd st3)
              in (Inr (PDict [(''cidade'', cidade),
                              (''clima'', slot_value weather_r),
                              (''cotacoes'', PDict [(''usd_brl'', slot_value usd_r),
                                                     (''bitcoin'', slot_value btc_r)]),
                              (''correlacao'', correlacao),
                              (''timestamp'', PStr (isoformat w' t))]), fst st3, w')))"

subsection \<open>\<open>_get_multiple_cities_complete\<close>\<close>

text \<open>The cities as the first line of the handler needs them: \<open>len(cidades)\<close> and
  \<open>', '.join(cidades)\<close> accept a list of strings, and also a string or a mapping (whose
  characters or keys are then the cities); anything else raises TypeError.\<close>

definition city_names :: "pyval \<Rightarrow> string list result" where
  "city_names cidades =
     (case cidades of
        PList vs \<Rightarrow> strings_of vs
      | PStr s \<Rightarrow> Inr (code_points s)
      | PDict d \<Rightarrow> Inr (map fst d)
      | _ \<Rightarrow> Inl TypeError)"

text \<open>The loop over the cities, with the \<open>resultados\<close> built so far; an exception of
  \<open>_get_weather_and_finance\<close> ends the handler.\<close>

fun cities_complete_loop ::
  "('wa, 'fa) sub_agents \<Rightarrow> string list \<Rightarrow> (string \<times> pyval) list \<Rightarrow>
     ('wa, 'fa) orchestrator \<times> world \<Rightarrow>
     (string \<times> pyval) list result \<times> ('wa, 'fa) orchestrator \<times> world" where
  "cities_complete_loop S [] resultados st = (Inr resultados, st)"
| "cities_complete_loop S (cidade # rest) resultados st =
     (case get_weather_and_finance S (PStr cidade) st of
        (Inl e, st1) \<Rightarrow> (Inl e, st1)
      | (Inr resultado_cidade, st1) \<Rightarrow>
          cities_complete_loop S rest (dict_set resultados cidade resultado_cidade) st1)"

definition get_multiple_cities_complete ::
  "('wa, 'fa) sub_agents \<Rightarrow> pyval \<Rightarrow> ('wa, 'fa) orchestrator \<times> world \<Rightarrow>
     pyval result \<times> ('wa, 'fa) orchestrator \<times> world" where
  "get_multiple_cities_complete S cidades st =
     (case city_names cidades of
        Inl e \<Rightarrow> (Inl e, st)
      | Inr names \<Rightarrow>
          (case cities_complete_loop S names [] st of
             (Inl e, st1) \<Rightarrow> (Inl e, st1)
           | (Inr resultados, st1) \<Rightarrow>
               (case compare_cities resultados of
                  Inl e \<Rightarrow> (Inl e, st1)
                | Inr comparacao \<Rightarrow>
                    (let (t, w') = now (snd st1)
                     in (Inr (PDict [(''cidades'', PDict resultados),
                                     (''total_processadas'', PInt (int (length names))),
                                     (''comparacao'', comparacao),
                                     (''timestamp'', PStr (isoformat w' t)),
                                     (''processamento'', PStr ''sequencial'')]), fst st1, w')))))"

subsection \<open>\<open>_travel_analysis\<close>\<close>

definition generate_travel_recommendations :: "world \<Rightarrow> pyval \<Rightarrow> pyval \<Rightarrow> string list result" where
  "generate_travel_recommendations w origem destino =
     bind (py_get origem ''clima'' (PDict [])) (\<lambda>clima_origem.
     bind (py_get clima_origem ''temperatura'' (PInt 0)) (\<lambda>temp_origem.
     bind (py_get destino ''clima'' (PDict [])) (\<lambda>clima_destino.
     bind (py_get clima_destino ''temperatura'' (PInt 0)) (\<lambda>temp_destino.
     bind (py_sub temp_origem temp_destino) (\<lambda>diff.
     bind (py_abs diff) (\<lambda>gap.
     bind (py_gt gap (PInt 10)) (\<lambda>far.
     bind (py_get destino ''clima'' (PDict [])) (\<lambda>clima_destino'.
     bind (py_get clima_destino' ''descricao'' (PStr [])) (\<lambda>desc_destino.
     bind (py_lower desc_destino) (\<lambda>low.
       Inr ((if far
             then [''Grande diferen'' @ [CHR 0xC3, CHR 0xA7] @ ''a de temperatura (''
                   @ fmt w temp_origem @ degree_c @ '' '' @ [CHR 0xE2, CHR 0x86, CHR 0x92] @ '' ''
                   @ fmt w temp_destino @ degree_c @ '') - prepare roupas adequadas'']
             else [])
            @ (if contains low ''chuv''
               then [''Destino com previs'' @ [CHR 0xC3, CHR 0xA3] @ ''o de chuva - leve guarda-chuva'']
               else []))))))))))))"

definition travel_analysis ::
  "('wa, 'fa) sub_agents \<Rightarrow> pyval \<Rightarrow> pyval \<Rightarrow> ('wa, 'fa) orchestrator \<times> world \<Rightarrow>
     pyval result \<times> ('wa, 'fa) orchestrator \<times> world" where
  "travel_analysis S origem destino st =
     (case get_weather_and_finance S origem st of
        (Inl e, st1) \<Rightarrow> (Inl e, st1)
      | (Inr dados_origem, st1) \<Rightarrow>
     (case get_weather_and_finance S destino st1 of
        (Inl e, st2) \<Rightarrow> (Inl e, st2)
      | (Inr dados_destino, st2) \<Rightarrow>
     (case ask_weather S (create_message ''previsao'' [(''cidade'', origem), (''dias'', PInt 5)]) st2 of
        (Inl e, st3) \<Rightarrow> (Inl e, st3)
      | (Inr prev_origem, st3) \<Rightarrow>
     (case ask_weather S (create_message ''previsao'' [(''cidade'', destino), (''dias'', PInt 5)]) st3 of
        (Inl e, st4) \<Rightarrow> (Inl e, st4)
      | (Inr prev_destino, st4) \<Rightarrow>
     (case bind (generate_travel_recommendations (snd st4) dados_origem dados_destino) (\<lambda>recomendacoes.
           bind (suggest_best_travel_day (data prev_origem) (data prev_destino)) (\<lambda>melhor_dia.
             Inr (recomendacoes, melhor_dia))) of
        Inl e \<Rightarrow> (Inl e, st4)
      | Inr (recomendacoes, melhor_dia) \<Rightarrow>
          (let (t, w') = now (snd st4)
           in (Inr (PDict
                 [(''origem'', PDict
                     [(''cidade'', origem),
                      (''dados_atuais'', dados_origem),
                      (''previsao'', if success prev_origem then data prev_origem else PDict [])]),
                  (''destino'', PDict
                     [(''cidade'', destino),
                      (''dados_atuais'', dados_destino),
                      (''previsao'', if success prev_destino then data prev_destino else PDict [])]),
                  (''recomendacoes'', PList (map PStr recomendacoes)),
                  (''melhor_dia_viagem'', melhor_dia),
                  (''timestamp'', PStr (isoformat w' t))]), fst st4, w')))))))"

subsection \<open>\<open>_check_agents_status\<close>\<close>

definition agent_config :: "string \<Rightarrow> string \<Rightarrow> pyval" where
  "agent_config agent_id agent_name =
     PDict [(''id'', PStr agent_id), (''name'', PStr agent_name), (''version'', PStr ''1.0.0'')]"

definition status_entry :: "mcp_response result \<Rightarrow> string \<Rightarrow> pyval \<Rightarrow> pyval" where
  "status_entry r status config =
     (case r of
        Inr response \<Rightarrow>
          PDict [(''online'', PBool (success response)),
                 (''status'', PStr status),
                 (''response'', if success response then data response else error_value response),
                 (''config'', config)]
      | Inl e \<Rightarrow> PDict [(''online'', PBool False), (''erro'', PStr (describe e))])"

definition check_agents_status ::
  "('wa, 'fa) sub_agents \<Rightarrow> ('wa, 'fa) orchestrator \<times> world \<Rightarrow>
     pyval result \<times> ('wa, 'fa) orchestrator \<times> world" where
  "check_agents_status S st =
     (let (wr, st1) = ask_weather S (create_message ''ping'' []) st;
          weather_entry = status_entry wr (weather_status S (weather_sub (fst st1)))
                            (agent_config ''weather_sub_001'' ''Weather Sub-Agent'');
          (fr, st2) = ask_finance S (create_message ''ping'' []) st1;
          finance_entry = status_entry fr (finance_status S (finance_sub (fst st2)))
                            (agent_config ''finance_sub_001'' ''Finance Sub-Agent'')
      in (Inr (PDict [(''weather'', weather_entry), (''finance'', finance_entry)]), st2))"

subsection \<open>\<open>_generate_alerts\<close> and \<open>_generate_dashboard\<close>\<close>

text \<open>The first loop of \<open>_generate_alerts\<close>, over the items of \<open>dashboard_data\<close>.\<close>

fun temperature_alerts :: "world \<Rightarrow> (string \<times> pyval) list \<Rightarrow> string list result" where
  "temperature_alerts w [] = Inr []"
| "temperature_alerts w ((key, v) # rest) =
     bind (case v of
             PDict d \<Rightarrow>
               if starts_with key ''weather_'' then
                 bind (py_get v ''temperatura'' PNone) (\<lambda>temp.
                 bind (if truthy temp then py_gt temp (PInt 40) else Inr False) (\<lambda>extreme.
                   if extreme then
                     Inr [[CHR 0xF0, CHR 0x9F, CHR 0x94, CHR 0xA5] @ '' ALERTA: Temperatura extrema em ''
                          @ title_case w (replace (replace key ''weather_'' []) ''_'' '' '')
                          @ '' ('' @ fmt w temp @ degree_c @ '')'']
                   else Inr []))
               else Inr []
           | _ \<Rightarrow> Inr []) (\<lambda>here.
     bind (temperature_alerts w rest) (\<lambda>later. Inr (here @ later)))"

text \<open>The second loop, over the top cryptos.\<close>

fun volatility_alerts :: "world \<Rightarrow> pyval list \<Rightarrow> string list result" where
  "volatility_alerts w [] = Inr []"
| "volatility_alerts w (crypto # rest) =
     bind (py_get crypto ''variacao_24h'' (PInt 0)) (\<lambda>v.
     bind (py_abs v) (\<lambda>magnitude.
     bind (py_gt magnitude (PInt 10)) (\<lambda>volatile.
     bind (if volatile then
             bind (py_item crypto ''nome'') (\<lambda>nome.
             bind (py_item crypto ''variacao_24h'') (\<lambda>change.
             bind (format_num w ''+.1f'' change) (\<lambda>txt.
               Inr [[CHR 0xF0, CHR 0x9F, CHR 0x93, CHR 0x88] @ '' ALERTA: '' @ fmt w nome
                    @ '' com alta volatilidade ('' @ txt @ ''%)''])))
           else Inr []) (\<lambda>here.
     bind (volatility_alerts w rest) (\<lambda>later. Inr (here @ later))))))"

definition generate_alerts :: "world \<Rightarrow> (string \<times> pyval) list \<Rightarrow> string list result" where
  "generate_alerts w dashboard_data =
     bind (temperature_alerts w dashboard_data) (\<lambda>hot.
     bind (py_get (PDict dashboard_data) ''top_cryptos'' (PDict [])) (\<lambda>top.
     bind (py_get top ''top_cryptos'' (PList [])) (\<lambda>cryptos.
     bind (py_iter cryptos) (\<lambda>cs.
     bind (volatility_alerts w cs) (\<lambda>volatile.
       Inr (hot @ volatile))))))"

definition cidades_principais :: "string list" where
  "cidades_principais = [sao_paulo, ''Rio de Janeiro'', ''Bras'' @ [CHR 0xC3, CHR 0xAD] @ ''lia'']"

text \<open>The weather tasks of the dashboard, awaited in the order they were made.\<close>

fun dashboard_weather ::
  "('wa, 'fa) sub_agents \<Rightarrow> string list \<Rightarrow> (string \<times> pyval) list \<Rightarrow>
     ('wa, 'fa) orchestrator \<times> world \<Rightarrow> (string \<times> pyval) list \<times> ('wa, 'fa) orchestrator \<times> world" where
  "dashboard_weather S [] dashboard_data st = (dashboard_data, st)"
| "dashboard_weather S (cidade # rest) dashboard_data st =
     (let (r, st1) = ask_weather S (create_message ''clima_atual'' [(''cidade'', PStr cidade)]) st
      in dashboard_weather S rest
           (dict_set dashboard_data (''weather_'' @ lower (replace cidade '' '' ''_'')) (slot_value r)) st1)"

definition generate_dashboard ::
  "('wa, 'fa) sub_agents \<Rightarrow> ('wa, 'fa) orchestrator \<times> world \<Rightarrow>
     pyval result \<times> ('wa, 'fa) orchestrator \<times> world" where
  "generate_dashboard S st =
     (let (d1, st1) = dashboard_weather S cidades_principais [] st;
          (market_r, st2) = ask_finance S (create_message ''resumo_mercado'' []) st1;
          d2 = dict_set d1 ''market_summary'' (slot_value market_r);
          (top_r, st3) = ask_finance S (create_message ''top_cryptos''
                            [(''limit'', PInt 5), (''currency'', PStr ''brl'')]) st2;
          dashboard_data = dict_set d2 ''top_cryptos'' (slot_value top_r);
          (t, w4) = now (snd st3);
          pick = (\<lambda>k. case dict_get dashboard_data k of Some v \<Rightarrow> v | None \<Rightarrow> PDict [])
      in case generate_alerts w4 dashboard_data of
           Inl e \<Rightarrow> (Inl e, fst st3, w4)
         | Inr alertas \<Rightarrow>
             (case check_agents_status S (fst st3, w4) of
                (Inl e, st5) \<Rightarrow> (Inl e, st5)
              | (Inr agentes_status, st5) \<Rightarrow>
                  (Inr (PDict
                     [(''titulo'', PStr ''Dashboard MCP Completo''),
                      (''timestamp'', PStr (isoformat w4 t)),
                      (''clima_cidades'', PDict
                         [(''sao_paulo'', pick (''weather_s'' @ [CHR 0xC3, CHR 0xA3] @ ''o_paulo'')),
                          (''rio_janeiro'', pick ''weather_rio_de_janeiro''),
                          (''brasilia'', pick (''weather_bras'' @ [CHR 0xC3, CHR 0xAD] @ ''lia''))]),
                      (''mercado_financeiro'', pick ''market_summary''),
                      (''top_cryptos'', pick ''top_cryptos''),
                      (''alertas'', PList (map PStr alertas)),
                      (''agentes_status'', agentes_status)]), st5)))"

subsection \<open>\<open>_process_custom_message\<close>\<close>

text \<open>\<open>payload.get(key, default)\<close>, passed on as it is.\<close>

definition payload_get :: "(string \<times> pyval) list \<Rightarrow> string \<Rightarrow> pyval \<Rightarrow> pyval" where
  "payload_get p k dflt = (case dict_get p k of Some v \<Rightarrow> v | None \<Rightarrow> dflt)"

definition orchestrator_process_custom_message ::
  "('wa, 'fa) sub_agents \<Rightarrow> mcp_message \<Rightarrow> ('wa, 'fa) orchestrator \<times> world \<Rightarrow>
     pyval result \<times> ('wa, 'fa) orchestrator \<times> world" where
  "orchestrator_process_custom_message S message st =
     (let mtype = lower (message_type message);
          p = payload message
      in if mtype = ''relatorio_completo'' then
           generate_complete_report S (payload_get p ''cidade'' (PStr sao_paulo)) st
         else if mtype = ''clima_e_economia'' then
           get_weather_and_finance S (payload_get p ''cidade'' (PStr sao_paulo)) st
         else if mtype = ''multiplas_cidades_completo'' then
           get_multiple_cities_complete S
             (payload_get p ''cidades'' (PList [PStr sao_paulo, PStr ''Rio de Janeiro''])) st
         else if mtype = ''analise_viagem'' then
           travel_analysis S (payload_get p ''origem'' (PStr sao_paulo))
             (payload_get p ''destino'' (PStr ''Rio de Janeiro'')) st
         else if mtype = ''dashboard'' then generate_dashboard S st
         else if mtype = ''status_agentes'' then check_agents_status S st
         else if mtype = ''ping'' then
           (Inr (PDict [(''response'', PStr ''pong''), (''agent'', PStr ''orchestrator''),
                        (''sub_agents'', PList [PStr ''weather'', PStr ''finance''])]), st)
         else (Inl (ValueError (msg_unsupported @ mtype)), st))"


section \<open>Notions used to state the properties\<close>

subsection \<open>City comparison\<close>

text \<open>The temperature \<open>dados.get("clima", {}).get("temperatura")\<close> of a city's entry, and
  the entries on which that expression and the comparison of two temperatures do not
  raise: the \<open>clima\<close>, if any, is a mapping, and its temperature, if any, is a number or a
  value that counts as false.\<close>

fun city_temp :: "pyval \<Rightarrow> pyval" where
  "city_temp (PDict d) =
     (case dict_get d ''clima'' of
        Some (PDict c) \<Rightarrow> (case dict_get c ''temperatura'' of Some t \<Rightarrow> t | None \<Rightarrow> PNone)
      | _ \<Rightarrow> PNone)"
| "city_temp _ = PNone"

fun well_formed_city :: "pyval \<Rightarrow> bool" where
  "well_formed_city (PDict d) =
     (case dict_get d ''clima'' of
        None \<Rightarrow> True
      | Some (PDict c) \<Rightarrow>
          (case dict_get c ''temperatura'' of
             None \<Rightarrow> True | Some t \<Rightarrow> \<not> truthy t \<or> num_of t \<noteq> None)
      | Some _ \<Rightarrow> False)"
| "well_formed_city _ = False"

text \<open>The cities with a temperature that is a number other than zero, in the order of the
  mapping; the result of a comparison; the cities the loop of \<open>_compare_cities\<close> keeps.\<close>

fun nonzero_temps :: "(string \<times> pyval) list \<Rightarrow> (string \<times> real) list" where
  "nonzero_temps [] = []"
| "nonzero_temps ((cidade, dados) # rest) =
     (case num_of (city_temp dados) of
        Some r \<Rightarrow> if r \<noteq> 0 then (cidade, r) # nonzero_temps rest else nonzero_temps rest
      | None \<Rightarrow> nonzero_temps rest)"

definition comparison :: "string \<Rightarrow> pyval \<Rightarrow> string \<Rightarrow> pyval \<Rightarrow> pyval" where
  "comparison cq tq cf tf =
     PDict [(''temperatura'', PDict
       [(''mais_quente'', PDict [(''cidade'', PStr cq), (''temperatura'', tq)]),
        (''mais_fria'', PDict [(''cidade'', PStr cf), (''temperatura'', tf)])])]"

fun hot_values :: "(string \<times> pyval) list \<Rightarrow> (string \<times> pyval) list" where
  "hot_values [] = []"
| "hot_values ((cidade, dados) # rest) =
     (if truthy (city_temp dados) then (cidade, city_temp dados) # hot_values rest
      else hot_values rest)"

subsection \<open>Best travel day\<close>

text \<open>A forecast entry as the simulated forecast produces it: a mapping whose rain
  probability, if present, is an integer. Its rain is that probability, 50 when the
  entry has none; the rain of a day is the sum over origin and destination.\<close>

fun well_formed_day :: "pyval \<Rightarrow> bool" where
  "well_formed_day (PDict d) =
     (case dict_get d ''probabilidade_chuva'' of None \<Rightarrow> True | Some v \<Rightarrow> int_of v \<noteq> None)"
| "well_formed_day _ = False"

fun rain :: "pyval \<Rightarrow> int" where
  "rain (PDict d) =
     (case dict_get d ''probabilidade_chuva'' of
        None \<Rightarrow> 50
      | Some v \<Rightarrow> (case int_of v of Some r \<Rightarrow> r | None \<Rightarrow> 50))"
| "rain _ = 50"

definition summed_rain :: "(pyval \<times> pyval) list \<Rightarrow> int list" where
  "summed_rain days = map (\<lambda>od. rain (fst od) + rain (snd od)) days"

text \<open>\<open>x.get(k, dflt)\<close> as a total function, and the record \<open>melhor_dia\<close> of the day at
  index \<open>i\<close>.\<close>

definition field :: "pyval \<Rightarrow> string \<Rightarrow> pyval \<Rightarrow> pyval" where
  "field x k dflt =
     (case x of PDict d \<Rightarrow> (case dict_get d k of Some v \<Rightarrow> v | None \<Rightarrow> dflt) | _ \<Rightarrow> dflt)"

definition day_record :: "nat \<Rightarrow> pyval \<times> pyval \<Rightarrow> pyval" where
  "day_record i od =
     PDict [(''dia'', PInt (int i + 1)),
            (''data'', field (fst od) ''data'' (PStr ''N/A'')),
            (''probabilidade_chuva_origem'', field (fst od) ''probabilidade_chuva'' (PInt 0)),
            (''probabilidade_chuva_destino'', field (snd od) ''probabilidade_chuva'' (PInt 0))]"

text \<open>Sample entries: a forecast day with a rain probability, a city with a
  temperature.\<close>

definition day :: "int \<Rightarrow> pyval" where "day p = PDict [(''probabilidade_chuva'', PInt p)]"

definition city :: "pyval \<Rightarrow> pyval" where
  "city t = PDict [(''clima'', PDict [(''temperatura'', t)])]"

subsection \<open>Message types\<close>

text \<open>The message types each agent recognises, from the branches of its
  \<open>_process_custom_message\<close>, and the response to an unrecognised one.\<close>

definition weather_types :: "string list" where
  "weather_types = [''clima_atual'', ''previsao'', ''clima_multiplas_cidades'', ''ping'']"

definition finance_types :: "string list" where
  "finance_types =
     [''cotacao_moeda'', ''cotacao_crypto'', ''multiplas_moedas'', ''top_cryptos'',
      ''resumo_mercado'', ''ping'']"

definition orchestrator_types :: "string list" where
  "orchestrator_types =
     [''relatorio_completo'', ''clima_e_economia'', ''multiplas_cidades_completo'',
      ''analise_viagem'', ''dashboard'', ''status_agentes'', ''ping'']"

definition unsupported_response :: "string \<Rightarrow> mcp_response" where
  "unsupported_response t =
     \<lparr>success = False, data = PNone, error = Some (msg_unsupported @ lower t)\<rparr>"

subsection \<open>Cached queries of the Finance agent\<close>

text \<open>The cache key and the provider request of each cached query, as the handlers build
  them.\<close>

definition exchange_key :: "string \<Rightarrow> string \<Rightarrow> string" where
  "exchange_key base target = ''exchange_'' @ base @ ''_'' @ target"

definition crypto_key :: "string \<Rightarrow> string \<Rightarrow> string" where
  "crypto_key crypto currency = ''crypto_'' @ crypto @ ''_'' @ currency"

definition top_cryptos_key :: "int \<Rightarrow> string \<Rightarrow> string" where
  "top_cryptos_key limit currency = ''top_cryptos_'' @ str_of_int limit @ ''_'' @ currency"

definition exchange_request :: "string \<Rightarrow> request" where
  "exchange_request base = \<lparr>url = exchange_rate_api @ ''/'' @ base, params = []\<rparr>"

definition crypto_request :: "string \<Rightarrow> string \<Rightarrow> request" where
  "crypto_request crypto currency =
     \<lparr>url = crypto_api @ ''/simple/price'',
      params = [(''ids'', PStr (lower crypto)),
                (''vs_currencies'', PStr (lower currency)),
                (''include_24hr_change'', PStr ''true''),
                (''include_24hr_vol'', PStr ''true'')]\<rparr>"

definition top_cryptos_request :: "int \<Rightarrow> string \<Rightarrow> request" where
  "top_cryptos_request limit currency =
     \<lparr>url = crypto_api @ ''/coins/markets'',
      params = [(''vs_currency'', PStr (lower currency)),
                (''order'', PStr ''market_cap_desc''),
                (''per_page'', PInt limit),
                (''page'', PInt 1),
                (''sparkline'', PStr ''false'')]\<rparr>"

text \<open>The three cached queries under one name: the handler of a query, its cache key
  and its provider request.\<close>

datatype finance_query =
    Exchange string string
  | Crypto string string
  | TopCryptos int string

fun run_query ::
  "finance_query \<Rightarrow> finance_agent \<Rightarrow> world \<Rightarrow> pyval result \<times> finance_agent \<times> world" where
  "run_query (Exchange base target) = get_exchange_rate base target"
| "run_query (Crypto crypto currency) = get_crypto_price crypto currency"
| "run_query (TopCryptos limit currency) = get_top_cryptos limit currency"

fun query_key :: "finance_query \<Rightarrow> string" where
  "query_key (Exchange base target) = exchange_key base target"
| "query_key (Crypto crypto currency) = crypto_key crypto currency"
| "query_key (TopCryptos limit currency) = top_cryptos_key limit currency"

fun query_request :: "finance_query \<Rightarrow> request" where
  "query_request (Exchange base target) = exchange_request base"
| "query_request (Crypto crypto currency) = crypto_request crypto currency"
| "query_request (TopCryptos limit currency) = top_cryptos_request limit currency"

text \<open>The latest reading of the clock taken in a world.\<close>

definition last_reading :: "world \<Rightarrow> real" where
  "last_reading w = clock w (ticks w - 1)"

text \<open>The provider requests of the Weather agent, as its handlers build them.\<close>

definition weather_request :: "string \<Rightarrow> weather_agent \<Rightarrow> request" where
  "weather_request cidade a =
     \<lparr>url = base_url @ ''/weather'',
      params = [(''q'', PStr cidade), (''appid'', PStr (the_key a)),
                (''units'', PStr ''metric''), (''lang'', PStr ''pt_br'')]\<rparr>"

definition forecast_request :: "string \<Rightarrow> int \<Rightarrow> weather_agent \<Rightarrow> request" where
  "forecast_request cidade dias a =
     \<lparr>url = base_url @ ''/forecast'',
      params = [(''q'', PStr cidade), (''appid'', PStr (the_key a)),
                (''units'', PStr ''metric''), (''lang'', PStr ''pt_br''),
                (''cnt'', PInt (dias * 8))]\<rparr>"

subsection \<open>Provenance of cached data\<close>

text \<open>A result is derived from a reply body when one of the three handlers builds it from
  that body; it is from the provider when some call on record was answered with status
  200 and a body it is derived from; it carries a real source when its \<open>fonte\<close> names one
  of the two providers. The cache is from the provider when every entry is. A world
  extends another when it has the same provider and a longer record of calls.\<close>

definition derived :: "pyval \<Rightarrow> pyval \<Rightarrow> bool" where
  "derived json d \<longleftrightarrow>
     (\<exists>base target. exchange_result base target json = Inr (Some d)) \<or>
     (\<exists>crypto currency w. fst (crypto_result crypto currency json w) = Inr (Some d)) \<or>
     (\<exists>limit currency w. fst (top_cryptos_result limit currency json w) = Inr d)"

definition from_provider :: "world \<Rightarrow> pyval \<Rightarrow> bool" where
  "from_provider w d \<longleftrightarrow>
     (\<exists>i < length (calls w). \<exists>json.
        provider w i (calls w ! i) = Reply 200 (Some json) \<and> derived json d)"

definition real_source :: "pyval \<Rightarrow> bool" where
  "real_source d \<longleftrightarrow>
     field d ''fonte'' PNone = PStr ''ExchangeRate-API'' \<or> field d ''fonte'' PNone = PStr ''CoinGecko''"

definition cache_from_provider :: "finance_agent \<Rightarrow> world \<Rightarrow> bool" where
  "cache_from_provider a w \<longleftrightarrow>
     (\<forall>k d ts. cache a k = Some (d, ts) \<longrightarrow> from_provider w d \<and> real_source d)"

definition extends :: "world \<Rightarrow> world \<Rightarrow> bool" where
  "extends w w' \<longleftrightarrow> provider w' = provider w \<and> (\<exists>ys. calls w' = calls w @ ys)"

subsection \<open>Shape of results and failing replies\<close>


definition crypto_keys :: "string list" where
  "crypto_keys = [''crypto'', ''moeda'', ''preco'', ''variacao_24h'', ''volume_24h'', ''timestamp'', ''fonte'']"

definition top_cryptos_keys :: "string list" where
  "top_cryptos_keys = [''top_cryptos'', ''moeda'', ''limite'', ''timestamp'', ''fonte'']"

definition weather_keys :: "string list" where
  "weather_keys =
     [''cidade'', ''pais'', ''temperatura'', ''sensacao_termica'', ''humidade'', ''pressao'',
      ''descricao'', ''vento_velocidade'', ''vento_direcao'', ''visibilidade'', ''fonte'',
      ''timestamp'']"

definition forecast_keys :: "string list" where
  "forecast_keys = [''cidade'', ''pais'', ''previsoes'', ''fonte'']"

text \<open>A reply body lacks a path of keys (and first elements) when following the path
  from the body meets a value without the key, or an empty list. A reply fails when the
  call is refused, the status is not 200, the body is no JSON, or the body lacks one of
  the paths the handler reads without a default.\<close>

datatype step = Key string | First

fun lacks :: "pyval \<Rightarrow> step list \<Rightarrow> bool" where
  "lacks v [] = False"
| "lacks v (Key k # rest) =
     (case v of
        PDict d \<Rightarrow> (case dict_get d k of None \<Rightarrow> True | Some v' \<Rightarrow> lacks v' rest)
      | _ \<Rightarrow> True)"
| "lacks v (First # rest) = (case v of PList (x # xs) \<Rightarrow> lacks x rest | _ \<Rightarrow> True)"

definition reply_fails :: "step list list \<Rightarrow> reply \<Rightarrow> bool" where
  "reply_fails expected rep =
     (case rep of
        Refused \<Rightarrow> True
      | Reply status body \<Rightarrow>
          status \<noteq> 200 \<or> (case body of None \<Rightarrow> True | Some json \<Rightarrow> list_ex (lacks json) expected))"




definition forecast_expected :: "step list list" where
  "forecast_expected =
     [[Key ''list''], [Key ''city'', Key ''name''], [Key ''city'', Key ''country'']]"







subsection \<open>Sample data\<close>

text \<open>A reply body with a rate and two prices, a weather reply, a world whose clock
  starts at 1000 and advances one second per reading, a Finance agent with an open
  session and an empty cache, a Weather agent with a key, and the results the handlers
  build from the sample bodies.\<close>

definition sample_body :: pyval where
  "sample_body =
     PDict [(''rates'', PDict [(''BRL'', PFloat 5.25)]),
            (''time_last_updated'', PInt 1700000000),
            (''bitcoin'', PDict [(''brl'', PInt 350000)]),
            (''ethereum'', PDict [(''brl'', PInt 12000)])]"

definition sample_weather_body :: pyval where
  "sample_weather_body =
     PDict [(''name'', PStr ''Santos''),
            (''sys'', PDict [(''country'', PStr ''BR'')]),
            (''main'', PDict [(''temp'', PInt 25), (''feels_like'', PInt 26),
                              (''humidity'', PInt 70), (''pressure'', PInt 1012)]),
            (''weather'', PList [PDict [(''description'', PStr ''nublado'')]]),
            (''wind'', PDict [(''speed'', PInt 3)]),
            (''dt'', PInt 1700000000)]"

definition sample_world :: "(nat \<Rightarrow> request \<Rightarrow> reply) \<Rightarrow> world" where
  "sample_world p =
     \<lparr>clock = (\<lambda>k. 1000 + real k), ticks = 0, provider = p, calls = [],
      unit_random = (\<lambda>k. 1 / 2), rand_below = (\<lambda>k n. 0), draws = 0,
      str_of = (\<lambda>v. ''?''), format_float = (\<lambda>spec x. ''?''), isoformat = (\<lambda>t. ''now''),
      strftime = (\<lambda>f t. ''now''), title_case = (\<lambda>s. s)\<rparr>"

definition fresh_finance :: finance_agent where
  "fresh_finance = \<lparr>f_session = True, cache = (\<lambda>k. None)\<rparr>"

definition usd_brl_quote :: pyval where
  "usd_brl_quote =
     PDict [(''par'', PStr ''USD/BRL''), (''taxa'', PFloat 5.25), (''base'', PStr ''USD''),
            (''target'', PStr ''BRL''), (''timestamp'', PInt 1700000000),
            (''fonte'', PStr ''ExchangeRate-API'')]"

definition keyed_weather :: weather_agent where
  "keyed_weather = \<lparr>api_key = Some ''key'', w_session = True\<rparr>"

definition santos_weather :: pyval where
  "santos_weather =
     PDict [(''cidade'', PStr ''Santos''), (''pais'', PStr ''BR''), (''temperatura'', PInt 25),
            (''sensacao_termica'', PInt 26), (''humidade'', PInt 70), (''pressao'', PInt 1012),
            (''descricao'', PStr ''nublado''), (''vento_velocidade'', PInt 3),
            (''vento_direcao'', PInt 0), (''visibilidade'', PFloat 0),
            (''fonte'', PStr ''OpenWeatherMap''), (''timestamp'', PInt 1700000000)]"

definition quiet_world :: world where
  "quiet_world = sample_world (\<lambda>i rq. Refused)"

definition sample_orchestrator :: "(weather_agent, finance_agent) orchestrator" where
  "sample_orchestrator = \<lparr>weather_sub = keyed_weather, finance_sub = fresh_finance, queries = []\<rparr>"

section \<open>Basic facts\<close>

lemma bind_Inr [simp]: "bind (Inr x) f = f x" by (simp add: bind_def)

lemma bind_Inl [simp]: "bind (Inl e) f = Inl e" by (simp add: bind_def)

lemma fl_zero [simp]: "fl 0 = 0"
  by (simp add: fl_def)

lemma float_limit_pos [simp]: "0 < float_limit"
  by (simp add: float_limit_def)

text \<open>The definitions by which \<open>fl\<close> is computed on a given number.\<close>

lemmas fl_eval = fl_def binade_def pow2_def bit_length.simps round_half_even_def Let_def

section \<open>Finance agent: provider calls, fallback and cache\<close>

lemma extends_refl [simp]: "extends w w"
  by (simp add: extends_def)

lemma extends_trans: "extends w w1 \<Longrightarrow> extends w1 w2 \<Longrightarrow> extends w w2"
  by (auto simp: extends_def)

lemma from_provider_mono: "extends w w' \<Longrightarrow> from_provider w d \<Longrightarrow> from_provider w' d"
  unfolding extends_def from_provider_def
  by (elim conjE exE) (rule_tac x = i in exI, auto simp: nth_append)

lemma cache_from_provider_mono:
  "extends w w' \<Longrightarrow> cache_from_provider a w \<Longrightarrow> cache_from_provider a w'"
  unfolding cache_from_provider_def by (blast intro: from_provider_mono)

lemma extends_now [simp]: "extends w (snd (now w))"
  by (simp add: extends_def now_def)

lemma extends_uniform [simp]: "extends w (snd (uniform x y w))"
  by (simp add: extends_def uniform_def)

lemma extends_randint [simp]: "extends w (snd (randint x y w))"
  by (simp add: extends_def randint_def Let_def)

lemma extends_choice [simp]: "extends w (snd (choice xs w))"
  by (simp add: extends_def choice_def)

lemma extends_http_get [simp]: "extends w (snd (http_get rq w))"
  by (simp add: extends_def http_get_def)

lemma exchange_result_real:
  "exchange_result base target json = Inr (Some d) \<Longrightarrow>
   \<exists>m. d = PDict m \<and> map fst m = [''par'', ''taxa'', ''base'', ''target'', ''timestamp'', ''fonte'']
     \<and> dict_get m ''fonte'' = Some (PStr ''ExchangeRate-API'')"
  by (auto simp: exchange_result_def bind_def dict_get_def split: sum.splits if_splits)

lemma sim_exchange:
  "\<exists>m w'. get_simulated_exchange_rate base target w = (PDict m, w') \<and>
     map fst m = [''par'', ''taxa'', ''base'', ''target'', ''timestamp'', ''fonte''] \<and>
     dict_get m ''fonte'' = Some (PStr simulated_source) \<and>
     provider w' = provider w \<and> calls w' = calls w"
  by (simp add: get_simulated_exchange_rate_def Let_def uniform_def now_def dict_get_def
      split: option.splits)

lemma is_cache_valid_world:
  "is_cache_valid key a w = (v, w1) \<Longrightarrow> provider w1 = provider w \<and> calls w1 = calls w"
  by (auto simp: is_cache_valid_def now_def split: option.splits)

lemma cache_data_eq:
  "cache_data key d a w = (a', w') \<Longrightarrow>
   a' = a\<lparr>cache := (cache a)(key \<mapsto> (d, clock w (ticks w)))\<rparr> \<and>
   provider w' = provider w \<and> calls w' = calls w"
  by (auto simp: cache_data_def now_def)

lemma get_exchange_rate_outcome:
  assumes "get_exchange_rate base target a w = (r, a', w')"
  shows "extends w w' \<and>
     (a' = a \<or>
      (\<exists>d t json. a' = a\<lparr>cache := (cache a)(exchange_key base target \<mapsto> (d, t))\<rparr> \<and> r = Inr d \<and>
         length (calls w) < length (calls w') \<and>
         provider w (length (calls w)) (calls w' ! length (calls w)) = Reply 200 (Some json) \<and>
         exchange_result base target json = Inr (Some d)))"
proof -
  obtain valid w1 where v: "is_cache_valid (exchange_key base target) a w = (valid, w1)"
    by (cases "is_cache_valid (exchange_key base target) a w")
  note w1 = is_cache_valid_world [OF v]
  show ?thesis
  proof (cases "valid \<or> \<not> f_session a")
    case True
    then show ?thesis using assms v w1
      by (auto simp: get_exchange_rate_def exchange_key_def extends_def Let_def split: if_splits)
  next
    case False
    obtain m w3 where sim: "get_simulated_exchange_rate base target (snd (http_get (exchange_request base) w1)) = (PDict m, w3)"
      and w3: "provider w3 = provider w" "calls w3 = calls w @ [exchange_request base]"
      using sim_exchange [of base target "snd (http_get (exchange_request base) w1)"] w1
      by (auto simp: http_get_def)
    show ?thesis
    proof (cases "\<exists>json d. provider w (length (calls w)) (exchange_request base) = Reply 200 (Some json)
                     \<and> exchange_result base target json = Inr (Some d)")
      case True
      then obtain json d where j: "provider w (length (calls w)) (exchange_request base) = Reply 200 (Some json)"
        "exchange_result base target json = Inr (Some d)" by blast
      then show ?thesis using assms v w1 False
        by (auto simp: get_exchange_rate_def exchange_key_def exchange_request_def extends_def
            http_get_def cache_data_def now_def Let_def)
    next
      case nr: False
      then have "r = Inr (PDict m) \<and> a' = a \<and> w' = w3"
        using assms v w1 False sim
        by (auto simp: get_exchange_rate_def exchange_key_def exchange_request_def
            http_get_def Let_def split: reply.splits option.splits sum.splits if_splits)
      then show ?thesis using w3 by (simp add: extends_def)
    qed
  qed
qed





lemma bind_eq_Inr: "bind m f = Inr y \<longleftrightarrow> (\<exists>x. m = Inr x \<and> f x = Inr y)"
  by (cases m) (auto simp: bind_def)

lemma sim_crypto:
  "\<exists>m w'. get_simulated_crypto_price crypto currency w = (PDict m, w') \<and>
     map fst m = crypto_keys \<and>
     dict_get m ''fonte'' = Some (PStr simulated_source) \<and>
     provider w' = provider w \<and> calls w' = calls w"
  by (simp add: get_simulated_crypto_price_def Let_def uniform_def randint_def now_def dict_get_def
      crypto_keys_def split: option.splits)

lemma crypto_result_world:
  "crypto_result crypto currency json w = (x, w1) \<Longrightarrow> provider w1 = provider w \<and> calls w1 = calls w"
  by (auto simp: crypto_result_def now_def split: sum.splits bool.splits prod.splits)

lemma crypto_result_real:
  "crypto_result crypto currency json w = (Inr (Some d), w1) \<Longrightarrow>
   \<exists>m. d = PDict m \<and> map fst m = crypto_keys \<and> dict_get m ''fonte'' = Some (PStr ''CoinGecko'')"
  by (auto simp: crypto_result_def now_def crypto_keys_def dict_get_def
      split: sum.splits bool.splits prod.splits)


lemma crypto_result_unchanged:
  "crypto_result crypto currency json w = (x, w1) \<Longrightarrow> \<forall>d. x \<noteq> Inr (Some d) \<Longrightarrow> w1 = w"
  by (auto simp: crypto_result_def now_def split: sum.splits bool.splits prod.splits)

lemma get_crypto_price_simulated:
  assumes v: "is_cache_valid (crypto_key crypto currency) a w = (False, w1)" and s: "f_session a"
    and nr: "\<not> (\<exists>json d w2'. provider w (length (calls w)) (crypto_request crypto currency) = Reply 200 (Some json)
                   \<and> crypto_result crypto currency json (snd (http_get (crypto_request crypto currency) w1)) = (Inr (Some d), w2'))"
    and sim: "get_simulated_crypto_price crypto currency (snd (http_get (crypto_request crypto currency) w1)) = (m, w3)"
  shows "get_crypto_price crypto currency a w = (Inr m, a, w3)"
proof -
  note w1 = is_cache_valid_world [OF v]
  note defs = get_crypto_price_def crypto_key_def crypto_request_def http_get_def Let_def
  show ?thesis
  proof (cases "provider w (length (calls w)) (crypto_request crypto currency)")
    case Refused
    then show ?thesis using v s w1 sim by (simp add: defs)
  next
    case (Reply status body)
    show ?thesis
    proof (cases "status = 200")
      case False
      then show ?thesis using Reply v s w1 sim by (simp add: defs)
    next
      case True
      show ?thesis
      proof (cases body)
        case None
        then show ?thesis using Reply True v s w1 sim by (simp add: defs)
      next
        case (Some json)
        obtain x w2' where x: "crypto_result crypto currency json
                                 (snd (http_get (crypto_request crypto currency) w1)) = (x, w2')"
          by (cases "crypto_result crypto currency json
                                 (snd (http_get (crypto_request crypto currency) w1))")
        with nr Reply True Some have nd: "\<forall>d. x \<noteq> Inr (Some d)" by auto
        from crypto_result_unchanged [OF x nd]
        have x': "crypto_result crypto currency json
                     (snd (http_get (crypto_request crypto currency) w1))
                   = (x, snd (http_get (crypto_request crypto currency) w1))" using x by simp
        show ?thesis
        proof (cases x)
          case (Inl e)
          then show ?thesis using Reply True Some v s w1 sim x' by (simp add: defs)
        next
          case (Inr opt)
          with nd have "opt = None" by (cases opt) auto
          then show ?thesis using Inr Reply True Some v s w1 sim x' by (simp add: defs)
        qed
      qed
    qed
  qed
qed

lemma get_crypto_price_real:
  assumes v: "is_cache_valid (crypto_key crypto currency) a w = (False, w1)" and s: "f_session a"
    and j: "provider w (length (calls w)) (crypto_request crypto currency) = Reply 200 (Some json)"
    and r: "crypto_result crypto currency json (snd (http_get (crypto_request crypto currency) w1)) = (Inr (Some d), w2')"
  shows "get_crypto_price crypto currency a w =
           (Inr d, a\<lparr>cache := (cache a)(crypto_key crypto currency \<mapsto> (d, clock w2' (ticks w2')))\<rparr>,
            w2'\<lparr>ticks := Suc (ticks w2')\<rparr>)"
  using v s is_cache_valid_world [OF v] j r
  by (simp add: get_crypto_price_def crypto_key_def
      crypto_request_def http_get_def Let_def cache_data_def now_def)

lemma get_crypto_price_outcome:
  assumes "get_crypto_price crypto currency a w = (r, a', w')"
  shows "extends w w' \<and>
     (a' = a \<or>
      (\<exists>d t json w0. a' = a\<lparr>cache := (cache a)(crypto_key crypto currency \<mapsto> (d, t))\<rparr> \<and> r = Inr d \<and>
         length (calls w) < length (calls w') \<and>
         provider w (length (calls w)) (calls w' ! length (calls w)) = Reply 200 (Some json) \<and>
         fst (crypto_result crypto currency json w0) = Inr (Some d)))"
proof -
  obtain valid w1 where v: "is_cache_valid (crypto_key crypto currency) a w = (valid, w1)"
    by (cases "is_cache_valid (crypto_key crypto currency) a w")
  note w1 = is_cache_valid_world [OF v]
  define w2 where "w2 = snd (http_get (crypto_request crypto currency) w1)"
  have w2: "provider w2 = provider w" "calls w2 = calls w @ [crypto_request crypto currency]"
    using w1 by (auto simp: w2_def http_get_def)
  show ?thesis
  proof (cases "valid \<or> \<not> f_session a")
    case True
    then show ?thesis using assms v w1
      by (auto simp: get_crypto_price_def crypto_key_def extends_def Let_def split: if_splits)
  next
    case False
    then have vf: "is_cache_valid (crypto_key crypto currency) a w = (False, w1)" and s: "f_session a"
      using v by auto
    obtain m w3 where sim: "get_simulated_crypto_price crypto currency w2 = (PDict m, w3)"
      and w3: "provider w3 = provider w" "calls w3 = calls w @ [crypto_request crypto currency]"
      using sim_crypto [of crypto currency w2] w2 by auto
    show ?thesis
    proof (cases "\<exists>json d w2'. provider w (length (calls w)) (crypto_request crypto currency) = Reply 200 (Some json)
                     \<and> crypto_result crypto currency json w2 = (Inr (Some d), w2')")
      case True
      then obtain json d w2' where j: "provider w (length (calls w)) (crypto_request crypto currency) = Reply 200 (Some json)"
        "crypto_result crypto currency json w2 = (Inr (Some d), w2')" by blast
      from crypto_result_world [OF j(2)] w2 have w2': "provider w2' = provider w"
        "calls w2' = calls w @ [crypto_request crypto currency]"
        by auto
      have f: "fst (crypto_result crypto currency json w2) = Inr (Some d)" using j(2) by simp
      from get_crypto_price_real [OF vf s j(1) j(2) [unfolded w2_def]] assms
      have "r = Inr d \<and> a' = a\<lparr>cache := (cache a)(crypto_key crypto currency \<mapsto> (d, clock w2' (ticks w2')))\<rparr>
            \<and> w' = w2'\<lparr>ticks := Suc (ticks w2')\<rparr>" by simp
      then show ?thesis using j(1) f w2'
        by (auto simp: extends_def)
    next
      case nr: False
      from get_crypto_price_simulated [OF vf s nr [unfolded w2_def] sim [unfolded w2_def]] assms
      have "r = Inr (PDict m) \<and> a' = a \<and> w' = w3" by simp
      then show ?thesis using w3 by (simp add: extends_def)
    qed
  qed
qed


lemma simulated_cryptos_world:
  "simulated_cryptos xs i w = (es, w') \<Longrightarrow> provider w' = provider w \<and> calls w' = calls w"
proof (induction xs arbitrary: i w es w')
  case Nil
  then show ?case by simp
next
  case (Cons x xs)
  then show ?case
    by (auto simp: Let_def uniform_def randint_def split: prod.splits)
qed

lemma sim_top_cryptos:
  "\<exists>m w'. get_simulated_top_cryptos limit currency w = (PDict m, w') \<and>
     map fst m = top_cryptos_keys \<and>
     dict_get m ''fonte'' = Some (PStr simulated_source) \<and>
     provider w' = provider w \<and> calls w' = calls w"
proof -
  obtain es w1 where e: "simulated_cryptos (slice_to cryptos_populares limit) 0 w = (es, w1)"
    by (cases "simulated_cryptos (slice_to cryptos_populares limit) 0 w")
  from simulated_cryptos_world [OF e] show ?thesis
    by (simp add: get_simulated_top_cryptos_def e now_def dict_get_def top_cryptos_keys_def)
qed

lemma top_cryptos_result_world:
  "top_cryptos_result limit currency json w = (x, w1) \<Longrightarrow> provider w1 = provider w \<and> calls w1 = calls w"
  by (auto simp: top_cryptos_result_def now_def split: sum.splits prod.splits)

lemma top_cryptos_result_Inl:
  "top_cryptos_result limit currency json w = (Inl e, w1) \<Longrightarrow> w1 = w"
  by (auto simp: top_cryptos_result_def now_def split: sum.splits prod.splits)

lemma top_cryptos_result_real:
  "top_cryptos_result limit currency json w = (Inr d, w1) \<Longrightarrow>
   \<exists>m. d = PDict m \<and> map fst m = top_cryptos_keys \<and> dict_get m ''fonte'' = Some (PStr ''CoinGecko'')"
  by (auto simp: top_cryptos_result_def now_def top_cryptos_keys_def dict_get_def
      split: sum.splits prod.splits)



lemma get_top_cryptos_simulated:
  assumes v: "is_cache_valid (top_cryptos_key limit currency) a w = (False, w1)" and s: "f_session a"
    and nr: "\<not> (\<exists>json d w2'. provider w (length (calls w)) (top_cryptos_request limit currency) = Reply 200 (Some json)
                   \<and> top_cryptos_result limit currency json (snd (http_get (top_cryptos_request limit currency) w1)) = (Inr d, w2'))"
    and sim: "get_simulated_top_cryptos limit currency (snd (http_get (top_cryptos_request limit currency) w1)) = (m, w3)"
  shows "get_top_cryptos limit currency a w = (Inr m, a, w3)"
proof -
  note w1 = is_cache_valid_world [OF v]
  note defs = get_top_cryptos_def top_cryptos_key_def top_cryptos_request_def http_get_def Let_def
  show ?thesis
  proof (cases "provider w (length (calls w)) (top_cryptos_request limit currency)")
    case Refused
    then show ?thesis using v s w1 sim by (simp add: defs)
  next
    case (Reply status body)
    show ?thesis
    proof (cases "status = 200")
      case False
      then show ?thesis using Reply v s w1 sim by (simp add: defs)
    next
      case True
      show ?thesis
      proof (cases body)
        case None
        then show ?thesis using Reply True v s w1 sim by (simp add: defs)
      next
        case (Some json)
        obtain x w2' where x: "top_cryptos_result limit currency json
                                 (snd (http_get (top_cryptos_request limit currency) w1)) = (x, w2')"
          by (cases "top_cryptos_result limit currency json
                                 (snd (http_get (top_cryptos_request limit currency) w1))")
        with nr Reply True Some obtain e where e: "x = Inl e"
          by (cases x) auto
        with x top_cryptos_result_Inl
        have "w2' = snd (http_get (top_cryptos_request limit currency) w1)" by blast
        with x e have x': "top_cryptos_result limit currency json
                                 (snd (http_get (top_cryptos_request limit currency) w1))
                           = (Inl e, snd (http_get (top_cryptos_request limit currency) w1))" by simp
        show ?thesis using Reply True Some v s w1 sim x'
          by (simp add: defs)
      qed
    qed
  qed
qed

lemma get_top_cryptos_real:
  assumes v: "is_cache_valid (top_cryptos_key limit currency) a w = (False, w1)" and s: "f_session a"
    and j: "provider w (length (calls w)) (top_cryptos_request limit currency) = Reply 200 (Some json)"
    and r: "top_cryptos_result limit currency json (snd (http_get (top_cryptos_request limit currency) w1)) = (Inr d, w2')"
  shows "get_top_cryptos limit currency a w =
           (Inr d, a\<lparr>cache := (cache a)(top_cryptos_key limit currency \<mapsto> (d, clock w2' (ticks w2')))\<rparr>,
            w2'\<lparr>ticks := Suc (ticks w2')\<rparr>)"
proof -
  note w1 = is_cache_valid_world [OF v]
  have hg: "http_get (top_cryptos_request limit currency) w1
              = (Reply 200 (Some json), snd (http_get (top_cryptos_request limit currency) w1))"
    using w1 j by (simp add: http_get_def)
  show ?thesis
    using v s w1 j r
    by (simp add: get_top_cryptos_def top_cryptos_key_def
        top_cryptos_request_def http_get_def Let_def cache_data_def now_def)
qed

lemma get_top_cryptos_outcome:
  assumes "get_top_cryptos limit currency a w = (r, a', w')"
  shows "extends w w' \<and>
     (a' = a \<or>
      (\<exists>d t json w0. a' = a\<lparr>cache := (cache a)(top_cryptos_key limit currency \<mapsto> (d, t))\<rparr> \<and> r = Inr d \<and>
         length (calls w) < length (calls w') \<and>
         provider w (length (calls w)) (calls w' ! length (calls w)) = Reply 200 (Some json) \<and>
         fst (top_cryptos_result limit currency json w0) = Inr d))"
proof -
  obtain valid w1 where v: "is_cache_valid (top_cryptos_key limit currency) a w = (valid, w1)"
    by (cases "is_cache_valid (top_cryptos_key limit currency) a w")
  note w1 = is_cache_valid_world [OF v]
  define w2 where "w2 = snd (http_get (top_cryptos_request limit currency) w1)"
  have w2: "provider w2 = provider w" "calls w2 = calls w @ [top_cryptos_request limit currency]"
    using w1 by (auto simp: w2_def http_get_def)
  show ?thesis
  proof (cases "valid \<or> \<not> f_session a")
    case True
    then show ?thesis using assms v w1
      by (auto simp: get_top_cryptos_def top_cryptos_key_def extends_def Let_def split: if_splits)
  next
    case False
    then have vf: "is_cache_valid (top_cryptos_key limit currency) a w = (False, w1)" and s: "f_session a"
      using v by auto
    obtain m w3 where sim: "get_simulated_top_cryptos limit currency w2 = (PDict m, w3)"
      and w3: "provider w3 = provider w" "calls w3 = calls w @ [top_cryptos_request limit currency]"
      using sim_top_cryptos [of limit currency w2] w2 by auto
    show ?thesis
    proof (cases "\<exists>json d w2'. provider w (length (calls w)) (top_cryptos_request limit currency) = Reply 200 (Some json)
                     \<and> top_cryptos_result limit currency json w2 = (Inr d, w2')")
      case True
      then obtain json d w2' where j: "provider w (length (calls w)) (top_cryptos_request limit currency) = Reply 200 (Some json)"
        "top_cryptos_result limit currency json w2 = (Inr d, w2')" by blast
      from top_cryptos_result_world [OF j(2)] w2 have w2': "provider w2' = provider w"
        "calls w2' = calls w @ [top_cryptos_request limit currency]"
        by auto
      have f: "fst (top_cryptos_result limit currency json w2) = Inr d" using j(2) by simp
      from get_top_cryptos_real [OF vf s j(1) j(2) [unfolded w2_def]] assms
      have "r = Inr d \<and> a' = a\<lparr>cache := (cache a)(top_cryptos_key limit currency \<mapsto> (d, clock w2' (ticks w2')))\<rparr>
            \<and> w' = w2'\<lparr>ticks := Suc (ticks w2')\<rparr>" by simp
      then show ?thesis using j(1) f w2'
        by (auto simp: extends_def)
    next
      case nr: False
      from get_top_cryptos_simulated [OF vf s nr [unfolded w2_def] sim [unfolded w2_def]] assms
      have "r = Inr (PDict m) \<and> a' = a \<and> w' = w3" by simp
      then show ?thesis using w3 by (simp add: extends_def)
    qed
  qed
qed


lemma get_exchange_rate_simulated:
  assumes v: "is_cache_valid (exchange_key base target) a w = (False, w1)" and s: "f_session a"
    and nr: "\<not> (\<exists>json d. provider w (length (calls w)) (exchange_request base) = Reply 200 (Some json)
                   \<and> exchange_result base target json = Inr (Some d))"
    and sim: "get_simulated_exchange_rate base target (snd (http_get (exchange_request base) w1)) = (m, w3)"
  shows "get_exchange_rate base target a w = (Inr m, a, w3)"
  using v s is_cache_valid_world [OF v] nr sim
  by (auto simp: get_exchange_rate_def exchange_key_def exchange_request_def
      http_get_def Let_def split: reply.splits option.splits sum.splits if_splits)

lemma get_exchange_rate_real:
  assumes v: "is_cache_valid (exchange_key base target) a w = (False, w1)" and s: "f_session a"
    and j: "provider w (length (calls w)) (exchange_request base) = Reply 200 (Some json)"
    and r: "exchange_result base target json = Inr (Some d)"
  shows "get_exchange_rate base target a w =
           (Inr d, a\<lparr>cache := (cache a)(exchange_key base target \<mapsto> (d, clock w1 (ticks w1)))\<rparr>,
            w1\<lparr>calls := calls w @ [exchange_request base], ticks := Suc (ticks w1)\<rparr>)"
  using v s is_cache_valid_world [OF v] j r
  by (simp add: get_exchange_rate_def exchange_key_def
      exchange_request_def http_get_def Let_def cache_data_def now_def)

lemma is_cache_valid_hit:
  "cache a key = Some (d, ts) \<Longrightarrow> fl (clock w (ticks w) - ts) < 300 \<Longrightarrow>
   is_cache_valid key a w = (True, w\<lparr>ticks := Suc (ticks w)\<rparr>)"
  by (simp add: is_cache_valid_def now_def cache_timeout_def)

lemma get_exchange_rate_hit:
  "cache a (exchange_key base target) = Some (d, ts) \<Longrightarrow> fl (clock w (ticks w) - ts) < 300 \<Longrightarrow>
   get_exchange_rate base target a w = (Inr d, a, w\<lparr>ticks := Suc (ticks w)\<rparr>)"
  using is_cache_valid_hit [of a "exchange_key base target" d ts w]
  by (simp add: get_exchange_rate_def exchange_key_def cached_def)

lemma get_crypto_price_hit:
  "cache a (crypto_key crypto currency) = Some (d, ts) \<Longrightarrow> fl (clock w (ticks w) - ts) < 300 \<Longrightarrow>
   get_crypto_price crypto currency a w = (Inr d, a, w\<lparr>ticks := Suc (ticks w)\<rparr>)"
  using is_cache_valid_hit [of a "crypto_key crypto currency" d ts w]
  by (simp add: get_crypto_price_def crypto_key_def cached_def)

lemma get_top_cryptos_hit:
  "cache a (top_cryptos_key limit currency) = Some (d, ts) \<Longrightarrow> fl (clock w (ticks w) - ts) < 300 \<Longrightarrow>
   get_top_cryptos limit currency a w = (Inr d, a, w\<lparr>ticks := Suc (ticks w)\<rparr>)"
  using is_cache_valid_hit [of a "top_cryptos_key limit currency" d ts w]
  by (simp add: get_top_cryptos_def top_cryptos_key_def cached_def)

lemma field_fonte: "dict_get m ''fonte'' = Some v \<Longrightarrow> field (PDict m) ''fonte'' PNone = v"
  by (simp add: field_def)

lemma get_exchange_rate_stores:
  assumes c: "get_exchange_rate base target a w = (Inr r, a1, w1)"
    and inv: "calls w1 \<noteq> calls w"
    and real: "field r ''fonte'' PNone \<noteq> PStr simulated_source"
  shows "cache a1 (exchange_key base target) = Some (r, last_reading w1)"
proof -
  obtain valid w0 where v: "is_cache_valid (exchange_key base target) a w = (valid, w0)"
    by (cases "is_cache_valid (exchange_key base target) a w")
  note w0 = is_cache_valid_world [OF v]
  have "\<not> (valid \<or> \<not> f_session a)"
  proof
    assume "valid \<or> \<not> f_session a"
    then have "calls w1 = calls w" using c v w0
      by (auto simp: get_exchange_rate_def exchange_key_def Let_def split: if_splits)
    with inv show False by simp
  qed
  then have vf: "is_cache_valid (exchange_key base target) a w = (False, w0)" and s: "f_session a"
    using v by auto
  show ?thesis
  proof (cases "\<exists>json d. provider w (length (calls w)) (exchange_request base) = Reply 200 (Some json)
                   \<and> exchange_result base target json = Inr (Some d)")
    case True
    then obtain json d where j: "provider w (length (calls w)) (exchange_request base) = Reply 200 (Some json)"
      "exchange_result base target json = Inr (Some d)" by blast
    from get_exchange_rate_real [OF vf s j] c show ?thesis by (auto simp: last_reading_def)
  next
    case nr: False
    obtain m w3 where sim: "get_simulated_exchange_rate base target (snd (http_get (exchange_request base) w0)) = (PDict m, w3)"
      and m: "dict_get m ''fonte'' = Some (PStr simulated_source)"
      using sim_exchange [of base target "snd (http_get (exchange_request base) w0)"] by auto
    from get_exchange_rate_simulated [OF vf s nr sim] c have "r = PDict m" by simp
    with field_fonte [OF m] real show ?thesis by simp
  qed
qed

lemma get_crypto_price_stores:
  assumes c: "get_crypto_price crypto currency a w = (Inr r, a1, w1)"
    and inv: "calls w1 \<noteq> calls w"
    and real: "field r ''fonte'' PNone \<noteq> PStr simulated_source"
  shows "cache a1 (crypto_key crypto currency) = Some (r, last_reading w1)"
proof -
  obtain valid w0 where v: "is_cache_valid (crypto_key crypto currency) a w = (valid, w0)"
    by (cases "is_cache_valid (crypto_key crypto currency) a w")
  note w0 = is_cache_valid_world [OF v]
  have "\<not> (valid \<or> \<not> f_session a)"
  proof
    assume "valid \<or> \<not> f_session a"
    then have "calls w1 = calls w" using c v w0
      by (auto simp: get_crypto_price_def crypto_key_def Let_def split: if_splits)
    with inv show False by simp
  qed
  then have vf: "is_cache_valid (crypto_key crypto currency) a w = (False, w0)" and s: "f_session a"
    using v by auto
  define w2 where "w2 = snd (http_get (crypto_request crypto currency) w0)"
  show ?thesis
  proof (cases "\<exists>json d w2'. provider w (length (calls w)) (crypto_request crypto currency) = Reply 200 (Some json)
                   \<and> crypto_result crypto currency json w2 = (Inr (Some d), w2')")
    case True
    then obtain json d w2' where j: "provider w (length (calls w)) (crypto_request crypto currency) = Reply 200 (Some json)"
      "crypto_result crypto currency json w2 = (Inr (Some d), w2')" by blast
    from get_crypto_price_real [OF vf s j(1) j(2) [unfolded w2_def]] c show ?thesis
      by (auto simp: last_reading_def)
  next
    case nr: False
    obtain m w3 where sim: "get_simulated_crypto_price crypto currency w2 = (PDict m, w3)"
      and m: "dict_get m ''fonte'' = Some (PStr simulated_source)"
      using sim_crypto [of crypto currency w2] by auto
    from get_crypto_price_simulated [OF vf s nr [unfolded w2_def] sim [unfolded w2_def]] c
    have "r = PDict m" by simp
    with field_fonte [OF m] real show ?thesis by simp
  qed
qed

lemma get_top_cryptos_stores:
  assumes c: "get_top_cryptos limit currency a w = (Inr r, a1, w1)"
    and inv: "calls w1 \<noteq> calls w"
    and real: "field r ''fonte'' PNone \<noteq> PStr simulated_source"
  shows "cache a1 (top_cryptos_key limit currency) = Some (r, last_reading w1)"
proof -
  obtain valid w0 where v: "is_cache_valid (top_cryptos_key limit currency) a w = (valid, w0)"
    by (cases "is_cache_valid (top_cryptos_key limit currency) a w")
  note w0 = is_cache_valid_world [OF v]
  have "\<not> (valid \<or> \<not> f_session a)"
  proof
    assume "valid \<or> \<not> f_session a"
    then have "calls w1 = calls w" using c v w0
      by (auto simp: get_top_cryptos_def top_cryptos_key_def Let_def split: if_splits)
    with inv show False by simp
  qed
  then have vf: "is_cache_valid (top_cryptos_key limit currency) a w = (False, w0)" and s: "f_session a"
    using v by auto
  define w2 where "w2 = snd (http_get (top_cryptos_request limit currency) w0)"
  show ?thesis
  proof (cases "\<exists>json d w2'. provider w (length (calls w)) (top_cryptos_request limit currency) = Reply 200 (Some json)
                   \<and> top_cryptos_result limit currency json w2 = (Inr d, w2')")
    case True
    then obtain json d w2' where j: "provider w (length (calls w)) (top_cryptos_request limit currency) = Reply 200 (Some json)"
      "top_cryptos_result limit currency json w2 = (Inr d, w2')" by blast
    from get_top_cryptos_real [OF vf s j(1) j(2) [unfolded w2_def]] c show ?thesis
      by (auto simp: last_reading_def)
  next
    case nr: False
    obtain m w3 where sim: "get_simulated_top_cryptos limit currency w2 = (PDict m, w3)"
      and m: "dict_get m ''fonte'' = Some (PStr simulated_source)"
      using sim_top_cryptos [of limit currency w2] by auto
    from get_top_cryptos_simulated [OF vf s nr [unfolded w2_def] sim [unfolded w2_def]] c
    have "r = PDict m" by simp
    with field_fonte [OF m] real show ?thesis by simp
  qed
qed

lemma cache_step:
  assumes inv: "cache_from_provider a w" and ext: "extends w w'"
    and upd: "a' = a \<or> (\<exists>k d t. a' = a\<lparr>cache := (cache a)(k \<mapsto> (d, t))\<rparr> \<and> from_provider w' d \<and> real_source d)"
  shows "cache_from_provider a' w'"
proof -
  from cache_from_provider_mono [OF ext inv] have i': "cache_from_provider a w'" .
  from upd show ?thesis
  proof
    assume "a' = a"
    with i' show ?thesis by simp
  next
    assume "\<exists>k d t. a' = a\<lparr>cache := (cache a)(k \<mapsto> (d, t))\<rparr> \<and> from_provider w' d \<and> real_source d"
    then obtain k d t where a': "a' = a\<lparr>cache := (cache a)(k \<mapsto> (d, t))\<rparr>"
      and d: "from_provider w' d" "real_source d" by blast
    show ?thesis
      unfolding cache_from_provider_def
    proof (intro allI impI)
      fix k' d' ts assume c: "cache a' k' = Some (d', ts)"
      show "from_provider w' d' \<and> real_source d'"
      proof (cases "k' = k")
        case True
        with c a' have "d' = d" by simp
        with d show ?thesis by simp
      next
        case False
        with c a' have "cache a k' = Some (d', ts)" by simp
        with i' show ?thesis unfolding cache_from_provider_def by blast
      qed
    qed
  qed
qed

lemma from_provider_new:
  assumes ext: "extends w w'" and len: "length (calls w) < length (calls w')"
    and rep: "provider w (length (calls w)) (calls w' ! length (calls w)) = Reply 200 (Some json)"
    and der: "derived json d"
  shows "from_provider w' d"
  unfolding from_provider_def
  using ext len rep der by (intro exI [of _ "length (calls w)"]) (auto simp: extends_def)

lemma real_source_exchange: "exchange_result base target json = Inr (Some d) \<Longrightarrow> real_source d"
  by (drule exchange_result_real) (auto simp: real_source_def field_def)

lemma real_source_crypto: "fst (crypto_result crypto currency json w) = Inr (Some d) \<Longrightarrow> real_source d"
  using crypto_result_real [of crypto currency json w d "snd (crypto_result crypto currency json w)"]
  by (cases "crypto_result crypto currency json w") (auto simp: real_source_def field_def)

lemma real_source_top: "fst (top_cryptos_result limit currency json w) = Inr d \<Longrightarrow> real_source d"
  using top_cryptos_result_real [of limit currency json w d "snd (top_cryptos_result limit currency json w)"]
  by (cases "top_cryptos_result limit currency json w") (auto simp: real_source_def field_def)

lemma get_exchange_rate_inv:
  assumes inv: "cache_from_provider a w" and c: "get_exchange_rate base target a w = (r, a', w')"
  shows "cache_from_provider a' w' \<and> extends w w'"
proof -
  from get_exchange_rate_outcome [OF c] have ext: "extends w w'"
    and o: "a' = a \<or>
      (\<exists>d t json. a' = a\<lparr>cache := (cache a)(exchange_key base target \<mapsto> (d, t))\<rparr> \<and> r = Inr d \<and>
         length (calls w) < length (calls w') \<and>
         provider w (length (calls w)) (calls w' ! length (calls w)) = Reply 200 (Some json) \<and>
         exchange_result base target json = Inr (Some d))" by auto
  have "a' = a \<or> (\<exists>k d t. a' = a\<lparr>cache := (cache a)(k \<mapsto> (d, t))\<rparr> \<and> from_provider w' d \<and> real_source d)"
    using o
  proof
    assume "a' = a" then show ?thesis by simp
  next
    assume "\<exists>d t json. a' = a\<lparr>cache := (cache a)(exchange_key base target \<mapsto> (d, t))\<rparr> \<and> r = Inr d \<and>
         length (calls w) < length (calls w') \<and>
         provider w (length (calls w)) (calls w' ! length (calls w)) = Reply 200 (Some json) \<and>
         exchange_result base target json = Inr (Some d)"
    then obtain d t json where h: "a' = a\<lparr>cache := (cache a)(exchange_key base target \<mapsto> (d, t))\<rparr>"
      "length (calls w) < length (calls w')"
      "provider w (length (calls w)) (calls w' ! length (calls w)) = Reply 200 (Some json)"
      "exchange_result base target json = Inr (Some d)" by blast
    have "derived json d" using h(4) unfolding derived_def by blast
    from from_provider_new [OF ext h(2) h(3) this] real_source_exchange [OF h(4)] h(1)
    show ?thesis by blast
  qed
  from cache_step [OF inv ext this] ext show ?thesis by simp
qed

lemma get_crypto_price_inv:
  assumes inv: "cache_from_provider a w" and c: "get_crypto_price crypto currency a w = (r, a', w')"
  shows "cache_from_provider a' w' \<and> extends w w'"
proof -
  from get_crypto_price_outcome [OF c] have ext: "extends w w'"
    and o: "a' = a \<or>
      (\<exists>d t json w0. a' = a\<lparr>cache := (cache a)(crypto_key crypto currency \<mapsto> (d, t))\<rparr> \<and> r = Inr d \<and>
         length (calls w) < length (calls w') \<and>
         provider w (length (calls w)) (calls w' ! length (calls w)) = Reply 200 (Some json) \<and>
         fst (crypto_result crypto currency json w0) = Inr (Some d))" by auto
  have "a' = a \<or> (\<exists>k d t. a' = a\<lparr>cache := (cache a)(k \<mapsto> (d, t))\<rparr> \<and> from_provider w' d \<and> real_source d)"
    using o
  proof
    assume "a' = a" then show ?thesis by simp
  next
    assume "\<exists>d t json w0. a' = a\<lparr>cache := (cache a)(crypto_key crypto currency \<mapsto> (d, t))\<rparr> \<and> r = Inr d \<and>
         length (calls w) < length (calls w') \<and>
         provider w (length (calls w)) (calls w' ! length (calls w)) = Reply 200 (Some json) \<and>
         fst (crypto_result crypto currency json w0) = Inr (Some d)"
    then obtain d t json w0 where h: "a' = a\<lparr>cache := (cache a)(crypto_key crypto currency \<mapsto> (d, t))\<rparr>"
      "length (calls w) < length (calls w')"
      "provider w (length (calls w)) (calls w' ! length (calls w)) = Reply 200 (Some json)"
      "fst (crypto_result crypto currency json w0) = Inr (Some d)" by blast
    have "derived json d" using h(4) unfolding derived_def by blast
    from from_provider_new [OF ext h(2) h(3) this] real_source_crypto [OF h(4)] h(1)
    show ?thesis by blast
  qed
  from cache_step [OF inv ext this] ext show ?thesis by simp
qed

lemma get_top_cryptos_inv:
  assumes inv: "cache_from_provider a w" and c: "get_top_cryptos limit currency a w = (r, a', w')"
  shows "cache_from_provider a' w' \<and> extends w w'"
proof -
  from get_top_cryptos_outcome [OF c] have ext: "extends w w'"
    and o: "a' = a \<or>
      (\<exists>d t json w0. a' = a\<lparr>cache := (cache a)(top_cryptos_key limit currency \<mapsto> (d, t))\<rparr> \<and> r = Inr d \<and>
         length (calls w) < length (calls w') \<and>
         provider w (length (calls w)) (calls w' ! length (calls w)) = Reply 200 (Some json) \<and>
         fst (top_cryptos_result limit currency json w0) = Inr d)" by auto
  have "a' = a \<or> (\<exists>k d t. a' = a\<lparr>cache := (cache a)(k \<mapsto> (d, t))\<rparr> \<and> from_provider w' d \<and> real_source d)"
    using o
  proof
    assume "a' = a" then show ?thesis by simp
  next
    assume "\<exists>d t json w0. a' = a\<lparr>cache := (cache a)(top_cryptos_key limit currency \<mapsto> (d, t))\<rparr> \<and> r = Inr d \<and>
         length (calls w) < length (calls w') \<and>
         provider w (length (calls w)) (calls w' ! length (calls w)) = Reply 200 (Some json) \<and>
         fst (top_cryptos_result limit currency json w0) = Inr d"
    then obtain d t json w0 where h: "a' = a\<lparr>cache := (cache a)(top_cryptos_key limit currency \<mapsto> (d, t))\<rparr>"
      "length (calls w) < length (calls w')"
      "provider w (length (calls w)) (calls w' ! length (calls w)) = Reply 200 (Some json)"
      "fst (top_cryptos_result limit currency json w0) = Inr d" by blast
    have "derived json d" using h(4) unfolding derived_def by blast
    from from_provider_new [OF ext h(2) h(3) this] real_source_top [OF h(4)] h(1)
    show ?thesis by blast
  qed
  from cache_step [OF inv ext this] ext show ?thesis by simp
qed

lemma exchange_rates_loop_inv:
  "cache_from_provider a w \<Longrightarrow> exchange_rates_loop base targets acc a w = (rs, a', w') \<Longrightarrow>
   cache_from_provider a' w' \<and> extends w w'"
proof (induction targets arbitrary: acc a w)
  case Nil
  then show ?case by simp
next
  case (Cons t ts)
  obtain r a1 w1 where c: "get_exchange_rate base t a w = (r, a1, w1)"
    by (cases "get_exchange_rate base t a w")
  from get_exchange_rate_inv [OF Cons.prems(1) c] have i1: "cache_from_provider a1 w1" and e1: "extends w w1"
    by auto
  from Cons.prems(2) c obtain acc' where "exchange_rates_loop base ts acc' a1 w1 = (rs, a', w')"
    by (cases r) auto
  from Cons.IH [OF i1 this] e1 show ?case by (auto intro: extends_trans)
qed

lemma get_multiple_exchange_rates_inv:
  assumes inv: "cache_from_provider a w" and c: "get_multiple_exchange_rates base targets a w = (r, a', w')"
  shows "cache_from_provider a' w' \<and> extends w w'"
proof -
  obtain rs a1 w1 where l: "exchange_rates_loop base targets [] a w = (rs, a1, w1)"
    by (cases "exchange_rates_loop base targets [] a w")
  from exchange_rates_loop_inv [OF inv l] have i1: "cache_from_provider a1 w1" and e1: "extends w w1"
    by auto
  from c l have "a' = a1" "w' = snd (now w1)"
    by (auto simp: get_multiple_exchange_rates_def now_def)
  with i1 e1 show ?thesis
    using extends_now [of w1] cache_from_provider_mono [OF extends_now [of w1] i1]
    by (auto intro: extends_trans)
qed

lemma sim_market_summary_world:
  "get_simulated_market_summary w = (r, w') \<Longrightarrow> extends w w'"
  by (auto simp: get_simulated_market_summary_def uniform_def now_def Let_def extends_def)

lemma summary_fallback_inv:
  assumes inv: "cache_from_provider a w" and c: "summary_fallback a w = (r, a', w')"
  shows "cache_from_provider a' w' \<and> extends w w'"
proof -
  obtain x wx where s: "get_simulated_market_summary w = (x, wx)"
    by (cases "get_simulated_market_summary w")
  from c s have "a' = a" "w' = wx" by (auto simp: summary_fallback_def)
  with sim_market_summary_world [OF s] inv show ?thesis
    by (auto intro: cache_from_provider_mono)
qed

lemma get_market_summary_inv:
  assumes inv: "cache_from_provider a w" and c: "get_market_summary a w = (r, a', w')"
  shows "cache_from_provider a' w' \<and> extends w w'"
proof -
  obtain r1 a1 w1 where c1: "get_exchange_rate ''USD'' ''BRL'' a w = (r1, a1, w1)"
    by (cases "get_exchange_rate ''USD'' ''BRL'' a w")
  from get_exchange_rate_inv [OF inv c1] have i1: "cache_from_provider a1 w1" and e1: "extends w w1" by auto
  obtain r2 a2 w2 where c2: "get_exchange_rate ''EUR'' ''BRL'' a1 w1 = (r2, a2, w2)"
    by (cases "get_exchange_rate ''EUR'' ''BRL'' a1 w1")
  from get_exchange_rate_inv [OF i1 c2] e1 have i2: "cache_from_provider a2 w2" and e2: "extends w w2"
    by (auto intro: extends_trans)
  obtain r3 a3 w3 where c3: "get_crypto_price ''bitcoin'' ''brl'' a2 w2 = (r3, a3, w3)"
    by (cases "get_crypto_price ''bitcoin'' ''brl'' a2 w2")
  from get_crypto_price_inv [OF i2 c3] e2 have i3: "cache_from_provider a3 w3" and e3: "extends w w3"
    by (auto intro: extends_trans)
  obtain r4 a4 w4 where c4: "get_crypto_price ''ethereum'' ''brl'' a3 w3 = (r4, a4, w4)"
    by (cases "get_crypto_price ''ethereum'' ''brl'' a3 w3")
  from get_crypto_price_inv [OF i3 c4] e3 have i4: "cache_from_provider a4 w4" and e4: "extends w w4"
    by (auto intro: extends_trans)
  have fb: "summary_fallback ax wx = (r, a', w') \<Longrightarrow> cache_from_provider ax wx \<Longrightarrow> extends w wx
            \<Longrightarrow> cache_from_provider a' w' \<and> extends w w'" for ax wx
    using summary_fallback_inv [of ax wx r a' w'] by (auto intro: extends_trans)
  have fin: "a' = a4 \<Longrightarrow> extends w4 w' \<Longrightarrow> cache_from_provider a' w' \<and> extends w w'"
    using i4 e4 by (auto intro: extends_trans cache_from_provider_mono)
  have nn: "extends w4 (snd (now (snd (now w4))))"
    by (simp add: extends_def now_def)
  show ?thesis
    using c c1 c2 c3 c4 fb [OF _ i1 e1] fb [OF _ i2 e2] fb [OF _ i3 e3] fb [OF _ i4 e4] fin nn
    by (auto simp: get_market_summary_def now_def split: sum.splits)
qed

lemma finance_process_inv:
  assumes inv: "cache_from_provider a w"
    and c: "finance_process_custom_message m (a, w) = (r, a', w')"
  shows "cache_from_provider a' w' \<and> extends w w'"
  using c inv get_exchange_rate_inv [OF inv] get_crypto_price_inv [OF inv]
    get_multiple_exchange_rates_inv [OF inv] get_top_cryptos_inv [OF inv]
    get_market_summary_inv [OF inv]
  by (auto simp: finance_process_custom_message_def Let_def split: if_splits sum.splits)

lemma real_source_not_simulated: "real_source d \<Longrightarrow> field d ''fonte'' PNone \<noteq> PStr simulated_source"
  by (auto simp: real_source_def simulated_source_def)

text \<open>
  Claim C8. The invariant \<open>cache_from_provider\<close> says that every entry of the cache was
  derived from the JSON body of a reply with status 200 that the provider gave to a call
  on record, and carries the source mark of a real provider. It holds of the empty cache
  the agent starts with, and every message the agent processes preserves it; so no entry
  ever carries the mark of simulated data.
\<close>

theorem finance_cache_holds_only_provider_results:
  "cache_from_provider \<lparr>f_session = s, cache = (\<lambda>k. None)\<rparr> w \<and>
   (cache_from_provider a w \<longrightarrow>
      cache_from_provider (fst (snd (finance_process_custom_message m (a, w))))
                          (snd (snd (finance_process_custom_message m (a, w)))) \<and>
      (\<forall>k d ts. cache (fst (snd (finance_process_custom_message m (a, w)))) k = Some (d, ts) \<longrightarrow>
         field d ''fonte'' PNone \<noteq> PStr simulated_source))"
proof (intro conjI impI)
  show "cache_from_provider \<lparr>f_session = s, cache = (\<lambda>k. None)\<rparr> w"
    by (simp add: cache_from_provider_def)
next
  assume inv: "cache_from_provider a w"
  obtain r a' w' where c: "finance_process_custom_message m (a, w) = (r, a', w')"
    by (cases "finance_process_custom_message m (a, w)")
  from finance_process_inv [OF inv c] have i': "cache_from_provider a' w'" by simp
  then show "cache_from_provider (fst (snd (finance_process_custom_message m (a, w))))
                          (snd (snd (finance_process_custom_message m (a, w))))"
    by (simp add: c)
  show "\<forall>k d ts. cache (fst (snd (finance_process_custom_message m (a, w)))) k = Some (d, ts) \<longrightarrow>
         field d ''fonte'' PNone \<noteq> PStr simulated_source"
    using i' real_source_not_simulated by (auto simp: c cache_from_provider_def)
qed

lemma sample_exchange_run:
  "get_exchange_rate ''USD'' ''BRL'' fresh_finance (sample_world (\<lambda>i rq. Reply 200 (Some sample_body)))
     = (Inr usd_brl_quote,
        fresh_finance\<lparr>cache := (cache fresh_finance)(exchange_key ''USD'' ''BRL'' \<mapsto> (usd_brl_quote, 1000))\<rparr>,
        (sample_world (\<lambda>i rq. Reply 200 (Some sample_body)))
          \<lparr>calls := [exchange_request ''USD''], ticks := 1\<rparr>)"
  by (simp add: get_exchange_rate_def is_cache_valid_def fresh_finance_def sample_world_def
      http_get_def exchange_result_def sample_body_def py_item_def py_contains_def dict_get_def
      upper_def upper_char_def cache_data_def now_def usd_brl_quote_def exchange_key_def
      exchange_request_def Let_def)

lemma sample_dispatch_exchange:
  "finance_process_custom_message \<lparr>message_type = ''cotacao_moeda'', payload = []\<rparr> (a, w)
     = get_exchange_rate ''USD'' ''BRL'' a w"
  by (simp add: finance_process_custom_message_def payload_str_def dict_get_def lower_def
      lower_char_def Let_def)

text \<open>
  The theorem at a fresh agent and a \<open>cotacao_moeda\<close> message answered by the provider: the
  quote is then in the cache.
\<close>

theorem finance_cache_holds_only_provider_results_witness:
  "cache_from_provider fresh_finance (sample_world (\<lambda>i rq. Reply 200 (Some sample_body))) \<and>
   cache (fst (snd (finance_process_custom_message \<lparr>message_type = ''cotacao_moeda'', payload = []\<rparr>
            (fresh_finance, sample_world (\<lambda>i rq. Reply 200 (Some sample_body))))))
      (exchange_key ''USD'' ''BRL'') = Some (usd_brl_quote, 1000) \<and>
   cache_from_provider
     (fst (snd (finance_process_custom_message \<lparr>message_type = ''cotacao_moeda'', payload = []\<rparr>
            (fresh_finance, sample_world (\<lambda>i rq. Reply 200 (Some sample_body))))))
     (snd (snd (finance_process_custom_message \<lparr>message_type = ''cotacao_moeda'', payload = []\<rparr>
            (fresh_finance, sample_world (\<lambda>i rq. Reply 200 (Some sample_body))))))"
  using finance_cache_holds_only_provider_results
    [of True "sample_world (\<lambda>i rq. Reply 200 (Some sample_body))" fresh_finance
        "\<lparr>message_type = ''cotacao_moeda'', payload = []\<rparr>"]
  by (simp add: sample_dispatch_exchange sample_exchange_run fresh_finance_def [symmetric])

section \<open>Weather agent: provider calls and fallback\<close>

lemma lacks_Key:
  "lacks v (Key k # rest) = (case py_item v k of Inl e \<Rightarrow> True | Inr v' \<Rightarrow> lacks v' rest)"
  by (cases v) (auto simp: py_item_def split: option.splits)

lemma lacks_Nil: "lacks v [] = False"
  by simp


lemma sim_weather:
  "\<exists>m w'. get_simulated_weather cidade w = (PDict m, w') \<and>
     map fst m = weather_keys \<and> dict_get m ''fonte'' = Some (PStr simulated_source) \<and>
     calls w' = calls w"
  by (simp add: get_simulated_weather_def Let_def uniform_def randint_def choice_def now_def
      dict_get_def weather_keys_def)




lemma simulated_days_calls:
  "simulated_days base_temp i n w = (es, w') \<Longrightarrow> calls w' = calls w"
proof (induction n arbitrary: i w es w')
  case 0
  then show ?case by simp
next
  case (Suc n)
  then show ?case
    by (auto simp: Let_def uniform_def randint_def choice_def now_def split: prod.splits)
qed

lemma sim_forecast:
  "\<exists>m w'. get_simulated_forecast cidade dias w = (PDict m, w') \<and>
     map fst m = forecast_keys \<and> dict_get m ''fonte'' = Some (PStr simulated_source) \<and>
     calls w' = calls w"
proof -
  obtain es w1 where e: "simulated_days (if contains cidade sao_paulo then 20 else 25) 0 (nat dias) w = (es, w1)"
    by (cases "simulated_days (if contains cidade sao_paulo then 20 else 25) 0 (nat dias) w")
  from simulated_days_calls [OF e] show ?thesis
    by (simp add: get_simulated_forecast_def e Let_def dict_get_def forecast_keys_def)
qed

lemma format_forecast_real:
  "format_forecast json dias = Inr d \<Longrightarrow> \<exists>m. d = PDict m \<and> map fst m = forecast_keys"
  by (auto simp: format_forecast_def bind_eq_Inr forecast_keys_def)

lemma format_forecast_fields:
  assumes "format_forecast json dias = Inr d"
  shows "\<not> list_ex (lacks json) forecast_expected"
proof -
  from assms obtain items city cidade pais
    where i: "py_item json ''list'' = Inr items" "py_item json ''city'' = Inr city"
      "py_item city ''name'' = Inr cidade" "py_item city ''country'' = Inr pais"
    unfolding format_forecast_def bind_eq_Inr by blast
  then show ?thesis
    by (simp add: forecast_expected_def lacks_Key del: lacks.simps(2) lacks.simps(3))
qed

lemma get_forecast_fetch:
  assumes u: "uses_provider a"
  shows "\<exists>m w'. get_forecast cidade dias a w = (Inr (PDict m), w') \<and>
     map fst m = forecast_keys \<and>
     (reply_fails forecast_expected (provider w (length (calls w)) (forecast_request cidade dias a))
        \<longrightarrow> dict_get m ''fonte'' = Some (PStr simulated_source))"
proof -
  define w1 where "w1 = snd (http_get (forecast_request cidade dias a) w)"
  obtain m w2 where sim: "get_simulated_forecast cidade dias w1 = (PDict m, w2)"
    and m: "map fst m = forecast_keys" "dict_get m ''fonte'' = Some (PStr simulated_source)"
    using sim_forecast [of cidade dias w1] by auto
  note defs = get_forecast_def forecast_request_def http_get_def Let_def w1_def
  show ?thesis
  proof (cases "provider w (length (calls w)) (forecast_request cidade dias a)")
    case Refused
    then show ?thesis using u sim m by (simp add: defs)
  next
    case (Reply status body)
    show ?thesis
    proof (cases "status = 200")
      case False
      then show ?thesis using Reply u sim m by (simp add: defs)
    next
      case True
      show ?thesis
      proof (cases body)
        case None
        then show ?thesis using Reply True u sim m by (simp add: defs)
      next
        case (Some json)
        show ?thesis
        proof (cases "format_forecast json dias")
          case (Inl e)
          then show ?thesis using Reply True Some u sim m by (simp add: defs)
        next
          case (Inr d)
          from format_forecast_real [OF Inr] obtain md where md: "d = PDict md" "map fst md = forecast_keys"
            by blast
          have "\<not> reply_fails forecast_expected (provider w (length (calls w)) (forecast_request cidade dias a))"
            using Reply True Some format_forecast_fields [OF Inr] by (simp add: reply_fails_def)
          then show ?thesis using Reply True Some Inr u md by (simp add: defs)
        qed
      qed
    qed
  qed
qed

lemma get_current_weather_calls:
  assumes u: "uses_provider a"
  shows "calls (snd (get_current_weather cidade a w)) = calls w @ [weather_request cidade a]"
proof -
  define w1 where "w1 = snd (http_get (weather_request cidade a) w)"
  have c1: "calls w1 = calls w @ [weather_request cidade a]" by (simp add: w1_def http_get_def)
  obtain m w2 where sim: "get_simulated_weather cidade w1 = (PDict m, w2)" and c2: "calls w2 = calls w1"
    using sim_weather [of cidade w1] by auto
  have hg: "http_get (weather_request cidade a) w
              = (provider w (length (calls w)) (weather_request cidade a), w1)"
    by (simp add: w1_def http_get_def)
  have run: "get_current_weather cidade a w =
      (case provider w (length (calls w)) (weather_request cidade a) of
         Refused \<Rightarrow> (Inr (PDict m), w2)
       | Reply status body \<Rightarrow>
           if status = 200 then
             (case body of
                None \<Rightarrow> (Inr (PDict m), w2)
              | Some json \<Rightarrow>
                  (case format_current_weather json of
                     Inl e \<Rightarrow> (Inr (PDict m), w2)
                   | Inr d \<Rightarrow> (Inr d, w1)))
           else (Inr (PDict m), w2))"
    using u sim
    by (simp add: get_current_weather_def weather_request_def [symmetric] hg Let_def
        split: reply.splits option.splits sum.splits)
  show ?thesis
    unfolding run using c1 c2 by (simp split: reply.splits option.splits sum.splits)
qed

lemma get_forecast_calls:
  assumes u: "uses_provider a"
  shows "calls (snd (get_forecast cidade dias a w)) = calls w @ [forecast_request cidade dias a]"
proof -
  define w1 where "w1 = snd (http_get (forecast_request cidade dias a) w)"
  have c1: "calls w1 = calls w @ [forecast_request cidade dias a]" by (simp add: w1_def http_get_def)
  obtain m w2 where sim: "get_simulated_forecast cidade dias w1 = (PDict m, w2)" and c2: "calls w2 = calls w1"
    using sim_forecast [of cidade dias w1] by auto
  have hg: "http_get (forecast_request cidade dias a) w
              = (provider w (length (calls w)) (forecast_request cidade dias a), w1)"
    by (simp add: w1_def http_get_def)
  have run: "get_forecast cidade dias a w =
      (case provider w (length (calls w)) (forecast_request cidade dias a) of
         Refused \<Rightarrow> (Inr (PDict m), w2)
       | Reply status body \<Rightarrow>
           if status = 200 then
             (case body of
                None \<Rightarrow> (Inr (PDict m), w2)
              | Some json \<Rightarrow>
                  (case format_forecast json dias of
                     Inl e \<Rightarrow> (Inr (PDict m), w2)
                   | Inr d \<Rightarrow> (Inr d, w1)))
           else (Inr (PDict m), w2))"
    using u sim
    by (simp add: get_forecast_def forecast_request_def [symmetric] hg Let_def
        split: reply.splits option.splits sum.splits)
  show ?thesis
    unfolding run using c1 c2 by (simp split: reply.splits option.splits sum.splits)
qed

section \<open>Reuse of cached results\<close>

lemma is_cache_valid_ticks:
  "is_cache_valid key a w = (v, w1) \<Longrightarrow> ticks w \<le> ticks w1 \<and> clock w1 = clock w"
  by (auto simp: is_cache_valid_def now_def split: option.splits)

lemma crypto_result_ticks:
  "crypto_result crypto currency json w = (x, w1) \<Longrightarrow> ticks w \<le> ticks w1"
  by (auto simp: crypto_result_def now_def split: sum.splits bool.splits prod.splits)

lemma top_cryptos_result_ticks:
  "top_cryptos_result limit currency json w = (x, w1) \<Longrightarrow> ticks w \<le> ticks w1"
  by (auto simp: top_cryptos_result_def now_def split: sum.splits)

lemma get_exchange_rate_reads_clock:
  assumes c: "get_exchange_rate base target a w = (Inr r, a1, w1)"
    and inv: "calls w1 \<noteq> calls w"
    and real: "field r ''fonte'' PNone \<noteq> PStr simulated_source"
  shows "ticks w < ticks w1"
proof -
  obtain valid w0 where v: "is_cache_valid (exchange_key base target) a w = (valid, w0)"
    by (cases "is_cache_valid (exchange_key base target) a w")
  note w0 = is_cache_valid_world [OF v]
  have "\<not> (valid \<or> \<not> f_session a)"
  proof
    assume "valid \<or> \<not> f_session a"
    then have "calls w1 = calls w" using c v w0
      by (auto simp: get_exchange_rate_def exchange_key_def Let_def split: if_splits)
    with inv show False by simp
  qed
  then have vf: "is_cache_valid (exchange_key base target) a w = (False, w0)" and s: "f_session a"
    using v by auto
  show ?thesis
  proof (cases "\<exists>json d. provider w (length (calls w)) (exchange_request base) = Reply 200 (Some json)
                   \<and> exchange_result base target json = Inr (Some d)")
    case True
    then obtain json d where j: "provider w (length (calls w)) (exchange_request base) = Reply 200 (Some json)"
      "exchange_result base target json = Inr (Some d)" by blast
    from get_exchange_rate_real [OF vf s j] c is_cache_valid_ticks [OF vf] show ?thesis by auto
  next
    case nr: False
    obtain m w3 where sim: "get_simulated_exchange_rate base target (snd (http_get (exchange_request base) w0)) = (PDict m, w3)"
      and m: "dict_get m ''fonte'' = Some (PStr simulated_source)"
      using sim_exchange [of base target "snd (http_get (exchange_request base) w0)"] by auto
    from get_exchange_rate_simulated [OF vf s nr sim] c have "r = PDict m" by simp
    with field_fonte [OF m] real show ?thesis by simp
  qed
qed

lemma get_crypto_price_reads_clock:
  assumes c: "get_crypto_price crypto currency a w = (Inr r, a1, w1)"
    and inv: "calls w1 \<noteq> calls w"
    and real: "field r ''fonte'' PNone \<noteq> PStr simulated_source"
  shows "ticks w < ticks w1"
proof -
  obtain valid w0 where v: "is_cache_valid (crypto_key crypto currency) a w = (valid, w0)"
    by (cases "is_cache_valid (crypto_key crypto currency) a w")
  note w0 = is_cache_valid_world [OF v]
  have "\<not> (valid \<or> \<not> f_session a)"
  proof
    assume "valid \<or> \<not> f_session a"
    then have "calls w1 = calls w" using c v w0
      by (auto simp: get_crypto_price_def crypto_key_def Let_def split: if_splits)
    with inv show False by simp
  qed
  then have vf: "is_cache_valid (crypto_key crypto currency) a w = (False, w0)" and s: "f_session a"
    using v by auto
  define w2 where "w2 = snd (http_get (crypto_request crypto currency) w0)"
  have t2: "ticks w \<le> ticks w2" using is_cache_valid_ticks [OF vf] by (simp add: w2_def http_get_def)
  show ?thesis
  proof (cases "\<exists>json d w2'. provider w (length (calls w)) (crypto_request crypto currency) = Reply 200 (Some json)
                   \<and> crypto_result crypto currency json w2 = (Inr (Some d), w2')")
    case True
    then obtain json d w2' where j: "provider w (length (calls w)) (crypto_request crypto currency) = Reply 200 (Some json)"
      "crypto_result crypto currency json w2 = (Inr (Some d), w2')" by blast
    from get_crypto_price_real [OF vf s j(1) j(2) [unfolded w2_def]] c crypto_result_ticks [OF j(2)] t2
    show ?thesis by auto
  next
    case nr: False
    obtain m w3 where sim: "get_simulated_crypto_price crypto currency w2 = (PDict m, w3)"
      and m: "dict_get m ''fonte'' = Some (PStr simulated_source)"
      using sim_crypto [of crypto currency w2] by auto
    from get_crypto_price_simulated [OF vf s nr [unfolded w2_def] sim [unfolded w2_def]] c
    have "r = PDict m" by simp
    with field_fonte [OF m] real show ?thesis by simp
  qed
qed

lemma get_top_cryptos_reads_clock:
  assumes c: "get_top_cryptos limit currency a w = (Inr r, a1, w1)"
    and inv: "calls w1 \<noteq> calls w"
    and real: "field r ''fonte'' PNone \<noteq> PStr simulated_source"
  shows "ticks w < ticks w1"
proof -
  obtain valid w0 where v: "is_cache_valid (top_cryptos_key limit currency) a w = (valid, w0)"
    by (cases "is_cache_valid (top_cryptos_key limit currency) a w")
  note w0 = is_cache_valid_world [OF v]
  have "\<not> (valid \<or> \<not> f_session a)"
  proof
    assume "valid \<or> \<not> f_session a"
    then have "calls w1 = calls w" using c v w0
      by (auto simp: get_top_cryptos_def top_cryptos_key_def Let_def split: if_splits)
    with inv show False by simp
  qed
  then have vf: "is_cache_valid (top_cryptos_key limit currency) a w = (False, w0)" and s: "f_session a"
    using v by auto
  define w2 where "w2 = snd (http_get (top_cryptos_request limit currency) w0)"
  have t2: "ticks w \<le> ticks w2" using is_cache_valid_ticks [OF vf] by (simp add: w2_def http_get_def)
  show ?thesis
  proof (cases "\<exists>json d w2'. provider w (length (calls w)) (top_cryptos_request limit currency) = Reply 200 (Some json)
                   \<and> top_cryptos_result limit currency json w2 = (Inr d, w2')")
    case True
    then obtain json d w2' where j: "provider w (length (calls w)) (top_cryptos_request limit currency) = Reply 200 (Some json)"
      "top_cryptos_result limit currency json w2 = (Inr d, w2')" by blast
    from get_top_cryptos_real [OF vf s j(1) j(2) [unfolded w2_def]] c top_cryptos_result_ticks [OF j(2)] t2
    show ?thesis by auto
  next
    case nr: False
    obtain m w3 where sim: "get_simulated_top_cryptos limit currency w2 = (PDict m, w3)"
      and m: "dict_get m ''fonte'' = Some (PStr simulated_source)"
      using sim_top_cryptos [of limit currency w2] by auto
    from get_top_cryptos_simulated [OF vf s nr [unfolded w2_def] sim [unfolded w2_def]] c
    have "r = PDict m" by simp
    with field_fonte [OF m] real show ?thesis by simp
  qed
qed

text \<open>A call that returns simulated data leaves the agent as it was.\<close>

lemma get_exchange_rate_keeps:
  assumes c: "get_exchange_rate base target a w = (Inr r, a1, w1)"
    and sim: "field r ''fonte'' PNone = PStr simulated_source"
  shows "a1 = a"
  using get_exchange_rate_outcome [OF c] real_source_exchange real_source_not_simulated sim
  by blast

lemma get_crypto_price_keeps:
  assumes c: "get_crypto_price crypto currency a w = (Inr r, a1, w1)"
    and sim: "field r ''fonte'' PNone = PStr simulated_source"
  shows "a1 = a"
  using get_crypto_price_outcome [OF c] real_source_crypto real_source_not_simulated sim
  by blast

lemma get_top_cryptos_keeps:
  assumes c: "get_top_cryptos limit currency a w = (Inr r, a1, w1)"
    and sim: "field r ''fonte'' PNone = PStr simulated_source"
  shows "a1 = a"
  using get_top_cryptos_outcome [OF c] real_source_top real_source_not_simulated sim
  by blast

text \<open>A call made with a session and no valid entry invokes the provider, once.\<close>

lemma get_exchange_rate_calls:
  assumes s: "f_session a" and nv: "\<not> fst (is_cache_valid (exchange_key base target) a w)"
  shows "calls (snd (snd (get_exchange_rate base target a w))) = calls w @ [exchange_request base]"
proof -
  obtain w0 where vf: "is_cache_valid (exchange_key base target) a w = (False, w0)"
    using nv by (cases "is_cache_valid (exchange_key base target) a w") auto
  note w0 = is_cache_valid_world [OF vf]
  show ?thesis
  proof (cases "\<exists>json d. provider w (length (calls w)) (exchange_request base) = Reply 200 (Some json)
                   \<and> exchange_result base target json = Inr (Some d)")
    case True
    then obtain json d where j: "provider w (length (calls w)) (exchange_request base) = Reply 200 (Some json)"
      "exchange_result base target json = Inr (Some d)" by blast
    from get_exchange_rate_real [OF vf s j] show ?thesis by simp
  next
    case nr: False
    obtain m w3 where sim: "get_simulated_exchange_rate base target (snd (http_get (exchange_request base) w0)) = (PDict m, w3)"
      and m: "calls w3 = calls (snd (http_get (exchange_request base) w0))"
      using sim_exchange [of base target "snd (http_get (exchange_request base) w0)"] by auto
    from get_exchange_rate_simulated [OF vf s nr sim] m w0 show ?thesis
      by (simp add: http_get_def)
  qed
qed

lemma get_crypto_price_calls:
  assumes s: "f_session a" and nv: "\<not> fst (is_cache_valid (crypto_key crypto currency) a w)"
  shows "calls (snd (snd (get_crypto_price crypto currency a w))) = calls w @ [crypto_request crypto currency]"
proof -
  obtain w0 where vf: "is_cache_valid (crypto_key crypto currency) a w = (False, w0)"
    using nv by (cases "is_cache_valid (crypto_key crypto currency) a w") auto
  note w0 = is_cache_valid_world [OF vf]
  define w2 where "w2 = snd (http_get (crypto_request crypto currency) w0)"
  have c2: "calls w2 = calls w @ [crypto_request crypto currency]"
    using w0 by (simp add: w2_def http_get_def)
  show ?thesis
  proof (cases "\<exists>json d w2'. provider w (length (calls w)) (crypto_request crypto currency) = Reply 200 (Some json)
                   \<and> crypto_result crypto currency json w2 = (Inr (Some d), w2')")
    case True
    then obtain json d w2' where j: "provider w (length (calls w)) (crypto_request crypto currency) = Reply 200 (Some json)"
      "crypto_result crypto currency json w2 = (Inr (Some d), w2')" by blast
    from get_crypto_price_real [OF vf s j(1) j(2) [unfolded w2_def]] crypto_result_world [OF j(2)] c2
    show ?thesis by simp
  next
    case nr: False
    obtain m w3 where sim: "get_simulated_crypto_price crypto currency w2 = (PDict m, w3)"
      and m: "calls w3 = calls w2"
      using sim_crypto [of crypto currency w2] by auto
    from get_crypto_price_simulated [OF vf s nr [unfolded w2_def] sim [unfolded w2_def]] m c2
    show ?thesis by simp
  qed
qed

lemma get_top_cryptos_calls:
  assumes s: "f_session a" and nv: "\<not> fst (is_cache_valid (top_cryptos_key limit currency) a w)"
  shows "calls (snd (snd (get_top_cryptos limit currency a w))) = calls w @ [top_cryptos_request limit currency]"
proof -
  obtain w0 where vf: "is_cache_valid (top_cryptos_key limit currency) a w = (False, w0)"
    using nv by (cases "is_cache_valid (top_cryptos_key limit currency) a w") auto
  note w0 = is_cache_valid_world [OF vf]
  define w2 where "w2 = snd (http_get (top_cryptos_request limit currency) w0)"
  have c2: "calls w2 = calls w @ [top_cryptos_request limit currency]"
    using w0 by (simp add: w2_def http_get_def)
  show ?thesis
  proof (cases "\<exists>json d w2'. provider w (length (calls w)) (top_cryptos_request limit currency) = Reply 200 (Some json)
                   \<and> top_cryptos_result limit currency json w2 = (Inr d, w2')")
    case True
    then obtain json d w2' where j: "provider w (length (calls w)) (top_cryptos_request limit currency) = Reply 200 (Some json)"
      "top_cryptos_result limit currency json w2 = (Inr d, w2')" by blast
    from get_top_cryptos_real [OF vf s j(1) j(2) [unfolded w2_def]] top_cryptos_result_world [OF j(2)] c2
    show ?thesis by simp
  next
    case nr: False
    obtain m w3 where sim: "get_simulated_top_cryptos limit currency w2 = (PDict m, w3)"
      and m: "calls w3 = calls w2"
      using sim_top_cryptos [of limit currency w2] by auto
    from get_top_cryptos_simulated [OF vf s nr [unfolded w2_def] sim [unfolded w2_def]] m c2
    show ?thesis by simp
  qed
qed

text \<open>The same facts for the three queries under one name.\<close>

lemma run_query_stores:
  "run_query q a w = (Inr r, a1, w1) \<Longrightarrow> calls w1 \<noteq> calls w \<Longrightarrow>
   field r ''fonte'' PNone \<noteq> PStr simulated_source \<Longrightarrow>
   cache a1 (query_key q) = Some (r, last_reading w1) \<and> ticks w < ticks w1"
  by (cases q)
     (simp_all add: get_exchange_rate_stores get_crypto_price_stores get_top_cryptos_stores
        get_exchange_rate_reads_clock get_crypto_price_reads_clock get_top_cryptos_reads_clock)

lemma run_query_hit:
  "cache a (query_key q) = Some (d, ts) \<Longrightarrow> fl (clock w (ticks w) - ts) < 300 \<Longrightarrow>
   run_query q a w = (Inr d, a, w\<lparr>ticks := Suc (ticks w)\<rparr>)"
  by (cases q) (simp_all add: get_exchange_rate_hit get_crypto_price_hit get_top_cryptos_hit)

lemma run_query_keeps:
  "run_query q a w = (Inr r, a1, w1) \<Longrightarrow> field r ''fonte'' PNone = PStr simulated_source \<Longrightarrow> a1 = a"
  by (cases q)
     (auto dest: get_exchange_rate_keeps get_crypto_price_keeps get_top_cryptos_keeps)

lemma run_query_calls:
  "f_session a \<Longrightarrow> \<not> fst (is_cache_valid (query_key q) a w) \<Longrightarrow>
   calls (snd (snd (run_query q a w))) = calls w @ [query_request q]"
  by (cases q) (simp_all add: get_exchange_rate_calls get_crypto_price_calls get_top_cryptos_calls)

text \<open>
  Claim C1, as amended. Let a cached query of the Finance agent (exchange rate, crypto
  price or top cryptos) return a result after invoking the provider. If the result is
  not the simulated fallback, it is stored under the query's key together with the
  reading of the clock taken when it was stored, which is the last reading of that call;
  and the same query, issued in any world where the float difference between the clock
  and that reading is below the timeout of 300 seconds, returns the same data, leaves the
  agent as it is and changes nothing of the world but the count of clock readings: the
  provider is not invoked. If the result is the simulated fallback, the agent and its
  cache are unchanged. Any call made with a session while the cache holds no valid entry
  for the key invokes the provider once. The Weather agent, which has no cache, invokes
  the provider on every call of either of its queries made with an API key and a session.
\<close>

theorem cached_result_is_reused:
  "(run_query q a w = (Inr r, a1, w1) \<and> calls w1 \<noteq> calls w \<longrightarrow>
      (if field r ''fonte'' PNone = PStr simulated_source then a1 = a
       else cache a1 (query_key q) = Some (r, last_reading w1) \<and> ticks w < ticks w1 \<and>
            (\<forall>w2. fl (clock w2 (ticks w2) - last_reading w1) < cache_timeout \<longrightarrow>
               run_query q a1 w2 = (Inr r, a1, w2\<lparr>ticks := Suc (ticks w2)\<rparr>)))) \<and>
   (f_session a \<and> \<not> fst (is_cache_valid (query_key q) a w) \<longrightarrow>
      calls (snd (snd (run_query q a w))) = calls w @ [query_request q]) \<and>
   (uses_provider wa \<longrightarrow>
      calls (snd (get_current_weather cidade wa w)) = calls w @ [weather_request cidade wa] \<and>
      calls (snd (get_forecast cidade dias wa w)) = calls w @ [forecast_request cidade dias wa])"
proof (intro conjI impI)
  assume h: "run_query q a w = (Inr r, a1, w1) \<and> calls w1 \<noteq> calls w"
  show "if field r ''fonte'' PNone = PStr simulated_source then a1 = a
       else cache a1 (query_key q) = Some (r, last_reading w1) \<and> ticks w < ticks w1 \<and>
            (\<forall>w2. fl (clock w2 (ticks w2) - last_reading w1) < cache_timeout \<longrightarrow>
               run_query q a1 w2 = (Inr r, a1, w2\<lparr>ticks := Suc (ticks w2)\<rparr>))"
  proof (cases "field r ''fonte'' PNone = PStr simulated_source")
    case True
    with h run_query_keeps show ?thesis by auto
  next
    case False
    from h False have st: "cache a1 (query_key q) = Some (r, last_reading w1)" "ticks w < ticks w1"
      using run_query_stores [of q a w r a1 w1] by auto
    from st(1) have "\<forall>w2. fl (clock w2 (ticks w2) - last_reading w1) < cache_timeout \<longrightarrow>
               run_query q a1 w2 = (Inr r, a1, w2\<lparr>ticks := Suc (ticks w2)\<rparr>)"
      using run_query_hit by (simp add: cache_timeout_def)
    with st False show ?thesis by simp
  qed
next
  assume "f_session a \<and> \<not> fst (is_cache_valid (query_key q) a w)"
  then show "calls (snd (snd (run_query q a w))) = calls w @ [query_request q]"
    using run_query_calls by blast
next
  assume "uses_provider wa"
  then show "calls (snd (get_current_weather cidade wa w)) = calls w @ [weather_request cidade wa]"
    by (rule get_current_weather_calls)
next
  assume "uses_provider wa"
  then show "calls (snd (get_forecast cidade dias wa w)) = calls w @ [forecast_request cidade dias wa]"
    by (rule get_forecast_calls)
qed

text \<open>
  The theorem at a fresh Finance agent and a provider that answers the first call with a
  rate of 5.25: the quote is stored with the reading 1000 of the clock, and a second call
  one second later, with a provider that refuses every call, returns the same quote from
  the cache. The fresh agent's call invokes the provider, and so do the calls of a
  Weather agent with a key.
\<close>

theorem cached_result_is_reused_witness:
  "run_query (Exchange ''USD'' ''BRL'') fresh_finance (sample_world (\<lambda>i rq. Reply 200 (Some sample_body)))
     = (Inr usd_brl_quote,
        fresh_finance\<lparr>cache := (cache fresh_finance)(exchange_key ''USD'' ''BRL'' \<mapsto> (usd_brl_quote, 1000))\<rparr>,
        (sample_world (\<lambda>i rq. Reply 200 (Some sample_body)))
          \<lparr>calls := [exchange_request ''USD''], ticks := 1\<rparr>) \<and>
   calls ((sample_world (\<lambda>i rq. Reply 200 (Some sample_body)))
          \<lparr>calls := [exchange_request ''USD''], ticks := 1\<rparr>)
     \<noteq> calls (sample_world (\<lambda>i rq. Reply 200 (Some sample_body))) \<and>
   field usd_brl_quote ''fonte'' PNone \<noteq> PStr simulated_source \<and>
   last_reading ((sample_world (\<lambda>i rq. Reply 200 (Some sample_body)))
          \<lparr>calls := [exchange_request ''USD''], ticks := 1\<rparr>) = 1000 \<and>
   fl (clock ((sample_world (\<lambda>i rq. Refused))\<lparr>calls := [exchange_request ''USD''], ticks := 1\<rparr>) 1 - 1000)
     < cache_timeout \<and>
   run_query (Exchange ''USD'' ''BRL'')
       (fresh_finance\<lparr>cache := (cache fresh_finance)(exchange_key ''USD'' ''BRL'' \<mapsto> (usd_brl_quote, 1000))\<rparr>)
       ((sample_world (\<lambda>i rq. Refused))\<lparr>calls := [exchange_request ''USD''], ticks := 1\<rparr>)
     = (Inr usd_brl_quote,
        fresh_finance\<lparr>cache := (cache fresh_finance)(exchange_key ''USD'' ''BRL'' \<mapsto> (usd_brl_quote, 1000))\<rparr>,
        (sample_world (\<lambda>i rq. Refused))\<lparr>calls := [exchange_request ''USD''], ticks := 2\<rparr>) \<and>
   f_session fresh_finance \<and>
   \<not> fst (is_cache_valid (query_key (Exchange ''USD'' ''BRL'')) fresh_finance
            (sample_world (\<lambda>i rq. Reply 200 (Some sample_body)))) \<and>
   calls (snd (snd (run_query (Exchange ''USD'' ''BRL'') fresh_finance
                      (sample_world (\<lambda>i rq. Reply 200 (Some sample_body))))))
     = [exchange_request ''USD''] \<and>
   uses_provider keyed_weather \<and>
   calls (snd (get_current_weather ''Santos'' keyed_weather
                 (sample_world (\<lambda>i rq. Reply 200 (Some sample_body)))))
     = [weather_request ''Santos'' keyed_weather] \<and>
   calls (snd (get_forecast ''Santos'' 3 keyed_weather
                 (sample_world (\<lambda>i rq. Reply 200 (Some sample_body)))))
     = [forecast_request ''Santos'' 3 keyed_weather]"
proof -
  let ?W = "sample_world (\<lambda>i rq. Reply 200 (Some sample_body))"
  let ?W1 = "?W\<lparr>calls := [exchange_request ''USD''], ticks := 1\<rparr>"
  let ?W2 = "(sample_world (\<lambda>i rq. Refused))\<lparr>calls := [exchange_request ''USD''], ticks := 1\<rparr>"
  let ?A1 = "fresh_finance\<lparr>cache := (cache fresh_finance)(exchange_key ''USD'' ''BRL'' \<mapsto> (usd_brl_quote, 1000))\<rparr>"
  have run: "run_query (Exchange ''USD'' ''BRL'') fresh_finance ?W = (Inr usd_brl_quote, ?A1, ?W1)"
    by (simp add: sample_exchange_run)
  have changed: "calls ?W1 \<noteq> calls ?W"
    by (simp add: sample_world_def)
  have real: "field usd_brl_quote ''fonte'' PNone \<noteq> PStr simulated_source"
    by (simp add: field_def usd_brl_quote_def dict_get_def simulated_source_def)
  have stamp: "last_reading ?W1 = 1000"
    by (simp add: last_reading_def sample_world_def)
  have "clock ?W2 (ticks ?W2) - last_reading ?W1 = 1"
    by (simp add: last_reading_def sample_world_def)
  moreover have "fl 1 = 1"
    by (simp add: fl_eval)
  ultimately have age: "fl (clock ?W2 (ticks ?W2) - last_reading ?W1) < cache_timeout"
    by (simp add: cache_timeout_def)
  have session: "f_session fresh_finance"
    by (simp add: fresh_finance_def)
  have invalid: "\<not> fst (is_cache_valid (query_key (Exchange ''USD'' ''BRL'')) fresh_finance ?W)"
    by (simp add: is_cache_valid_def fresh_finance_def)
  have key: "uses_provider keyed_weather"
    by (simp add: uses_provider_def keyed_weather_def)
  note inst = cached_result_is_reused [of "Exchange ''USD'' ''BRL''" fresh_finance ?W usd_brl_quote
      ?A1 ?W1 keyed_weather "''Santos''" 3]
  from inst run changed real have
    hit: "\<forall>w2. fl (clock w2 (ticks w2) - last_reading ?W1) < cache_timeout \<longrightarrow>
            run_query (Exchange ''USD'' ''BRL'') ?A1 w2
              = (Inr usd_brl_quote, ?A1, w2\<lparr>ticks := Suc (ticks w2)\<rparr>)"
    by simp
  from hit [rule_format, OF age]
  have again: "run_query (Exchange ''USD'' ''BRL'') ?A1 ?W2
     = (Inr usd_brl_quote, ?A1,
        (sample_world (\<lambda>i rq. Refused))\<lparr>calls := [exchange_request ''USD''], ticks := 2\<rparr>)"
    by simp
  from inst session invalid have
    called: "calls (snd (snd (run_query (Exchange ''USD'' ''BRL'') fresh_finance ?W))) = [exchange_request ''USD'']"
    by (simp add: sample_world_def)
  from inst key have
    weather: "calls (snd (get_current_weather ''Santos'' keyed_weather ?W)) = [weather_request ''Santos'' keyed_weather]"
      "calls (snd (get_forecast ''Santos'' 3 keyed_weather ?W)) = [forecast_request ''Santos'' 3 keyed_weather]"
    by (simp_all add: sample_world_def)
  have age': "fl (clock ?W2 1 - 1000) < cache_timeout"
    using age stamp by simp
  from run changed real stamp age' again session invalid called key weather
  show ?thesis by blast
qed

lemma sample_weather_run:
  "provider w = (\<lambda>i rq. Reply 200 (Some sample_weather_body)) \<Longrightarrow>
   get_current_weather ''Santos'' keyed_weather w
     = (Inr santos_weather, w\<lparr>calls := calls w @ [weather_request ''Santos'' keyed_weather]\<rparr>)"
  by (simp add: get_current_weather_def uses_provider_def keyed_weather_def the_key_def http_get_def
      format_current_weather_def sample_weather_body_def py_item_def py_get_def py_first_def
      py_round_val_def py_div_1000_def dict_get_def santos_weather_def weather_request_def Let_def)

text \<open>
  Claim C1 as first stated fails for the Weather agent, which has no cache: two calls of
  the same query, with an API key and a provider that answers both, return the same data
  and each invoke the provider.
\<close>

theorem weather_query_repeats_provider_call_counterexample:
  "fst (get_current_weather ''Santos'' keyed_weather
          (sample_world (\<lambda>i rq. Reply 200 (Some sample_weather_body)))) = Inr santos_weather \<and>
   fst (get_current_weather ''Santos'' keyed_weather
          (snd (get_current_weather ''Santos'' keyed_weather
                  (sample_world (\<lambda>i rq. Reply 200 (Some sample_weather_body)))))) = Inr santos_weather \<and>
   calls (snd (get_current_weather ''Santos'' keyed_weather
                  (sample_world (\<lambda>i rq. Reply 200 (Some sample_weather_body)))))
     = [weather_request ''Santos'' keyed_weather] \<and>
   calls (snd (get_current_weather ''Santos'' keyed_weather
          (snd (get_current_weather ''Santos'' keyed_weather
                  (sample_world (\<lambda>i rq. Reply 200 (Some sample_weather_body)))))))
     = [weather_request ''Santos'' keyed_weather, weather_request ''Santos'' keyed_weather]"
  by (simp add: sample_weather_run sample_world_def)

section \<open>Fallback to simulated data\<close>









section \<open>Dispatch by message type\<close>

text \<open>
  Claim C9. For each of the three agents, a message whose type, lowered, is not one of the
  agent's recognised types makes the handler raise \<open>ValueError\<close> naming the lowered type;
  \<open>process_message\<close> returns it as a failed response whose error is that text, and the
  agent and the world are left as they were. No exception reaches the caller: the result
  is a response.
\<close>

theorem unsupported_type_fails:
  "(lower (message_type m) \<notin> set weather_types \<longrightarrow>
      process_message weather_process_custom_message m (wa, w)
        = (unsupported_response (message_type m), (wa, w))) \<and>
   (lower (message_type m) \<notin> set finance_types \<longrightarrow>
      process_message finance_process_custom_message m (fa, w)
        = (unsupported_response (message_type m), (fa, w))) \<and>
   (lower (message_type m) \<notin> set orchestrator_types \<longrightarrow>
      process_message (orchestrator_process_custom_message S) m (oa, w)
        = (unsupported_response (message_type m), (oa, w)))"
  by (simp add: process_message_def weather_process_custom_message_def
      finance_process_custom_message_def orchestrator_process_custom_message_def
      weather_types_def finance_types_def orchestrator_types_def unsupported_response_def
      describe_def Let_def)

text \<open>The theorem at the type \<open>Cotacao_Acao\<close>, which no agent recognises.\<close>

theorem unsupported_type_fails_witness:
  "lower (message_type \<lparr>message_type = ''Cotacao_Acao'', payload = []\<rparr>) \<notin> set weather_types \<and>
   lower (message_type \<lparr>message_type = ''Cotacao_Acao'', payload = []\<rparr>) \<notin> set finance_types \<and>
   lower (message_type \<lparr>message_type = ''Cotacao_Acao'', payload = []\<rparr>) \<notin> set orchestrator_types \<and>
   error (fst (process_message finance_process_custom_message
                 \<lparr>message_type = ''Cotacao_Acao'', payload = []\<rparr> (fresh_finance, quiet_world)))
     = Some (msg_unsupported @ ''cotacao_acao'') \<and>
   \<not> success (fst (process_message weather_process_custom_message
                 \<lparr>message_type = ''Cotacao_Acao'', payload = []\<rparr> (keyed_weather, quiet_world))) \<and>
   \<not> success (fst (process_message (orchestrator_process_custom_message repository_agents)
                 \<lparr>message_type = ''Cotacao_Acao'', payload = []\<rparr> (sample_orchestrator, quiet_world)))"
  using unsupported_type_fails [of "\<lparr>message_type = ''Cotacao_Acao'', payload = []\<rparr>"
      keyed_weather quiet_world fresh_finance repository_agents sample_orchestrator]
  by (simp add: weather_types_def finance_types_def orchestrator_types_def unsupported_response_def
      lower_def lower_char_def)

text \<open>
  Claim C4. \<open>_get_multiple_cities_weather\<close> raises \<open>NameError\<close> for the unbound name
  \<open>message\<close> whatever the list of cities, after the loop has run. So every message of type
  \<open>clima_multiplas_cidades\<close> gets a failed response without data from
  \<open>process_message\<close>, and for a list of city names (or the default list) the error is the
  text of that \<open>NameError\<close>.
\<close>

theorem multiple_cities_weather_name_error:
  "fst (get_multiple_cities_weather cidades a w) = Inl (NameError ''message'') \<and>
   (lower (message_type m) = ''clima_multiplas_cidades'' \<longrightarrow>
      \<not> success (fst (process_message weather_process_custom_message m (a, w))) \<and>
      data (fst (process_message weather_process_custom_message m (a, w))) = PNone \<and>
      (payload_strs (payload m) ''cidades'' [sao_paulo, ''Rio de Janeiro''] = Inr cidades \<longrightarrow>
         fst (weather_process_custom_message m (a, w)) = Inl (NameError ''message'') \<and>
         error (fst (process_message weather_process_custom_message m (a, w)))
           = Some (''name '' @ [CHR 0x27] @ ''message'' @ [CHR 0x27] @ '' is not defined'')))"
  by (auto simp: get_multiple_cities_weather_def weather_process_custom_message_def
      process_message_def describe_def Let_def split: prod.splits sum.splits)

text \<open>The theorem at a message without payload, answered for the default cities.\<close>

theorem multiple_cities_weather_name_error_witness:
  "lower (message_type \<lparr>message_type = ''Clima_Multiplas_Cidades'', payload = []\<rparr>) = ''clima_multiplas_cidades'' \<and>
   payload_strs (payload \<lparr>message_type = ''Clima_Multiplas_Cidades'', payload = []\<rparr>) ''cidades''
      [sao_paulo, ''Rio de Janeiro''] = Inr [sao_paulo, ''Rio de Janeiro''] \<and>
   fst (weather_process_custom_message \<lparr>message_type = ''Clima_Multiplas_Cidades'', payload = []\<rparr>
          (keyed_weather, quiet_world))
      = Inl (NameError ''message'') \<and>
   \<not> success (fst (process_message weather_process_custom_message
                  \<lparr>message_type = ''Clima_Multiplas_Cidades'', payload = []\<rparr>
                  (keyed_weather, quiet_world)))"
  using multiple_cities_weather_name_error
    [of "[sao_paulo, ''Rio de Janeiro'']" keyed_weather quiet_world
        "\<lparr>message_type = ''Clima_Multiplas_Cidades'', payload = []\<rparr>"]
  by (simp add: lower_def lower_char_def payload_strs_def dict_get_def)

section \<open>City comparison\<close>

lemma py_lt_num: "num_of x = Some a \<Longrightarrow> num_of y = Some b \<Longrightarrow> py_lt x y = Inr (a < b)"
  by (cases x; cases y; simp)

lemma dict_set_fresh: "k \<notin> fst ` set d \<Longrightarrow> dict_set d k v = d @ [(k, v)]"
  by (induction d) auto

lemma wf_city_get:
  "well_formed_city dados \<Longrightarrow>
   bind (py_get dados ''clima'' (PDict [])) (\<lambda>clima. bind (py_get clima ''temperatura'' PNone) f)
     = f (city_temp dados)"
  by (cases dados) (auto simp: py_get_def dict_get_def split: option.splits pyval.splits)

lemma truthy_num: "num_of t = Some r \<Longrightarrow> truthy t \<longleftrightarrow> r \<noteq> 0"
  by (cases t) (auto split: if_splits)

lemma wf_city_temp_cases:
  "well_formed_city dados \<Longrightarrow> \<not> truthy (city_temp dados) \<or> num_of (city_temp dados) \<noteq> None"
  by (cases dados) (auto simp: dict_get_def split: option.splits pyval.splits)

lemma wf_city_temp:
  "well_formed_city dados \<Longrightarrow>
   (truthy (city_temp dados) \<longleftrightarrow> (\<exists>r. num_of (city_temp dados) = Some r \<and> r \<noteq> 0))"
  using wf_city_temp_cases [of dados] truthy_num [of "city_temp dados"] by auto

lemma hot_values_keys: "(k, v) \<in> set (hot_values rs) \<Longrightarrow> k \<in> fst ` set rs"
  by (induction rs) (force split: if_splits)+

lemma collect_wf:
  "list_all (\<lambda>cd. well_formed_city (snd cd)) rs \<Longrightarrow> distinct (map fst rs) \<Longrightarrow>
   fst ` set rs \<inter> fst ` set acc = {} \<Longrightarrow>
   collect_temperaturas rs acc = Inr (acc @ hot_values rs)"
proof (induction rs arbitrary: acc)
  case Nil
  then show ?case by simp
next
  case (Cons p rs)
  obtain cidade dados where p: "p = (cidade, dados)" by (cases p)
  from Cons.prems have wf: "well_formed_city dados" and wfs: "list_all (\<lambda>cd. well_formed_city (snd cd)) rs"
    and d: "distinct (map fst rs)" and fresh: "cidade \<notin> fst ` set acc" and nin: "cidade \<notin> fst ` set rs"
    and disj: "fst ` set rs \<inter> fst ` set acc = {}"
    by (auto simp: p)
  show ?case
  proof (cases "truthy (city_temp dados)")
    case True
    have disj': "fst ` set rs \<inter> fst ` set (acc @ [(cidade, city_temp dados)]) = {}"
      using disj nin by auto
    show ?thesis
      using True Cons.IH [OF wfs d disj']
      by (simp add: p wf_city_get [OF wf] dict_set_fresh [OF fresh])
  next
    case False
    then show ?thesis
      using Cons.IH [OF wfs d disj] by (simp add: p wf_city_get [OF wf])
  qed
qed

lemma hot_values_num:
  "list_all (\<lambda>cd. well_formed_city (snd cd)) rs \<Longrightarrow>
   list_all (\<lambda>kv. num_of (snd kv) \<noteq> None) (hot_values rs) \<and>
   map (\<lambda>kv. (fst kv, the (num_of (snd kv)))) (hot_values rs) = nonzero_temps rs"
proof (induction rs)
  case Nil
  then show ?case by simp
next
  case (Cons p rs)
  obtain cidade dados where p: "p = (cidade, dados)" by (cases p)
  from Cons.prems have wf: "well_formed_city dados" by (simp add: p)
  show ?case using Cons wf_city_temp [OF wf] by (auto simp: p split: option.splits)
qed

lemma max_by_value_num:
  "num_of bv = Some b \<Longrightarrow> list_all (\<lambda>kv. num_of (snd kv) \<noteq> None) rest \<Longrightarrow>
   \<exists>k v r. max_by_value rest best bv = Inr k \<and> (k, v) \<in> set ((best, bv) # rest) \<and>
     num_of v = Some r \<and> (\<forall>kv \<in> set ((best, bv) # rest). \<forall>r'. num_of (snd kv) = Some r' \<longrightarrow> r' \<le> r)"
proof (induction rest arbitrary: best bv b)
  case Nil
  then show ?case by auto
next
  case (Cons p rest)
  obtain k v where p: "p = (k, v)" by (cases p)
  from Cons.prems obtain a where a: "num_of v = Some a" by (auto simp: p)
  from Cons.prems have rest: "list_all (\<lambda>kv. num_of (snd kv) \<noteq> None) rest" by simp
  have gt: "py_gt v bv = Inr (b < a)" using a Cons.prems(1) by (simp add: py_gt_def py_lt_num)
  show ?case
  proof (cases "b < a")
    case True
    from Cons.IH [OF a rest, of k] obtain k' v' r where
      h: "max_by_value rest k v = Inr k'" "(k', v') \<in> set ((k, v) # rest)" "num_of v' = Some r"
         "\<forall>kv \<in> set ((k, v) # rest). \<forall>r'. num_of (snd kv) = Some r' \<longrightarrow> r' \<le> r"
      by blast
    from h(4) a have "a \<le> r" by auto
    with True have "b \<le> r" by simp
    with h Cons.prems(1) show ?thesis
      by (simp add: p gt True) (intro exI [of _ v'] exI [of _ r], auto)
  next
    case False
    from Cons.IH [OF Cons.prems(1) rest, of best] obtain k' v' r where
      h: "max_by_value rest best bv = Inr k'" "(k', v') \<in> set ((best, bv) # rest)" "num_of v' = Some r"
         "\<forall>kv \<in> set ((best, bv) # rest). \<forall>r'. num_of (snd kv) = Some r' \<longrightarrow> r' \<le> r"
      by blast
    from h(4) Cons.prems(1) have "b \<le> r" by auto
    with False have "a \<le> r" by simp
    with h a show ?thesis
      by (simp add: p gt False) (intro exI [of _ v'] exI [of _ r], auto)
  qed
qed

lemma min_by_value_num:
  "num_of bv = Some b \<Longrightarrow> list_all (\<lambda>kv. num_of (snd kv) \<noteq> None) rest \<Longrightarrow>
   \<exists>k v r. min_by_value rest best bv = Inr k \<and> (k, v) \<in> set ((best, bv) # rest) \<and>
     num_of v = Some r \<and> (\<forall>kv \<in> set ((best, bv) # rest). \<forall>r'. num_of (snd kv) = Some r' \<longrightarrow> r \<le> r')"
proof (induction rest arbitrary: best bv b)
  case Nil
  then show ?case by auto
next
  case (Cons p rest)
  obtain k v where p: "p = (k, v)" by (cases p)
  from Cons.prems obtain a where a: "num_of v = Some a" by (auto simp: p)
  from Cons.prems have rest: "list_all (\<lambda>kv. num_of (snd kv) \<noteq> None) rest" by simp
  have lt: "py_lt v bv = Inr (a < b)" using a Cons.prems(1) by (simp add: py_lt_num)
  show ?case
  proof (cases "a < b")
    case True
    from Cons.IH [OF a rest, of k] obtain k' v' r where
      h: "min_by_value rest k v = Inr k'" "(k', v') \<in> set ((k, v) # rest)" "num_of v' = Some r"
         "\<forall>kv \<in> set ((k, v) # rest). \<forall>r'. num_of (snd kv) = Some r' \<longrightarrow> r \<le> r'"
      by blast
    from h(4) a have "r \<le> a" by auto
    with True have "r \<le> b" by simp
    with h Cons.prems(1) show ?thesis
      by (simp add: p lt True) (intro exI [of _ v'] exI [of _ r], auto)
  next
    case False
    from Cons.IH [OF Cons.prems(1) rest, of best] obtain k' v' r where
      h: "min_by_value rest best bv = Inr k'" "(k', v') \<in> set ((best, bv) # rest)" "num_of v' = Some r"
         "\<forall>kv \<in> set ((best, bv) # rest). \<forall>r'. num_of (snd kv) = Some r' \<longrightarrow> r \<le> r'"
      by blast
    from h(4) Cons.prems(1) have "r \<le> b" by auto
    with False have "r \<le> a" by simp
    with h a show ?thesis
      by (simp add: p lt False) (intro exI [of _ v'] exI [of _ r], auto)
  qed
qed

lemma hot_values_distinct: "distinct (map fst rs) \<Longrightarrow> distinct (map fst (hot_values rs))"
proof (induction rs)
  case Nil
  then show ?case by simp
next
  case (Cons p rs)
  obtain c d where p: "p = (c, d)" by (cases p)
  have "c \<notin> fst ` set (hot_values rs)"
    using Cons.prems hot_values_keys [of c _ rs] by (auto simp: p)
  with Cons show ?case by (simp add: p)
qed

lemma py_item_member:
  "distinct (map fst d) \<Longrightarrow> (k, v) \<in> set d \<Longrightarrow> py_item (PDict d) k = Inr v"
  by (simp add: py_item_def dict_get_def)

lemma nonzero_temps_member:
  assumes wf: "list_all (\<lambda>cd. well_formed_city (snd cd)) rs"
    and kv: "(k, v) \<in> set (hot_values rs)" and r: "num_of v = Some r"
  shows "(k, r) \<in> set (nonzero_temps rs)"
proof -
  have "(fst (k, v), the (num_of (snd (k, v)))) \<in> set (map (\<lambda>kv. (fst kv, the (num_of (snd kv)))) (hot_values rs))"
    using kv by (simp only: set_map) (rule imageI)
  then show ?thesis using hot_values_num [OF wf] r by simp
qed

lemma nonzero_temps_bound:
  assumes wf: "list_all (\<lambda>cd. well_formed_city (snd cd)) rs"
    and cr: "(c, r) \<in> set (nonzero_temps rs)"
  shows "\<exists>v. (c, v) \<in> set (hot_values rs) \<and> num_of v = Some r"
proof -
  from cr hot_values_num [OF wf]
  have "(c, r) \<in> set (map (\<lambda>kv. (fst kv, the (num_of (snd kv)))) (hot_values rs))" by simp
  then obtain kv where kv: "kv \<in> set (hot_values rs)" "c = fst kv" "r = the (num_of (snd kv))" by auto
  from hot_values_num [OF wf] kv(1) have "num_of (snd kv) \<noteq> None" by (auto simp: list_all_iff)
  with kv show ?thesis by (intro exI [of _ "snd kv"]) auto
qed

text \<open>
  Claim C10, as amended. For a \<open>resultados\<close> mapping whose entries are well formed
  (distinct city keys; every \<open>clima\<close> section a mapping whose \<open>temperatura\<close>, when
  present, is a number or a value that counts as false, such as \<open>None\<close>), \<open>_compare_cities\<close> answers as follows. With fewer than
  two entries it returns the error marker. With two or more entries, a city whose
  temperature is zero or absent takes no part: when no city reports a nonzero temperature
  the informational marker is returned, and otherwise \<open>mais_quente\<close> and \<open>mais_fria\<close> are
  cities reporting a nonzero temperature, with the greatest and the least of the nonzero
  temperatures.
\<close>

theorem compare_cities_nonzero_only:
  assumes wf: "list_all (\<lambda>cd. well_formed_city (snd cd)) resultados"
    and dist: "distinct (map fst resultados)"
  shows "(length resultados < 2 \<longrightarrow>
            compare_cities resultados = Inr (PDict [(''erro'', PStr msg_two_cities)])) \<and>
         (2 \<le> length resultados \<and> nonzero_temps resultados = [] \<longrightarrow>
            compare_cities resultados = Inr (PDict [(''info'', PStr msg_insufficient)])) \<and>
         (2 \<le> length resultados \<and> nonzero_temps resultados \<noteq> [] \<longrightarrow>
            (\<exists>cq tq rq cf tf rf.
               compare_cities resultados = Inr (comparison cq tq cf tf) \<and>
               num_of tq = Some rq \<and> num_of tf = Some rf \<and>
               (cq, rq) \<in> set (nonzero_temps resultados) \<and>
               (cf, rf) \<in> set (nonzero_temps resultados) \<and>
               (\<forall>cr \<in> set (nonzero_temps resultados). rf \<le> snd cr \<and> snd cr \<le> rq)))"
proof (intro conjI impI)
  assume "length resultados < 2"
  then show "compare_cities resultados = Inr (PDict [(''erro'', PStr msg_two_cities)])"
    by (simp add: compare_cities_def)
next
  have coll: "collect_temperaturas resultados [] = Inr (hot_values resultados)"
    using collect_wf [OF wf dist, of "[]"] by simp
  have nz: "map (\<lambda>kv. (fst kv, the (num_of (snd kv)))) (hot_values resultados) = nonzero_temps resultados"
    using hot_values_num [OF wf] by simp
  {
    assume "2 \<le> length resultados \<and> nonzero_temps resultados = []"
    then have "hot_values resultados = []" "\<not> length resultados < 2" using nz by auto
    then show "compare_cities resultados = Inr (PDict [(''info'', PStr msg_insufficient)])"
      by (simp add: compare_cities_def coll)
  next
    assume a: "2 \<le> length resultados \<and> nonzero_temps resultados \<noteq> []"
    then obtain k0 v0 rest where hv: "hot_values resultados = (k0, v0) # rest"
      using nz by (cases "hot_values resultados") auto
    have allnum: "list_all (\<lambda>kv. num_of (snd kv) \<noteq> None) ((k0, v0) # rest)"
      using hot_values_num [OF wf] hv by simp
    then obtain b0 where b0: "num_of v0 = Some b0" by auto
    from allnum have restnum: "list_all (\<lambda>kv. num_of (snd kv) \<noteq> None) rest" by simp
    from max_by_value_num [OF b0 restnum, of k0] obtain cq tq rq where
      mx: "max_by_value rest k0 v0 = Inr cq" "(cq, tq) \<in> set ((k0, v0) # rest)" "num_of tq = Some rq"
          "\<forall>kv \<in> set ((k0, v0) # rest). \<forall>r'. num_of (snd kv) = Some r' \<longrightarrow> r' \<le> rq"
      by blast
    from min_by_value_num [OF b0 restnum, of k0] obtain cf tf rf where
      mn: "min_by_value rest k0 v0 = Inr cf" "(cf, tf) \<in> set ((k0, v0) # rest)" "num_of tf = Some rf"
          "\<forall>kv \<in> set ((k0, v0) # rest). \<forall>r'. num_of (snd kv) = Some r' \<longrightarrow> rf \<le> r'"
      by blast
    have dk: "distinct (map fst ((k0, v0) # rest))"
      using hot_values_distinct [OF dist] hv by simp
    have iq: "py_item (PDict ((k0, v0) # rest)) cq = Inr tq" by (rule py_item_member [OF dk mx(2)])
    have "py_item (PDict ((k0, v0) # rest)) cf = Inr tf" by (rule py_item_member [OF dk mn(2)])
    with iq mx(1) mn(1) a have res: "compare_cities resultados = Inr (comparison cq tq cf tf)"
      by (simp add: compare_cities_def coll hv comparison_def)
    have mq: "(cq, rq) \<in> set (nonzero_temps resultados)"
      using nonzero_temps_member [OF wf _ mx(3)] mx(2) hv by simp
    have mf: "(cf, rf) \<in> set (nonzero_temps resultados)"
      using nonzero_temps_member [OF wf _ mn(3)] mn(2) hv by simp
    have bnd: "\<forall>cr \<in> set (nonzero_temps resultados). rf \<le> snd cr \<and> snd cr \<le> rq"
    proof
      fix cr assume "cr \<in> set (nonzero_temps resultados)"
      then have "(fst cr, snd cr) \<in> set (nonzero_temps resultados)" by simp
      from nonzero_temps_bound [OF wf this] obtain v where
        v: "(fst cr, v) \<in> set (hot_values resultados)" "num_of v = Some (snd cr)" by blast
      from v(1) hv have "(fst cr, v) \<in> set ((k0, v0) # rest)" by simp
      with mx(4) mn(4) v(2) show "rf \<le> snd cr \<and> snd cr \<le> rq" by fastforce
    qed
    from res mx(3) mn(3) mq mf bnd
    show "\<exists>cq tq rq cf tf rf.
               compare_cities resultados = Inr (comparison cq tq cf tf) \<and>
               num_of tq = Some rq \<and> num_of tf = Some rf \<and>
               (cq, rq) \<in> set (nonzero_temps resultados) \<and>
               (cf, rf) \<in> set (nonzero_temps resultados) \<and>
               (\<forall>cr \<in> set (nonzero_temps resultados). rf \<le> snd cr \<and> snd cr \<le> rq)"
      by blast
  }
qed

text \<open>The theorem at three cities, one of them at zero degrees.\<close>

theorem compare_cities_nonzero_only_witness:
  "list_all (\<lambda>cd. well_formed_city (snd cd)) [(''A'', city (PInt 25)), (''B'', city (PInt 0)), (''C'', city (PFloat 30))]
   \<and> distinct (map fst [(''A'', city (PInt 25)), (''B'', city (PInt 0)), (''C'', city (PFloat 30))])
   \<and> nonzero_temps [(''A'', city (PInt 25)), (''B'', city (PInt 0)), (''C'', city (PFloat 30))] = [(''A'', 25), (''C'', 30)]
   \<and> (\<exists>cq tq cf tf. compare_cities [(''A'', city (PInt 25)), (''B'', city (PInt 0)), (''C'', city (PFloat 30))]
         = Inr (comparison cq tq cf tf) \<and> num_of tq = Some 30 \<and> num_of tf = Some 25)"
  using compare_cities_nonzero_only [of "[(''A'', city (PInt 25)), (''B'', city (PInt 0)), (''C'', city (PFloat 30))]"]
  by (simp add: city_def dict_get_def) force

text \<open>
  Claim C10 as first stated fails for a single city: it reports a nonzero temperature, yet
  the answer is the error marker, not a comparison naming it.
\<close>

theorem compare_cities_counterexample:
  "nonzero_temps [(''A'', PDict [(''clima'', PDict [(''temperatura'', PInt 25)])])] = [(''A'', 25)]
   \<and> compare_cities [(''A'', PDict [(''clima'', PDict [(''temperatura'', PInt 25)])])]
       = Inr (PDict [(''erro'', PStr msg_two_cities)])"
  by (simp add: compare_cities_def dict_get_def)

section \<open>Best travel day\<close>

lemma py_add_int:
  "int_of a = Some x \<Longrightarrow> int_of b = Some y \<Longrightarrow> py_add a b = Inr (PInt (x + y))"
  by (cases a; cases b) (auto simp: py_add_def)

lemma py_lt_int: "int_of x = Some a \<Longrightarrow> int_of y = Some b \<Longrightarrow> py_lt x y = Inr (a < b)"
  by (cases x; cases y) (auto split: if_splits)

lemma wf_day_get:
  "well_formed_day x \<Longrightarrow> py_get x k dflt = Inr (field x k dflt)"
  by (cases x) (auto simp: py_get_def field_def)

lemma wf_day_rain:
  "well_formed_day x \<Longrightarrow> int_of (field x ''probabilidade_chuva'' (PInt 50)) = Some (rain x)"
  by (cases x) (auto simp: field_def split: option.splits)

lemma summed_rain_len [simp]: "length (summed_rain days) = length days"
  by (simp add: summed_rain_def)

lemma best_day_loop_min:
  assumes "list_all (\<lambda>od. well_formed_day (fst od) \<and> well_formed_day (snd od)) days"
    and "int_of menor = Some m"
  shows "((\<forall>s \<in> set (summed_rain days). m \<le> s) \<and> best_day_loop days i menor melhor = Inr melhor) \<or>
         (\<exists>j < length days. summed_rain days ! j < m \<and>
             (\<forall>k < length days. summed_rain days ! j \<le> summed_rain days ! k) \<and>
             (\<forall>k < j. summed_rain days ! j < summed_rain days ! k) \<and>
             best_day_loop days i menor melhor = Inr (day_record (i + j) (days ! j)))"
  using assms
proof (induction days arbitrary: i menor m melhor)
  case Nil
  then show ?case by (simp add: summed_rain_def)
next
  case (Cons p days)
  obtain orig dest where p: "p = (orig, dest)" by (cases p)
  from Cons.prems have wo: "well_formed_day orig" and wd: "well_formed_day dest"
    and wfs: "list_all (\<lambda>od. well_formed_day (fst od) \<and> well_formed_day (snd od)) days"
    by (auto simp: p)
  define s0 where "s0 = rain orig + rain dest"
  define v where "v = PInt s0"
  have v: "py_add (field orig ''probabilidade_chuva'' (PInt 50))
                  (field dest ''probabilidade_chuva'' (PInt 50)) = Inr v"
    using py_add_int [OF wf_day_rain [OF wo] wf_day_rain [OF wd]] by (simp add: v_def s0_def)
  have nv: "int_of v = Some s0" by (simp add: v_def)
  have lt: "py_lt v menor = Inr (s0 < m)" using nv Cons.prems(2) by (rule py_lt_int)
  have sums: "summed_rain (p # days) = s0 # summed_rain days"
    by (simp add: summed_rain_def p s0_def)
  show ?case
  proof (cases "s0 < m")
    case True
    have step: "best_day_loop (p # days) i menor melhor =
                best_day_loop days (Suc i) v (day_record i p)"
      by (simp add: p wf_day_get [OF wo] wf_day_get [OF wd] v lt True day_record_def)
    from Cons.IH [OF wfs nv, of "Suc i" "day_record i p"]
    show ?thesis
    proof (elim disjE conjE exE)
      assume a: "\<forall>s \<in> set (summed_rain days). s0 \<le> s"
        and r: "best_day_loop days (Suc i) v (day_record i p) = Inr (day_record i p)"
      have "\<forall>k < length (p # days). summed_rain (p # days) ! 0 \<le> summed_rain (p # days) ! k"
      proof (intro allI impI)
        fix k assume "k < length (p # days)"
        then show "summed_rain (p # days) ! 0 \<le> summed_rain (p # days) ! k"
          using a by (cases k) (auto simp: sums summed_rain_len)
      qed
      then show ?thesis
        using True r by (intro disjI2 exI [of _ 0]) (simp add: sums step del: best_day_loop.simps)
    next
      fix j
      assume j: "j < length days" "summed_rain days ! j < s0"
        "\<forall>k < length days. summed_rain days ! j \<le> summed_rain days ! k"
        "\<forall>k < j. summed_rain days ! j < summed_rain days ! k"
        "best_day_loop days (Suc i) v (day_record i p) = Inr (day_record (Suc i + j) (days ! j))"
      have 1: "\<forall>k < length (p # days). summed_rain (p # days) ! Suc j \<le> summed_rain (p # days) ! k"
      proof (intro allI impI)
        fix k assume "k < length (p # days)"
        then show "summed_rain (p # days) ! Suc j \<le> summed_rain (p # days) ! k"
          using j(2,3) by (cases k) (auto simp: sums)
      qed
      have 2: "\<forall>k < Suc j. summed_rain (p # days) ! Suc j < summed_rain (p # days) ! k"
      proof (intro allI impI)
        fix k assume "k < Suc j"
        then show "summed_rain (p # days) ! Suc j < summed_rain (p # days) ! k"
          using j(2,4) by (cases k) (auto simp: sums)
      qed
      show ?thesis
        using j(1,2,5) True 1 2 by (intro disjI2 exI [of _ "Suc j"]) (simp add: sums step del: best_day_loop.simps)
    qed
  next
    case False
    have step: "best_day_loop (p # days) i menor melhor = best_day_loop days (Suc i) menor melhor"
      by (simp add: p wf_day_get [OF wo] wf_day_get [OF wd] v lt False)
    from Cons.IH [OF wfs Cons.prems(2), of "Suc i" melhor]
    show ?thesis
    proof (elim disjE conjE exE)
      assume a: "\<forall>s \<in> set (summed_rain days). m \<le> s"
        and r: "best_day_loop days (Suc i) menor melhor = Inr melhor"
      then show ?thesis using False by (intro disjI1) (simp add: sums step del: best_day_loop.simps)
    next
      fix j
      assume j: "j < length days" "summed_rain days ! j < m"
        "\<forall>k < length days. summed_rain days ! j \<le> summed_rain days ! k"
        "\<forall>k < j. summed_rain days ! j < summed_rain days ! k"
        "best_day_loop days (Suc i) menor melhor = Inr (day_record (Suc i + j) (days ! j))"
      have 1: "\<forall>k < length (p # days). summed_rain (p # days) ! Suc j \<le> summed_rain (p # days) ! k"
      proof (intro allI impI)
        fix k assume "k < length (p # days)"
        then show "summed_rain (p # days) ! Suc j \<le> summed_rain (p # days) ! k"
          using j(2,3) False by (cases k) (auto simp: sums)
      qed
      have 2: "\<forall>k < Suc j. summed_rain (p # days) ! Suc j < summed_rain (p # days) ! k"
      proof (intro allI impI)
        fix k assume "k < Suc j"
        then show "summed_rain (p # days) ! Suc j < summed_rain (p # days) ! k"
          using j(2,4) False by (cases k) (auto simp: sums)
      qed
      show ?thesis
        using j(1,2,5) 1 2 by (intro disjI2 exI [of _ "Suc j"]) (simp add: sums step del: best_day_loop.simps)
    qed
  qed
qed

text \<open>
  Claim C7, as amended. When both forecasts carry a non-empty \<open>previsoes\<close> list of
  entries that are mappings with an integer rain probability or none, as the simulated
  forecasts are, the days are the pairs of the zipped lists and the rain of a day is the
  sum of the two probabilities (50 where an entry has none). If some day's sum is below
  100, \<open>_suggest_best_travel_day\<close> returns the record of the first day whose sum is
  minimal, numbered from 1; if every sum is 100 or more it returns the informational
  marker instead of a day.
\<close>

theorem suggest_best_travel_day_first_minimum:
  assumes po: "dict_get po ''previsoes'' = Some (PList os)" and os: "os \<noteq> []"
    and wo: "list_all well_formed_day os"
    and pd: "dict_get pd ''previsoes'' = Some (PList ds)" and ds: "ds \<noteq> []"
    and wd: "list_all well_formed_day ds"
  shows "((\<forall>s \<in> set (summed_rain (zip os ds)). 100 \<le> s) \<longrightarrow>
            suggest_best_travel_day (PDict po) (PDict pd) = Inr (PDict [(''info'', PStr msg_no_best_day)])) \<and>
         ((\<exists>s \<in> set (summed_rain (zip os ds)). s < 100) \<longrightarrow>
            (\<exists>j < length (zip os ds).
               (\<forall>k < length (zip os ds). summed_rain (zip os ds) ! j \<le> summed_rain (zip os ds) ! k) \<and>
               (\<forall>k < j. summed_rain (zip os ds) ! j < summed_rain (zip os ds) ! k) \<and>
               suggest_best_travel_day (PDict po) (PDict pd) = Inr (day_record j (zip os ds ! j))))"
proof -
  have wf: "list_all (\<lambda>od. well_formed_day (fst od) \<and> well_formed_day (snd od)) (zip os ds)"
    using wo wd by (auto simp: list_all_iff dest: set_zip_leftD set_zip_rightD)
  have ne: "po \<noteq> []" "pd \<noteq> []" using po pd by (auto simp: dict_get_def)
  have run: "suggest_best_travel_day (PDict po) (PDict pd) =
          bind (best_day_loop (zip os ds) 0 (PInt 100) PNone) (\<lambda>melhor_dia.
              Inr (if truthy melhor_dia then melhor_dia else PDict [(''info'', PStr msg_no_best_day)]))"
    using ne os ds by (simp add: suggest_best_travel_day_def py_get_def po pd py_iter_def)
  have hundred: "int_of (PInt 100) = Some 100" by simp
  from best_day_loop_min [OF wf hundred, of 0 PNone]
  show ?thesis
  proof (elim disjE conjE exE)
    assume a: "\<forall>s \<in> set (summed_rain (zip os ds)). 100 \<le> s"
      and r: "best_day_loop (zip os ds) 0 (PInt 100) PNone = Inr PNone"
    from a have "\<not> (\<exists>s \<in> set (summed_rain (zip os ds)). s < 100)" by auto
    then show ?thesis using r by (simp add: run)
  next
    fix j
    assume j: "j < length (zip os ds)" "summed_rain (zip os ds) ! j < 100"
      "\<forall>k < length (zip os ds). summed_rain (zip os ds) ! j \<le> summed_rain (zip os ds) ! k"
      "\<forall>k < j. summed_rain (zip os ds) ! j < summed_rain (zip os ds) ! k"
      "best_day_loop (zip os ds) 0 (PInt 100) PNone = Inr (day_record (0 + j) (zip os ds ! j))"
    have t: "truthy (day_record j (zip os ds ! j))" by (simp add: day_record_def)
    have res: "suggest_best_travel_day (PDict po) (PDict pd) = Inr (day_record j (zip os ds ! j))"
      using j(5) t by (simp add: run)
    have "summed_rain (zip os ds) ! j \<in> set (summed_rain (zip os ds))"
      using j(1) by (intro nth_mem) simp
    with j(2) have "\<not> (\<forall>s \<in> set (summed_rain (zip os ds)). 100 \<le> s)" by fastforce
    with j(1,3,4) res show ?thesis by blast
  qed
qed

text \<open>The theorem at three days with sums 100, 60 and 60: the second day is chosen.\<close>

theorem suggest_best_travel_day_first_minimum_witness:
  "dict_get [(''previsoes'', PList [day 50, day 10, day 10])] ''previsoes'' = Some (PList [day 50, day 10, day 10])
   \<and> list_all well_formed_day [day 50, day 10, day 10]
   \<and> dict_get [(''previsoes'', PList [day 50, PDict [], PDict []])] ''previsoes'' = Some (PList [day 50, PDict [], PDict []])
   \<and> list_all well_formed_day [day 50, PDict [], PDict []]
   \<and> summed_rain (zip [day 50, day 10, day 10] [day 50, PDict [], PDict []]) = [100, 60, 60]
   \<and> (\<exists>j < 3. suggest_best_travel_day (PDict [(''previsoes'', PList [day 50, day 10, day 10])])
                 (PDict [(''previsoes'', PList [day 50, PDict [], PDict []])])
               = Inr (day_record j (zip [day 50, day 10, day 10] [day 50, PDict [], PDict []] ! j)))"
  using suggest_best_travel_day_first_minimum
    [of "[(''previsoes'', PList [day 50, day 10, day 10])]" "[day 50, day 10, day 10]"
        "[(''previsoes'', PList [day 50, PDict [], PDict []])]" "[day 50, PDict [], PDict []]"]
  by (simp add: dict_get_def day_def summed_rain_def) (auto simp: numeral_3_eq_3)

text \<open>
  Claim C7 as first stated fails when the minimal sum is not below 100: with one day at
  50 and 50 the minimum is that day, and the answer is the informational marker.
\<close>

theorem suggest_best_travel_day_counterexample:
  "summed_rain (zip [PDict [(''probabilidade_chuva'', PInt 50)]] [PDict [(''probabilidade_chuva'', PInt 50)]]) = [100]
   \<and> suggest_best_travel_day
        (PDict [(''previsoes'', PList [PDict [(''probabilidade_chuva'', PInt 50)]])])
        (PDict [(''previsoes'', PList [PDict [(''probabilidade_chuva'', PInt 50)]])])
      = Inr (PDict [(''info'', PStr msg_no_best_day)])"
  by (simp add: summed_rain_def suggest_best_travel_day_def py_get_def dict_get_def py_iter_def py_add_def)

end
